theory Spec2Isabelle
  imports Main "HOL-Library.Word"
begin

unbundle bit_operations_syntax

section \<open>Bytes, errors and the JavaScript helpers the Ledger app uses\<close>

text \<open>
  The embedded program is the Celo/Ethereum Ledger application client of
  \<^verbatim>\<open>src/blockchains/celo/hw/index.ts\<close> and the account helper of
  \<^verbatim>\<open>src/blockchains/celo/ledger.ts\<close>. A Node \<^verbatim>\<open>Buffer\<close> is a list of bytes; a
  promise that rejects and a function that throws are both the left injection of a
  sum; a JavaScript \<^verbatim>\<open>number\<close> that the code computes with is an \<^typ>\<open>int\<close>.
\<close>

type_synonym byte = "8 word"
type_synonym Buffer = "byte list"

datatype error =
    TransportStatusError nat
  | TransportError string
  | EthAppPleaseEnableContractData string
  | RangeError
  | TypeError
  | Error string

text \<open>The \<^verbatim>\<open>statusCode\<close> property of a rejected value; \<open>None\<close> when it has none.\<close>

fun statusCode :: "error \<Rightarrow> nat option" where
  "statusCode (TransportStatusError c) = Some c"
| "statusCode _ = None"

definition bind_err :: "error + 'a \<Rightarrow> ('a \<Rightarrow> error + 'b) \<Rightarrow> error + 'b" where
  "bind_err m f = (case m of Inl e \<Rightarrow> Inl e | Inr x \<Rightarrow> f x)"

subsection \<open>Hexadecimal and decimal strings\<close>

definition hexChar :: "nat \<Rightarrow> char" where
  "hexChar n = (if n < 10 then char_of (48 + n) else char_of (87 + n))"

definition hexDigit :: "char \<Rightarrow> nat option" where
  "hexDigit c = (let n = of_char c :: nat in
     if 48 \<le> n \<and> n \<le> 57 then Some (n - 48)
     else if 97 \<le> n \<and> n \<le> 102 then Some (n - 87)
     else if 65 \<le> n \<and> n \<le> 70 then Some (n - 55)
     else None)"

text \<open>
  \<^verbatim>\<open>Buffer.from(str, "hex")\<close>: two digits a byte; decoding stops at the first pair that
  is not hexadecimal, and a trailing single character is dropped.
\<close>

fun Buffer_from_hex :: "string \<Rightarrow> Buffer" where
  "Buffer_from_hex (a # b # rest) =
     (case hexDigit a of
        None \<Rightarrow> []
      | Some x \<Rightarrow>
          (case hexDigit b of
             None \<Rightarrow> []
           | Some y \<Rightarrow> word_of_nat (16 * x + y) # Buffer_from_hex rest))"
| "Buffer_from_hex _ = []"

text \<open>\<^verbatim>\<open>buf.toString("hex")\<close> and \<^verbatim>\<open>buf.toString("ascii")\<close>.\<close>

definition toString_hex :: "Buffer \<Rightarrow> string" where
  "toString_hex buf = concat (map (\<lambda>b. [hexChar (unat b div 16), hexChar (unat b mod 16)]) buf)"

definition toString_ascii :: "Buffer \<Rightarrow> string" where
  "toString_ascii buf = map (\<lambda>b. char_of (unat b mod 128)) buf"

text \<open>
  \<^verbatim>\<open>BigNumber.toString(16)\<close> for a non-negative integer magnitude (the values the
  Stark operations document), and \<^verbatim>\<open>String(n)\<close> for a non-negative integer.
\<close>

fun toString16 :: "nat \<Rightarrow> string" where
  "toString16 n = (if n < 16 then [hexChar n] else toString16 (n div 16) @ [hexChar (n mod 16)])"

fun Number_toString :: "nat \<Rightarrow> string" where
  "Number_toString n =
     (if n < 10 then [char_of (48 + n)] else Number_toString (n div 10) @ [char_of (48 + n mod 10)])"

declare toString16.simps [simp del]

declare Number_toString.simps [simp del]

definition padStart :: "nat \<Rightarrow> char \<Rightarrow> string \<Rightarrow> string" where
  "padStart targetLength c str = replicate (targetLength - length str) c @ str"

text \<open>Lines 42-51 of index.ts.\<close>

definition hexBuffer :: "string \<Rightarrow> Buffer" where
  "hexBuffer str = Buffer_from_hex (if take 2 str = ''0x'' then drop 2 str else str)"

definition maybeHexBuffer :: "string option \<Rightarrow> Buffer option" where
  "maybeHexBuffer str =
     (case str of None \<Rightarrow> None | Some st \<Rightarrow> if st = [] then None else Some (hexBuffer st))"

text \<open>
  The expression every fixed-width magnitude field is produced by:
  \<^verbatim>\<open>Buffer.from(x.toString(16).padStart(2 * width, "0"), "hex")\<close>.
\<close>

definition magnitude_bytes :: "nat \<Rightarrow> nat \<Rightarrow> Buffer" where
  "magnitude_bytes width x = Buffer_from_hex (padStart (2 * width) (CHR ''0'') (toString16 x))"

subsection \<open>Buffers\<close>

text \<open>\<^verbatim>\<open>Buffer.alloc(size)\<close>: zero-filled; a negative size throws a RangeError.\<close>

definition Buffer_alloc :: "int \<Rightarrow> error + Buffer" where
  "Buffer_alloc n = (if n < 0 then Inl RangeError else Inr (replicate (nat n) 0))"

text \<open>\<^verbatim>\<open>buffer[i] = value\<close>: the value modulo 256; no effect outside the buffer.\<close>

definition set_byte :: "Buffer \<Rightarrow> nat \<Rightarrow> nat \<Rightarrow> Buffer" where
  "set_byte buffer i val = (if i < length buffer then buffer[i := word_of_nat val] else buffer)"

text \<open>
  Overwriting the bytes of a buffer from \<open>off\<close> on with \<open>bs\<close>, clipped at the end of
  the buffer: what a copy or a fixed-width write leaves behind.
\<close>

definition overwrite :: "Buffer \<Rightarrow> nat \<Rightarrow> Buffer \<Rightarrow> Buffer" where
  "overwrite buffer off bs =
     take off buffer @ take (length buffer - off) bs @ drop (off + length bs) buffer"

definition be32 :: "int \<Rightarrow> Buffer" where
  "be32 val = [word_of_int (val div 2 ^ 24), word_of_int (val div 2 ^ 16),
               word_of_int (val div 2 ^ 8), word_of_int val]"

text \<open>
  \<^verbatim>\<open>buffer.writeUInt32BE(value, offset)\<close>: a value outside \<open>0 .. 2^32 - 1\<close> and a write
  that does not fit both throw a RangeError.
\<close>

definition writeUInt32BE :: "Buffer \<Rightarrow> int \<Rightarrow> nat \<Rightarrow> error + Buffer" where
  "writeUInt32BE buffer val offset =
     (if val < 0 \<or> 2 ^ 32 \<le> val then Inl RangeError
      else if length buffer < offset + 4 then Inl RangeError
      else Inr (overwrite buffer offset (be32 val)))"

text \<open>
  \<^verbatim>\<open>source.copy(target, targetStart, sourceStart, sourceEnd)\<close>, returning the target:
  negative arguments and a start beyond the source throw a RangeError; the number of
  bytes copied is clipped to the source and to the room left in the target.
\<close>

definition Buffer_copy :: "Buffer \<Rightarrow> Buffer \<Rightarrow> int \<Rightarrow> int \<Rightarrow> int \<Rightarrow> error + Buffer" where
  "Buffer_copy source target targetStart sourceStart sourceEnd =
     (if targetStart < 0 \<or> sourceStart < 0 \<or> int (length source) < sourceStart \<or> sourceEnd < 0
      then Inl RangeError
      else if int (length target) \<le> targetStart \<or> sourceEnd \<le> sourceStart then Inr target
      else Inr (overwrite target (nat targetStart)
                  (take (nat (sourceEnd - sourceStart)) (drop (nat sourceStart) source))))"

text \<open>\<^verbatim>\<open>source.copy(target, targetStart)\<close>: the whole source.\<close>

definition copy_to :: "Buffer \<Rightarrow> Buffer \<Rightarrow> nat \<Rightarrow> error + Buffer" where
  "copy_to source target targetStart =
     Buffer_copy source target (int targetStart) 0 (int (length source))"

text \<open>
  \<^verbatim>\<open>buf.slice(start, end)\<close>: a negative index counts from the end, and both are
  clipped to the buffer.
\<close>

definition slice_index :: "nat \<Rightarrow> int \<Rightarrow> nat" where
  "slice_index len i = (if i < 0 then nat (max (int len + i) 0) else min (nat i) len)"

definition Buffer_slice :: "Buffer \<Rightarrow> int \<Rightarrow> int \<Rightarrow> Buffer" where
  "Buffer_slice buf start end' =
     (let s = slice_index (length buf) start; e = slice_index (length buf) end'
      in take (e - s) (drop s buf))"

text \<open>
  \<^verbatim>\<open>response[i]\<close> is \<^verbatim>\<open>undefined\<close> outside the buffer, \<^verbatim>\<open>1 + undefined\<close> is NaN, and
  \<^verbatim>\<open>slice\<close> reads NaN as 0. A number that may be NaN (or a byte that may be undefined)
  is an \<^typ>\<open>int option\<close>.
\<close>

definition byte_at :: "Buffer \<Rightarrow> int option \<Rightarrow> int option" where
  "byte_at buf i =
     (case i of
        None \<Rightarrow> None
      | Some j \<Rightarrow> if 0 \<le> j \<and> j < int (length buf) then Some (uint (buf ! nat j)) else None)"

definition js_add :: "int \<Rightarrow> int option \<Rightarrow> int option" where
  "js_add a b = (case b of None \<Rightarrow> None | Some x \<Rightarrow> Some (a + x))"

definition toInteger :: "int option \<Rightarrow> int" where
  "toInteger x = (case x of None \<Rightarrow> 0 | Some i \<Rightarrow> i)"

text \<open>
  Lines 118-121 (repeated in every operation that takes a path):
  \<^verbatim>\<open>buffer[0] = paths.length; paths.forEach((element, index) => {
      buffer.writeUInt32BE(element, 1 + 4 * index); });\<close>
  The value \<^verbatim>\<open>splitPath(path)\<close> returns is the parameter \<open>paths\<close> of every operation:
  the unsigned 32-bit integers of the derivation path.
\<close>

fun forEach_write :: "Buffer \<Rightarrow> 32 word list \<Rightarrow> nat \<Rightarrow> error + Buffer" where
  "forEach_write buffer [] index = Inr buffer"
| "forEach_write buffer (element # rest) index =
     (case writeUInt32BE buffer (uint element) (1 + 4 * index) of
        Inl e \<Rightarrow> Inl e
      | Inr buffer' \<Rightarrow> forEach_write buffer' rest (Suc index))"

definition write_path_header :: "Buffer \<Rightarrow> 32 word list \<Rightarrow> error + Buffer" where
  "write_path_header buffer paths = forEach_write (set_byte buffer 0 (length paths)) paths 0"

definition path_header :: "32 word list \<Rightarrow> Buffer" where
  "path_header paths = word_of_nat (length paths) # concat (map (\<lambda>e. be32 (uint e)) paths)"


section \<open>The transport and the sequential dispatcher\<close>

text \<open>
  \<^verbatim>\<open>transport.send(cla, ins, p1, p2, data)\<close> is the collaborator of the layer: it
  answers with the response bytes or rejects with an error, and the device behind it
  changes state, so a transport is a function of the request and a state \<open>'s\<close>.
\<close>

record apdu =
  cla :: nat
  ins :: nat
  p1 :: nat
  p2 :: nat
  data :: Buffer

type_synonym 's transport = "apdu \<Rightarrow> 's \<Rightarrow> (error + Buffer) \<times> 's"

text \<open>
  An operation that throws while it builds its frame sends nothing; otherwise the frame
  goes to the transport.
\<close>

definition send_frame :: "error + apdu \<Rightarrow> 's transport \<Rightarrow> 's \<Rightarrow> (error + Buffer) \<times> 's" where
  "send_frame request t s = (case request of Inl e \<Rightarrow> (Inl e, s) | Inr a \<Rightarrow> t a s)"

text \<open>\<^verbatim>\<open>promise.then(onFulfilled)\<close> and \<^verbatim>\<open>promise.then(onFulfilled, onRejected)\<close>.\<close>

definition then_resolve :: "(error + 'a) \<times> 's \<Rightarrow> ('a \<Rightarrow> 'b) \<Rightarrow> (error + 'b) \<times> 's" where
  "then_resolve p onFulfilled =
     (case p of (Inl e, s) \<Rightarrow> (Inl e, s) | (Inr x, s) \<Rightarrow> (Inr (onFulfilled x), s))"

definition then_both ::
  "(error + 'a) \<times> 's \<Rightarrow> ('a \<Rightarrow> error + 'b) \<Rightarrow> (error \<Rightarrow> error + 'b) \<Rightarrow> (error + 'b) \<times> 's" where
  "then_both p onFulfilled onRejected =
     (case p of (Inl e, s) \<Rightarrow> (onRejected e, s) | (Inr x, s) \<Rightarrow> (onFulfilled x, s))"

text \<open>
  Modelled from the spec: \<^verbatim>\<open>foreach\<close> of \<^verbatim>\<open>./utils\<close>, which is not among the sources.
  Section 4.4: the callback runs on each frame strictly in order, each awaited to
  completion before the next is issued, and an error on a frame aborts the remaining
  sequence immediately.
\<close>

fun iterate ::
  "nat \<Rightarrow> 'a list \<Rightarrow> ('a \<Rightarrow> nat \<Rightarrow> 'st \<Rightarrow> (error + 'b) \<times> 'st) \<Rightarrow> 'st \<Rightarrow> (error + 'b list) \<times> 'st" where
  "iterate index [] callback st = (Inr [], st)"
| "iterate index (x # rest) callback st =
     (case callback x index st of
        (Inl e, st') \<Rightarrow> (Inl e, st')
      | (Inr res, st') \<Rightarrow>
          (case iterate (Suc index) rest callback st' of
             (Inl e, st'') \<Rightarrow> (Inl e, st'')
           | (Inr result, st'') \<Rightarrow> (Inr (res # result), st'')))"

definition foreach ::
  "'a list \<Rightarrow> ('a \<Rightarrow> nat \<Rightarrow> 'st \<Rightarrow> (error + 'b) \<times> 'st) \<Rightarrow> 'st \<Rightarrow> (error + 'b list) \<times> 'st" where
  "foreach arr callback st = iterate 0 arr callback st"

section \<open>RLP, as signTransaction uses it\<close>

text \<open>
  \<^verbatim>\<open>decode\<close> and \<^verbatim>\<open>encode\<close> come from the \<^verbatim>\<open>rlp\<close> package. A decoded value is a
  Buffer or an array of decoded values. \<^verbatim>\<open>encode\<close> is the canonical encoding;
  \<^verbatim>\<open>decode\<close> is a parameter of \<open>signTransaction\<close> below, and \<open>rlp_decode\<close> is the
  package's decoder, used where a concrete one is needed.
\<close>

datatype rlp = RlpBytes Buffer | RlpList "rlp list"

fun intToBytes :: "nat \<Rightarrow> Buffer" where
  "intToBytes n = (if n < 256 then [word_of_nat n] else intToBytes (n div 256) @ [word_of_nat n])"

declare intToBytes.simps [simp del]

definition encodeLength :: "nat \<Rightarrow> nat \<Rightarrow> Buffer" where
  "encodeLength len offset =
     (if len < 56 then [word_of_nat (len + offset)]
      else let hexLength = intToBytes len
           in word_of_nat (offset + 55 + length hexLength) # hexLength)"

fun encode :: "rlp \<Rightarrow> Buffer" where
  "encode (RlpBytes inputBuf) =
     (if length inputBuf = 1 \<and> unat (hd inputBuf) < 128 then inputBuf
      else encodeLength (length inputBuf) 128 @ inputBuf)"
| "encode (RlpList input) =
     (let buf = concat (map encode input) in encodeLength (length buf) 192 @ buf)"

text \<open>\<^verbatim>\<open>rlpTx.length\<close> and \<^verbatim>\<open>rlpTx.slice(-3)\<close>, on a Buffer and on an array.\<close>

fun rlp_length :: "rlp \<Rightarrow> nat" where
  "rlp_length (RlpBytes b) = length b"
| "rlp_length (RlpList xs) = length xs"

fun rlp_slice_last3 :: "rlp \<Rightarrow> rlp" where
  "rlp_slice_last3 (RlpBytes b) = RlpBytes (drop (length b - 3) b)"
| "rlp_slice_last3 (RlpList xs) = RlpList (drop (length xs - 3) xs)"

definition be_nat :: "Buffer \<Rightarrow> nat" where
  "be_nat bs = foldl (\<lambda>a b. 256 * a + unat b) 0 bs"

text \<open>
  \<^verbatim>\<open>decode\<close> of the package. Its \<^verbatim>\<open>_decode(input)\<close> returns the first item of a non-empty
  input and the remainder after it. Whether the item is a list, where its payload lies
  and where the remainder starts are read from the first bytes alone, and
  \<open>rlp_header\<close> is that part of \<^verbatim>\<open>_decode\<close>, with its checks in their order:
  \<^verbatim>\<open>slice\<close> clips, so a short item ends with the input, while a long one is checked
  against it. \<open>rlp_decode_item\<close> is the data of \<^verbatim>\<open>_decode\<close>, and \<open>rlp_decode_items\<close> its
  loop \<^verbatim>\<open>while (innerRemainder.length)\<close> over the payload of a list.
  \<^verbatim>\<open>safeParseInt\<close> refuses a length that starts with a zero byte.
\<close>

definition safeParseInt :: "Buffer \<Rightarrow> error + nat" where
  "safeParseInt v =
     (if v \<noteq> [] \<and> hd v = 0 then Inl (Error ''invalid RLP: extra zeros'') else Inr (be_nat v))"

definition rlp_header :: "Buffer \<Rightarrow> error + (bool \<times> Buffer \<times> Buffer)" where
  "rlp_header input =
     (if input = [] then Inl (Error ''invalid rlp, List has a invalid length'')
      else let firstByte = unat (hd input) in
      if firstByte \<le> 0x7f then Inr (False, take 1 input, drop 1 input)
      else if firstByte \<le> 0xb7 then
        (let len = firstByte - 0x7f;
             dat = (if firstByte = 0x80 then [] else drop 1 (take len input))
         in if len = 2 \<and> dat \<noteq> [] \<and> unat (hd dat) < 0x80
            then Inl (Error ''invalid rlp encoding: byte must be less 0x80'')
            else Inr (False, dat, drop len input))
      else if firstByte \<le> 0xbf then
        (let llength = firstByte - 0xb6 in
         if length input - 1 < llength
         then Inl (Error ''invalid RLP: not enough bytes for string length'')
         else (case safeParseInt (drop 1 (take llength input)) of
                 Inl e \<Rightarrow> Inl e
               | Inr len \<Rightarrow>
                   if len \<le> 55
                   then Inl (Error ''invalid RLP: expected string length to be greater than 55'')
                   else (let dat = drop llength (take (len + llength) input) in
                         if length dat < len
                         then Inl (Error ''invalid RLP: not enough bytes for string'')
                         else Inr (False, dat, drop (len + llength) input))))
      else if firstByte \<le> 0xf7 then
        (let len = firstByte - 0xbf in Inr (True, drop 1 (take len input), drop len input))
      else
        (let llength = firstByte - 0xf6 in
         case safeParseInt (drop 1 (take llength input)) of
           Inl e \<Rightarrow> Inl e
         | Inr len \<Rightarrow>
             (let totalLength = llength + len in
              if totalLength > length input
              then Inl (Error ''invalid rlp: total length is larger than the data'')
              else (let innerRemainder = drop llength (take totalLength input) in
                    if innerRemainder = []
                    then Inl (Error ''invalid rlp, List has a invalid length'')
                    else Inr (True, innerRemainder, drop totalLength input)))))"

function rlp_decode_item :: "Buffer \<Rightarrow> error + rlp"
  and rlp_decode_items :: "Buffer \<Rightarrow> error + rlp list" where
  "rlp_decode_item input =
     (case rlp_header input of
        Inl e \<Rightarrow> Inl e
      | Inr (is_list, payload, remainder) \<Rightarrow>
          if is_list
          then (case rlp_decode_items payload of
                  Inl e \<Rightarrow> Inl e
                | Inr decoded \<Rightarrow> Inr (RlpList decoded))
          else Inr (RlpBytes payload))"
| "rlp_decode_items innerRemainder =
     (if innerRemainder = [] then Inr []
      else (case rlp_decode_item innerRemainder of
              Inl e \<Rightarrow> Inl e
            | Inr d \<Rightarrow>
                (case rlp_header innerRemainder of
                   Inl e \<Rightarrow> Inl e
                 | Inr (is_list, payload, remainder) \<Rightarrow>
                     (case rlp_decode_items remainder of
                        Inl e \<Rightarrow> Inl e
                      | Inr decoded \<Rightarrow> Inr (d # decoded)))))"
  by pat_completeness auto

termination
  by (relation "measure (\<lambda>x. case x of Inl input \<Rightarrow> 2 * length input
                                     | Inr innerRemainder \<Rightarrow> 2 * length innerRemainder + 1)")
     (auto simp: rlp_header_def Let_def neq_Nil_conv split: if_splits sum.splits)

definition rlp_decode :: "Buffer \<Rightarrow> error + rlp" where
  "rlp_decode input =
     (if input = [] then Inr (RlpBytes [])
      else (case rlp_decode_item input of
              Inl e \<Rightarrow> Inl e
            | Inr d \<Rightarrow>
                (case rlp_header input of
                   Inl e \<Rightarrow> Inl e
                 | Inr (is_list, payload, remainder) \<Rightarrow>
                     if remainder \<noteq> [] then Inl (Error ''invalid remainder'') else Inr d)))"


section \<open>The operations of index.ts\<close>

subsection \<open>getAddress (lines 107-159)\<close>

record address_result =
  publicKey :: string
  address :: string
  chainCode :: "string option"

definition js_plus :: "int option \<Rightarrow> int option \<Rightarrow> int option" where
  "js_plus a b = (case a of None \<Rightarrow> None | Some x \<Rightarrow> js_add x b)"

definition getAddress_apdu :: "32 word list \<Rightarrow> bool \<Rightarrow> bool \<Rightarrow> error + apdu" where
  "getAddress_apdu paths boolDisplay boolChaincode =
     bind_err (Buffer_alloc (1 + int (length paths) * 4)) (\<lambda>buffer.
     bind_err (write_path_header buffer paths) (\<lambda>buffer.
     Inr \<lparr>cla = 0xe0, ins = 0x02, p1 = (if boolDisplay then 0x01 else 0x00),
          p2 = (if boolChaincode then 0x01 else 0x00), data = buffer\<rparr>))"

definition getAddress_parse :: "bool \<Rightarrow> Buffer \<Rightarrow> address_result" where
  "getAddress_parse boolChaincode response =
     (let publicKeyLength = byte_at response (Some 0);
          addressLength = byte_at response (js_plus (Some 1) publicKeyLength);
          publicKey' = toString_hex
            (Buffer_slice response 1 (toInteger (js_plus (Some 1) publicKeyLength)));
          address' = ''0x'' @ toString_ascii
            (Buffer_slice response
               (toInteger (js_plus (js_plus (Some 1) publicKeyLength) (Some 1)))
               (toInteger (js_plus (js_plus (js_plus (Some 1) publicKeyLength) (Some 1)) addressLength)))
      in if boolChaincode then
           \<lparr>publicKey = publicKey', address = address',
            chainCode = Some (toString_hex
              (Buffer_slice response
                 (toInteger (js_plus (js_plus (js_plus (Some 1) publicKeyLength) (Some 1)) addressLength))
                 (toInteger (js_plus (js_plus (js_plus (js_plus (Some 1) publicKeyLength) (Some 1)) addressLength) (Some 32)))))\<rparr>
         else \<lparr>publicKey = publicKey', address = address', chainCode = None\<rparr>)"

definition getAddress ::
  "32 word list \<Rightarrow> bool \<Rightarrow> bool \<Rightarrow> 's transport \<Rightarrow> 's \<Rightarrow> (error + address_result) \<times> 's" where
  "getAddress paths boolDisplay boolChaincode t s =
     then_resolve (send_frame (getAddress_apdu paths boolDisplay boolChaincode) t s)
       (getAddress_parse boolChaincode)"

subsection \<open>provideERC20TokenInformation (lines 176-188)\<close>

definition provideERC20TokenInformation ::
  "Buffer \<Rightarrow> 's transport \<Rightarrow> 's \<Rightarrow> (error + bool) \<times> 's" where
  "provideERC20TokenInformation data' t s =
     then_both (t \<lparr>cla = 0xe0, ins = 0x0a, p1 = 0x00, p2 = 0x00, data = data'\<rparr> s)
       (\<lambda>_. Inr True)
       (\<lambda>e. if statusCode e = Some 0x6d00 then Inr False else Inl e)"

subsection \<open>signTransaction (lines 195-257)\<close>

text \<open>Lines 53-60.\<close>

definition remapTransactionRelatedErrors :: "error \<Rightarrow> error" where
  "remapTransactionRelatedErrors e =
     (if statusCode e = Some 0x6a80
      then EthAppPleaseEnableContractData ''Please enable Contract data on the Ethereum app Settings''
      else e)"

record tx_signature =
  tx_v :: string
  tx_r :: string
  tx_s :: string

text \<open>Lines 225-236: the frame of one iteration of the chunking loop.\<close>

definition signTransaction_buffer :: "32 word list \<Rightarrow> Buffer \<Rightarrow> int \<Rightarrow> int \<Rightarrow> error + Buffer" where
  "signTransaction_buffer paths rawTx offset chunkSize =
     bind_err (Buffer_alloc (if offset = 0 then 1 + int (length paths) * 4 + chunkSize else chunkSize))
       (\<lambda>buffer.
          if offset = 0 then
            bind_err (write_path_header buffer paths) (\<lambda>buffer.
              Buffer_copy rawTx buffer (1 + 4 * int (length paths)) offset (offset + chunkSize))
          else Buffer_copy rawTx buffer 0 offset (offset + chunkSize))"

text \<open>Lines 216-224: the size of the next chunk.\<close>

definition signTransaction_chunkSize :: "32 word list \<Rightarrow> Buffer \<Rightarrow> int \<Rightarrow> int \<Rightarrow> int" where
  "signTransaction_chunkSize paths rawTx rlpOffset offset =
     (let maxChunkSize = (if offset = 0 then 150 - 1 - int (length paths) * 4 else 150);
          chunkSize = (if offset + maxChunkSize > int (length rawTx)
                       then int (length rawTx) - offset else maxChunkSize)
      in if rlpOffset \<noteq> 0 \<and> offset + chunkSize = rlpOffset then chunkSize - 1 else chunkSize)"

text \<open>
  Lines 215-239. The loop runs until \<open>offset\<close> equals the length of the transaction; a
  run that never gets there has the value \<open>None\<close>.
\<close>

partial_function (option) signTransaction_loop ::
  "32 word list \<Rightarrow> Buffer \<Rightarrow> int \<Rightarrow> int \<Rightarrow> Buffer list \<Rightarrow> (error + Buffer list) option" where
  "signTransaction_loop paths rawTx rlpOffset offset toSend =
     (if offset = int (length rawTx) then Some (Inr toSend)
      else
        let chunkSize = signTransaction_chunkSize paths rawTx rlpOffset offset
        in (case signTransaction_buffer paths rawTx offset chunkSize of
              Inl e \<Rightarrow> Some (Inl e)
            | Inr buffer \<Rightarrow>
                signTransaction_loop paths rawTx rlpOffset (offset + chunkSize) (toSend @ [buffer])))"

declare signTransaction_loop.simps [code]

text \<open>Lines 209-214: the offset of the EIP 155 marker, 0 when there is none.\<close>

definition signTransaction_rlpOffset :: "Buffer \<Rightarrow> rlp \<Rightarrow> int" where
  "signTransaction_rlpOffset rawTx rlpTx =
     (if rlp_length rlpTx > 6
      then (let rlpVrs = encode (rlp_slice_last3 rlpTx)
            in int (length rawTx) - (int (length rlpVrs) - 1))
      else 0)"

definition signTransaction_toSend ::
  "(Buffer \<Rightarrow> error + rlp) \<Rightarrow> 32 word list \<Rightarrow> string \<Rightarrow> (error + Buffer list) option" where
  "signTransaction_toSend decode paths rawTxHex =
     (let rawTx = Buffer_from_hex rawTxHex in
      case decode rawTx of
        Inl e \<Rightarrow> Some (Inl e)
      | Inr rlpTx \<Rightarrow> signTransaction_loop paths rawTx (signTransaction_rlpOffset rawTx rlpTx) 0 [])"

text \<open>
  Lines 240-256. The callback of \<^verbatim>\<open>foreach\<close> assigns the variable \<^verbatim>\<open>response\<close>, which
  is \<^verbatim>\<open>undefined\<close> (\<open>None\<close>) until a frame has been answered; reading a property of
  \<^verbatim>\<open>undefined\<close> throws a TypeError.
\<close>

definition send_chunk ::
  "nat \<Rightarrow> 's transport \<Rightarrow> Buffer \<Rightarrow> nat \<Rightarrow> Buffer option \<times> 's \<Rightarrow> (error + unit) \<times> (Buffer option \<times> 's)" where
  "send_chunk instruction t data' i st =
     (case t \<lparr>cla = 0xe0, ins = instruction, p1 = (if i = 0 then 0x00 else 0x80), p2 = 0x00,
              data = data'\<rparr> (snd st) of
        (Inl e, s') \<Rightarrow> (Inl e, (fst st, s'))
      | (Inr apduResponse, s') \<Rightarrow> (Inr (), (Some apduResponse, s')))"

definition signTransaction_parse :: "Buffer option \<Rightarrow> error + tx_signature" where
  "signTransaction_parse response =
     (case response of
        None \<Rightarrow> Inl TypeError
      | Some resp \<Rightarrow>
          Inr \<lparr>tx_v = toString_hex (Buffer_slice resp 0 1),
               tx_r = toString_hex (Buffer_slice resp 1 (1 + 32)),
               tx_s = toString_hex (Buffer_slice resp (1 + 32) (1 + 32 + 32))\<rparr>)"

definition signTransaction_send ::
  "Buffer list \<Rightarrow> 's transport \<Rightarrow> 's \<Rightarrow> (error + tx_signature) \<times> 's" where
  "signTransaction_send toSend t s =
     (case foreach toSend (send_chunk 0x04 t) (None, s) of
        (Inl e, (response, s')) \<Rightarrow> (Inl (remapTransactionRelatedErrors e), s')
      | (Inr _, (response, s')) \<Rightarrow> (signTransaction_parse response, s'))"

definition signTransaction ::
  "(Buffer \<Rightarrow> error + rlp) \<Rightarrow> 32 word list \<Rightarrow> string \<Rightarrow> 's transport \<Rightarrow> 's
     \<Rightarrow> ((error + tx_signature) \<times> 's) option" where
  "signTransaction decode paths rawTxHex t s =
     (case signTransaction_toSend decode paths rawTxHex of
        None \<Rightarrow> None
      | Some (Inl e) \<Rightarrow> Some (Inl e, s)
      | Some (Inr toSend) \<Rightarrow> Some (signTransaction_send toSend t s))"

subsection \<open>getAppConfiguration (lines 261-281)\<close>

record app_configuration =
  arbitraryDataEnabled :: nat
  erc20ProvisioningNecessary :: nat
  starkEnabled :: nat
  starkv2Supported :: nat
  version :: string

definition flag_bits :: "int option \<Rightarrow> byte \<Rightarrow> nat" where
  "flag_bits b m = (case b of None \<Rightarrow> 0 | Some x \<Rightarrow> unat ((word_of_int x :: byte) AND m))"

definition template_number :: "int option \<Rightarrow> string" where
  "template_number b = (case b of None \<Rightarrow> ''undefined'' | Some x \<Rightarrow> Number_toString (nat x))"

definition getAppConfiguration :: "'s transport \<Rightarrow> 's \<Rightarrow> (error + app_configuration) \<times> 's" where
  "getAppConfiguration t s =
     then_resolve (t \<lparr>cla = 0xe0, ins = 0x06, p1 = 0x00, p2 = 0x00, data = []\<rparr> s)
       (\<lambda>response.
          \<lparr>arbitraryDataEnabled = flag_bits (byte_at response (Some 0)) 0x01,
           erc20ProvisioningNecessary = flag_bits (byte_at response (Some 0)) 0x02,
           starkEnabled = flag_bits (byte_at response (Some 0)) 0x04,
           starkv2Supported = flag_bits (byte_at response (Some 0)) 0x08,
           version = template_number (byte_at response (Some 1)) @ ''.'' @
                     template_number (byte_at response (Some 2)) @ ''.'' @
                     template_number (byte_at response (Some 3))\<rparr>)"

subsection \<open>signPersonalMessage (lines 295-347)\<close>

record msg_signature =
  msg_v :: "int option"
  msg_r :: string
  msg_s :: string

definition signPersonalMessage_buffer :: "32 word list \<Rightarrow> Buffer \<Rightarrow> int \<Rightarrow> int \<Rightarrow> error + Buffer" where
  "signPersonalMessage_buffer paths message offset chunkSize =
     bind_err (Buffer_alloc (if offset = 0 then 1 + int (length paths) * 4 + 4 + chunkSize else chunkSize))
       (\<lambda>buffer.
          if offset = 0 then
            bind_err (write_path_header buffer paths) (\<lambda>buffer.
            bind_err (writeUInt32BE buffer (int (length message)) (1 + 4 * length paths)) (\<lambda>buffer.
              Buffer_copy message buffer (1 + 4 * int (length paths) + 4) offset (offset + chunkSize)))
          else Buffer_copy message buffer 0 offset (offset + chunkSize))"

text \<open>Lines 309-313: the size of the next chunk.\<close>

definition signPersonalMessage_chunkSize :: "32 word list \<Rightarrow> Buffer \<Rightarrow> int \<Rightarrow> int" where
  "signPersonalMessage_chunkSize paths message offset =
     (let maxChunkSize = (if offset = 0 then 150 - 1 - int (length paths) * 4 - 4 else 150)
      in if offset + maxChunkSize > int (length message)
         then int (length message) - offset else maxChunkSize)"

text \<open>Lines 308-334.\<close>

partial_function (option) signPersonalMessage_loop ::
  "32 word list \<Rightarrow> Buffer \<Rightarrow> int \<Rightarrow> Buffer list \<Rightarrow> (error + Buffer list) option" where
  "signPersonalMessage_loop paths message offset toSend =
     (if offset = int (length message) then Some (Inr toSend)
      else
        let chunkSize = signPersonalMessage_chunkSize paths message offset
        in (case signPersonalMessage_buffer paths message offset chunkSize of
              Inl e \<Rightarrow> Some (Inl e)
            | Inr buffer \<Rightarrow>
                signPersonalMessage_loop paths message (offset + chunkSize) (toSend @ [buffer])))"

declare signPersonalMessage_loop.simps [code]

definition signPersonalMessage_toSend :: "32 word list \<Rightarrow> string \<Rightarrow> (error + Buffer list) option" where
  "signPersonalMessage_toSend paths messageHex =
     signPersonalMessage_loop paths (Buffer_from_hex messageHex) 0 []"

definition parse_vrs :: "Buffer option \<Rightarrow> error + msg_signature" where
  "parse_vrs response =
     (case response of
        None \<Rightarrow> Inl TypeError
      | Some resp \<Rightarrow>
          Inr \<lparr>msg_v = byte_at resp (Some 0),
               msg_r = toString_hex (Buffer_slice resp 1 (1 + 32)),
               msg_s = toString_hex (Buffer_slice resp (1 + 32) (1 + 32 + 32))\<rparr>)"

definition signPersonalMessage_send ::
  "Buffer list \<Rightarrow> 's transport \<Rightarrow> 's \<Rightarrow> (error + msg_signature) \<times> 's" where
  "signPersonalMessage_send toSend t s =
     (case foreach toSend (send_chunk 0x08 t) (None, s) of
        (Inl e, (response, s')) \<Rightarrow> (Inl e, s')
      | (Inr _, (response, s')) \<Rightarrow> (parse_vrs response, s'))"

definition signPersonalMessage ::
  "32 word list \<Rightarrow> string \<Rightarrow> 's transport \<Rightarrow> 's \<Rightarrow> ((error + msg_signature) \<times> 's) option" where
  "signPersonalMessage paths messageHex t s =
     (case signPersonalMessage_toSend paths messageHex of
        None \<Rightarrow> None
      | Some (Inl e) \<Rightarrow> Some (Inl e, s)
      | Some (Inr toSend) \<Rightarrow> Some (signPersonalMessage_send toSend t s))"

subsection \<open>signEIP712HashedMessage (lines 361-391)\<close>

definition signEIP712HashedMessage_apdu :: "32 word list \<Rightarrow> string \<Rightarrow> string \<Rightarrow> error + apdu" where
  "signEIP712HashedMessage_apdu paths domainSeparatorHex hashStructMessageHex =
     (let domainSeparator = hexBuffer domainSeparatorHex;
          hashStruct = hexBuffer hashStructMessageHex
      in
      bind_err (Buffer_alloc (1 + int (length paths) * 4 + 32 + 32)) (\<lambda>buffer.
      bind_err (write_path_header buffer paths) (\<lambda>buffer.
      let offset = 1 + 4 * length paths in
      bind_err (copy_to domainSeparator buffer offset) (\<lambda>buffer.
      let offset = offset + 32 in
      bind_err (copy_to hashStruct buffer offset) (\<lambda>buffer.
      Inr \<lparr>cla = 0xe0, ins = 0x0c, p1 = 0x00, p2 = 0x00, data = buffer\<rparr>)))))"

definition signEIP712HashedMessage ::
  "32 word list \<Rightarrow> string \<Rightarrow> string \<Rightarrow> 's transport \<Rightarrow> 's \<Rightarrow> (error + msg_signature) \<times> 's" where
  "signEIP712HashedMessage paths domainSeparatorHex hashStructMessageHex t s =
     then_resolve (send_frame (signEIP712HashedMessage_apdu paths domainSeparatorHex hashStructMessageHex) t s)
       (\<lambda>response.
          \<lparr>msg_v = byte_at response (Some 0),
           msg_r = toString_hex (Buffer_slice response 1 (1 + 32)),
           msg_s = toString_hex (Buffer_slice response (1 + 32) (1 + 32 + 32))\<rparr>)"

subsection \<open>The Stark operations (lines 399-955)\<close>

datatype StarkQuantizationType = eth | erc20 | erc721 | erc20mintable | erc721mintable

definition starkQuantizationTypeMap :: "(StarkQuantizationType \<times> nat) list" where
  "starkQuantizationTypeMap =
     [(eth, 1), (erc20, 2), (erc721, 3), (erc20mintable, 4), (erc721mintable, 5)]"

record stark_signature =
  stark_r :: string
  stark_s :: string

definition parse_rs :: "Buffer \<Rightarrow> stark_signature" where
  "parse_rs response =
     \<lparr>stark_r = toString_hex (Buffer_slice response 1 (1 + 32)),
      stark_s = toString_hex (Buffer_slice response (1 + 32) (1 + 32 + 32))\<rparr>"

text \<open>\<^verbatim>\<open>if (x) { x.copy(buffer, offset); }\<close> for an optional Buffer.\<close>

definition copy_opt :: "Buffer option \<Rightarrow> Buffer \<Rightarrow> nat \<Rightarrow> error + Buffer" where
  "copy_opt source target targetStart =
     (case source of None \<Rightarrow> Inr target | Some b \<Rightarrow> copy_to b target targetStart)"

text \<open>
  \<^verbatim>\<open>if (x) { Buffer.from(x.toString(16).padStart(64, "0"), "hex").copy(buffer, offset); }\<close>
  for an optional BigNumber (an object, truthy whatever its value).
\<close>

definition copy_magnitude_opt :: "nat option \<Rightarrow> Buffer \<Rightarrow> nat \<Rightarrow> error + Buffer" where
  "copy_magnitude_opt x target targetStart =
     (case x of None \<Rightarrow> Inr target | Some n \<Rightarrow> copy_to (magnitude_bytes 32 n) target targetStart)"

definition starkGetPublicKey_apdu :: "32 word list \<Rightarrow> bool \<Rightarrow> error + apdu" where
  "starkGetPublicKey_apdu paths boolDisplay =
     bind_err (Buffer_alloc (1 + int (length paths) * 4)) (\<lambda>buffer.
     bind_err (write_path_header buffer paths) (\<lambda>buffer.
     Inr \<lparr>cla = 0xf0, ins = 0x02, p1 = (if boolDisplay then 0x01 else 0x00), p2 = 0x00,
          data = buffer\<rparr>))"

definition starkGetPublicKey ::
  "32 word list \<Rightarrow> bool \<Rightarrow> 's transport \<Rightarrow> 's \<Rightarrow> (error + Buffer) \<times> 's" where
  "starkGetPublicKey paths boolDisplay t s =
     then_resolve (send_frame (starkGetPublicKey_apdu paths boolDisplay) t s)
       (\<lambda>response. Buffer_slice response 0 (int (length response) - 2))"

definition starkSignOrder_apdu ::
  "32 word list \<Rightarrow> string option \<Rightarrow> nat \<Rightarrow> string option \<Rightarrow> nat \<Rightarrow> int \<Rightarrow> int \<Rightarrow> nat \<Rightarrow> nat
     \<Rightarrow> int \<Rightarrow> int \<Rightarrow> error + apdu" where
  "starkSignOrder_apdu paths sourceTokenAddress sourceQuantization destinationTokenAddress
     destinationQuantization sourceVault destinationVault amountSell amountBuy nonce timestamp =
     (let sourceTokenAddressHex = maybeHexBuffer sourceTokenAddress;
          destinationTokenAddressHex = maybeHexBuffer destinationTokenAddress
      in
      bind_err (Buffer_alloc (1 + int (length paths) * 4 + 20 + 32 + 20 + 32 + 4 + 4 + 8 + 8 + 4 + 4))
        (\<lambda>buffer.
      bind_err (write_path_header buffer paths) (\<lambda>buffer.
      let offset = 1 + 4 * length paths in
      bind_err (copy_opt sourceTokenAddressHex buffer offset) (\<lambda>buffer.
      let offset = offset + 20 in
      bind_err (copy_to (magnitude_bytes 32 sourceQuantization) buffer offset) (\<lambda>buffer.
      let offset = offset + 32 in
      bind_err (copy_opt destinationTokenAddressHex buffer offset) (\<lambda>buffer.
      let offset = offset + 20 in
      bind_err (copy_to (magnitude_bytes 32 destinationQuantization) buffer offset) (\<lambda>buffer.
      let offset = offset + 32 in
      bind_err (writeUInt32BE buffer sourceVault offset) (\<lambda>buffer.
      let offset = offset + 4 in
      bind_err (writeUInt32BE buffer destinationVault offset) (\<lambda>buffer.
      let offset = offset + 4 in
      bind_err (copy_to (magnitude_bytes 8 amountSell) buffer offset) (\<lambda>buffer.
      let offset = offset + 8 in
      bind_err (copy_to (magnitude_bytes 8 amountBuy) buffer offset) (\<lambda>buffer.
      let offset = offset + 8 in
      bind_err (writeUInt32BE buffer nonce offset) (\<lambda>buffer.
      let offset = offset + 4 in
      bind_err (writeUInt32BE buffer timestamp offset) (\<lambda>buffer.
      Inr \<lparr>cla = 0xf0, ins = 0x04, p1 = 0x01, p2 = 0x00, data = buffer\<rparr>)))))))))))))"

definition starkSignOrder ::
  "32 word list \<Rightarrow> string option \<Rightarrow> nat \<Rightarrow> string option \<Rightarrow> nat \<Rightarrow> int \<Rightarrow> int \<Rightarrow> nat \<Rightarrow> nat
     \<Rightarrow> int \<Rightarrow> int \<Rightarrow> 's transport \<Rightarrow> 's \<Rightarrow> (error + stark_signature) \<times> 's" where
  "starkSignOrder paths sourceTokenAddress sourceQuantization destinationTokenAddress
     destinationQuantization sourceVault destinationVault amountSell amountBuy nonce timestamp t s =
     then_resolve
       (send_frame
          (starkSignOrder_apdu paths sourceTokenAddress sourceQuantization destinationTokenAddress
             destinationQuantization sourceVault destinationVault amountSell amountBuy nonce timestamp)
          t s)
       parse_rs"

text \<open>
  Lines 537-546: \<^verbatim>\<open>if (!(type in starkQuantizationTypeMap)) throw new Error(...)\<close>.
\<close>

definition quantization_tag :: "string \<Rightarrow> StarkQuantizationType \<Rightarrow> error + nat" where
  "quantization_tag msg ty =
     (case map_of starkQuantizationTypeMap ty of None \<Rightarrow> Inl (Error msg) | Some n \<Rightarrow> Inr n)"

definition starkSignOrder_v2_apdu ::
  "32 word list \<Rightarrow> string option \<Rightarrow> StarkQuantizationType \<Rightarrow> nat option \<Rightarrow> nat option
     \<Rightarrow> string option \<Rightarrow> StarkQuantizationType \<Rightarrow> nat option \<Rightarrow> nat option
     \<Rightarrow> int \<Rightarrow> int \<Rightarrow> nat \<Rightarrow> nat \<Rightarrow> int \<Rightarrow> int \<Rightarrow> error + apdu" where
  "starkSignOrder_v2_apdu paths sourceTokenAddress sourceQuantizationType sourceQuantization
     sourceMintableBlobOrTokenId destinationTokenAddress destinationQuantizationType
     destinationQuantization destinationMintableBlobOrTokenId sourceVault destinationVault
     amountSell amountBuy nonce timestamp =
     (let sourceTokenAddressHex = maybeHexBuffer sourceTokenAddress;
          destinationTokenAddressHex = maybeHexBuffer destinationTokenAddress
      in
      bind_err (quantization_tag ''eth.starkSignOrderv2 invalid source quantization type''
                  sourceQuantizationType) (\<lambda>sourceTag.
      bind_err (quantization_tag ''eth.starkSignOrderv2 invalid destination quantization type''
                  destinationQuantizationType) (\<lambda>destinationTag.
      bind_err (Buffer_alloc (1 + int (length paths) * 4 + 1 + 20 + 32 + 32 + 1 + 20 + 32 + 32
                  + 4 + 4 + 8 + 8 + 4 + 4)) (\<lambda>buffer.
      bind_err (write_path_header buffer paths) (\<lambda>buffer.
      let offset = 1 + 4 * length paths;
          buffer = set_byte buffer offset sourceTag;
          offset = offset + 1 in
      bind_err (copy_opt sourceTokenAddressHex buffer offset) (\<lambda>buffer.
      let offset = offset + 20 in
      bind_err (copy_magnitude_opt sourceQuantization buffer offset) (\<lambda>buffer.
      let offset = offset + 32 in
      bind_err (copy_magnitude_opt sourceMintableBlobOrTokenId buffer offset) (\<lambda>buffer.
      let offset = offset + 32;
          buffer = set_byte buffer offset destinationTag;
          offset = offset + 1 in
      bind_err (copy_opt destinationTokenAddressHex buffer offset) (\<lambda>buffer.
      let offset = offset + 20 in
      bind_err (copy_magnitude_opt destinationQuantization buffer offset) (\<lambda>buffer.
      let offset = offset + 32 in
      bind_err (copy_magnitude_opt destinationMintableBlobOrTokenId buffer offset) (\<lambda>buffer.
      let offset = offset + 32 in
      bind_err (writeUInt32BE buffer sourceVault offset) (\<lambda>buffer.
      let offset = offset + 4 in
      bind_err (writeUInt32BE buffer destinationVault offset) (\<lambda>buffer.
      let offset = offset + 4 in
      bind_err (copy_to (magnitude_bytes 8 amountSell) buffer offset) (\<lambda>buffer.
      let offset = offset + 8 in
      bind_err (copy_to (magnitude_bytes 8 amountBuy) buffer offset) (\<lambda>buffer.
      let offset = offset + 8 in
      bind_err (writeUInt32BE buffer nonce offset) (\<lambda>buffer.
      let offset = offset + 4 in
      bind_err (writeUInt32BE buffer timestamp offset) (\<lambda>buffer.
      Inr \<lparr>cla = 0xf0, ins = 0x04, p1 = 0x03, p2 = 0x00, data = buffer\<rparr>)))))))))))))))))"

definition starkSignOrder_v2 ::
  "32 word list \<Rightarrow> string option \<Rightarrow> StarkQuantizationType \<Rightarrow> nat option \<Rightarrow> nat option
     \<Rightarrow> string option \<Rightarrow> StarkQuantizationType \<Rightarrow> nat option \<Rightarrow> nat option
     \<Rightarrow> int \<Rightarrow> int \<Rightarrow> nat \<Rightarrow> nat \<Rightarrow> int \<Rightarrow> int \<Rightarrow> 's transport \<Rightarrow> 's
     \<Rightarrow> (error + stark_signature) \<times> 's" where
  "starkSignOrder_v2 paths sourceTokenAddress sourceQuantizationType sourceQuantization
     sourceMintableBlobOrTokenId destinationTokenAddress destinationQuantizationType
     destinationQuantization destinationMintableBlobOrTokenId sourceVault destinationVault
     amountSell amountBuy nonce timestamp t s =
     then_resolve
       (send_frame
          (starkSignOrder_v2_apdu paths sourceTokenAddress sourceQuantizationType sourceQuantization
             sourceMintableBlobOrTokenId destinationTokenAddress destinationQuantizationType
             destinationQuantization destinationMintableBlobOrTokenId sourceVault destinationVault
             amountSell amountBuy nonce timestamp)
          t s)
       parse_rs"

definition starkSignTransfer_apdu ::
  "32 word list \<Rightarrow> string option \<Rightarrow> nat \<Rightarrow> string \<Rightarrow> int \<Rightarrow> int \<Rightarrow> nat \<Rightarrow> int \<Rightarrow> int
     \<Rightarrow> error + apdu" where
  "starkSignTransfer_apdu paths transferTokenAddress transferQuantization targetPublicKey
     sourceVault destinationVault amountTransfer nonce timestamp =
     (let transferTokenAddressHex = maybeHexBuffer transferTokenAddress;
          targetPublicKeyHex = hexBuffer targetPublicKey
      in
      bind_err (Buffer_alloc (1 + int (length paths) * 4 + 20 + 32 + 32 + 4 + 4 + 8 + 4 + 4))
        (\<lambda>buffer.
      bind_err (write_path_header buffer paths) (\<lambda>buffer.
      let offset = 1 + 4 * length paths in
      bind_err (copy_opt transferTokenAddressHex buffer offset) (\<lambda>buffer.
      let offset = offset + 20 in
      bind_err (copy_to (magnitude_bytes 32 transferQuantization) buffer offset) (\<lambda>buffer.
      let offset = offset + 32 in
      bind_err (copy_to targetPublicKeyHex buffer offset) (\<lambda>buffer.
      let offset = offset + 32 in
      bind_err (writeUInt32BE buffer sourceVault offset) (\<lambda>buffer.
      let offset = offset + 4 in
      bind_err (writeUInt32BE buffer destinationVault offset) (\<lambda>buffer.
      let offset = offset + 4 in
      bind_err (copy_to (magnitude_bytes 8 amountTransfer) buffer offset) (\<lambda>buffer.
      let offset = offset + 8 in
      bind_err (writeUInt32BE buffer nonce offset) (\<lambda>buffer.
      let offset = offset + 4 in
      bind_err (writeUInt32BE buffer timestamp offset) (\<lambda>buffer.
      Inr \<lparr>cla = 0xf0, ins = 0x04, p1 = 0x02, p2 = 0x00, data = buffer\<rparr>)))))))))))"

definition starkSignTransfer ::
  "32 word list \<Rightarrow> string option \<Rightarrow> nat \<Rightarrow> string \<Rightarrow> int \<Rightarrow> int \<Rightarrow> nat \<Rightarrow> int \<Rightarrow> int
     \<Rightarrow> 's transport \<Rightarrow> 's \<Rightarrow> (error + stark_signature) \<times> 's" where
  "starkSignTransfer paths transferTokenAddress transferQuantization targetPublicKey
     sourceVault destinationVault amountTransfer nonce timestamp t s =
     then_resolve
       (send_frame
          (starkSignTransfer_apdu paths transferTokenAddress transferQuantization targetPublicKey
             sourceVault destinationVault amountTransfer nonce timestamp)
          t s)
       parse_rs"

text \<open>
  Lines 808-816: the conditional fields are written when both the address buffer and
  the fact are there.
\<close>

definition write_conditional :: "Buffer option \<Rightarrow> nat option \<Rightarrow> Buffer \<Rightarrow> nat \<Rightarrow> error + Buffer" where
  "write_conditional conditionalTransferAddressHex conditionalTransferFact buffer offset =
     (case conditionalTransferAddressHex of
        None \<Rightarrow> Inr buffer
      | Some addressHex \<Rightarrow>
          (case conditionalTransferFact of
             None \<Rightarrow> Inr buffer
           | Some factValue \<Rightarrow>
               (let offset = offset + 4 in
                bind_err (copy_to (magnitude_bytes 32 factValue) buffer offset) (\<lambda>buffer.
                let offset = offset + 32 in
                copy_to addressHex buffer offset))))"

definition starkSignTransfer_v2_apdu ::
  "32 word list \<Rightarrow> string option \<Rightarrow> StarkQuantizationType \<Rightarrow> nat option \<Rightarrow> nat option \<Rightarrow> string
     \<Rightarrow> int \<Rightarrow> int \<Rightarrow> nat \<Rightarrow> int \<Rightarrow> int \<Rightarrow> string option \<Rightarrow> nat option \<Rightarrow> error + apdu" where
  "starkSignTransfer_v2_apdu paths transferTokenAddress transferQuantizationType
     transferQuantization transferMintableBlobOrTokenId targetPublicKey sourceVault
     destinationVault amountTransfer nonce timestamp conditionalTransferAddress
     conditionalTransferFact =
     (let transferTokenAddressHex = maybeHexBuffer transferTokenAddress;
          targetPublicKeyHex = hexBuffer targetPublicKey;
          conditionalTransferAddressHex = maybeHexBuffer conditionalTransferAddress
      in
      bind_err (quantization_tag ''eth.starkSignTransferv2 invalid quantization type''
                  transferQuantizationType) (\<lambda>transferTag.
      bind_err (Buffer_alloc (1 + int (length paths) * 4 + 1 + 20 + 32 + 32 + 32 + 4 + 4 + 8 + 4 + 4
                  + (if conditionalTransferAddressHex \<noteq> None then 32 + 20 else 0))) (\<lambda>buffer.
      bind_err (write_path_header buffer paths) (\<lambda>buffer.
      let offset = 1 + 4 * length paths;
          buffer = set_byte buffer offset transferTag;
          offset = offset + 1 in
      bind_err (copy_opt transferTokenAddressHex buffer offset) (\<lambda>buffer.
      let offset = offset + 20 in
      bind_err (copy_magnitude_opt transferQuantization buffer offset) (\<lambda>buffer.
      let offset = offset + 32 in
      bind_err (copy_magnitude_opt transferMintableBlobOrTokenId buffer offset) (\<lambda>buffer.
      let offset = offset + 32 in
      bind_err (copy_to targetPublicKeyHex buffer offset) (\<lambda>buffer.
      let offset = offset + 32 in
      bind_err (writeUInt32BE buffer sourceVault offset) (\<lambda>buffer.
      let offset = offset + 4 in
      bind_err (writeUInt32BE buffer destinationVault offset) (\<lambda>buffer.
      let offset = offset + 4 in
      bind_err (copy_to (magnitude_bytes 8 amountTransfer) buffer offset) (\<lambda>buffer.
      let offset = offset + 8 in
      bind_err (writeUInt32BE buffer nonce offset) (\<lambda>buffer.
      let offset = offset + 4 in
      bind_err (writeUInt32BE buffer timestamp offset) (\<lambda>buffer.
      bind_err (write_conditional conditionalTransferAddressHex conditionalTransferFact buffer offset)
        (\<lambda>buffer.
      Inr \<lparr>cla = 0xf0, ins = 0x04,
           p1 = (if conditionalTransferAddressHex \<noteq> None then 0x05 else 0x04), p2 = 0x00,
           data = buffer\<rparr>))))))))))))))"

definition starkSignTransfer_v2 ::
  "32 word list \<Rightarrow> string option \<Rightarrow> StarkQuantizationType \<Rightarrow> nat option \<Rightarrow> nat option \<Rightarrow> string
     \<Rightarrow> int \<Rightarrow> int \<Rightarrow> nat \<Rightarrow> int \<Rightarrow> int \<Rightarrow> string option \<Rightarrow> nat option \<Rightarrow> 's transport \<Rightarrow> 's
     \<Rightarrow> (error + stark_signature) \<times> 's" where
  "starkSignTransfer_v2 paths transferTokenAddress transferQuantizationType
     transferQuantization transferMintableBlobOrTokenId targetPublicKey sourceVault
     destinationVault amountTransfer nonce timestamp conditionalTransferAddress
     conditionalTransferFact t s =
     then_resolve
       (send_frame
          (starkSignTransfer_v2_apdu paths transferTokenAddress transferQuantizationType
             transferQuantization transferMintableBlobOrTokenId targetPublicKey sourceVault
             destinationVault amountTransfer nonce timestamp conditionalTransferAddress
             conditionalTransferFact)
          t s)
       parse_rs"

definition starkProvideQuantum_apdu :: "string option \<Rightarrow> nat \<Rightarrow> error + apdu" where
  "starkProvideQuantum_apdu operationContract operationQuantization =
     (let operationContractHex = maybeHexBuffer operationContract in
      bind_err (Buffer_alloc (20 + 32)) (\<lambda>buffer.
      bind_err (copy_opt operationContractHex buffer 0) (\<lambda>buffer.
      bind_err (copy_to (magnitude_bytes 32 operationQuantization) buffer 20) (\<lambda>buffer.
      Inr \<lparr>cla = 0xf0, ins = 0x08, p1 = 0x00, p2 = 0x00, data = buffer\<rparr>))))"

definition starkProvideQuantum ::
  "string option \<Rightarrow> nat \<Rightarrow> 's transport \<Rightarrow> 's \<Rightarrow> (error + bool) \<times> 's" where
  "starkProvideQuantum operationContract operationQuantization t s =
     then_both (send_frame (starkProvideQuantum_apdu operationContract operationQuantization) t s)
       (\<lambda>_. Inr True)
       (\<lambda>e. if statusCode e = Some 0x6d00 then Inr False else Inl e)"

definition starkProvideQuantum_v2_apdu ::
  "string option \<Rightarrow> StarkQuantizationType \<Rightarrow> nat option \<Rightarrow> nat option \<Rightarrow> error + apdu" where
  "starkProvideQuantum_v2_apdu operationContract operationQuantizationType operationQuantization
     operationMintableBlobOrTokenId =
     (let operationContractHex = maybeHexBuffer operationContract in
      bind_err (quantization_tag ''eth.starkProvideQuantumV2 invalid quantization type''
                  operationQuantizationType) (\<lambda>operationTag.
      bind_err (Buffer_alloc (20 + 32 + 32)) (\<lambda>buffer.
      let offset = 0 in
      bind_err (copy_opt operationContractHex buffer offset) (\<lambda>buffer.
      let offset = offset + 20 in
      bind_err (copy_magnitude_opt operationQuantization buffer offset) (\<lambda>buffer.
      let offset = offset + 32 in
      bind_err (copy_magnitude_opt operationMintableBlobOrTokenId buffer offset) (\<lambda>buffer.
      Inr \<lparr>cla = 0xf0, ins = 0x08, p1 = operationTag, p2 = 0x00, data = buffer\<rparr>))))))"

definition starkProvideQuantum_v2 ::
  "string option \<Rightarrow> StarkQuantizationType \<Rightarrow> nat option \<Rightarrow> nat option \<Rightarrow> 's transport \<Rightarrow> 's
     \<Rightarrow> (error + bool) \<times> 's" where
  "starkProvideQuantum_v2 operationContract operationQuantizationType operationQuantization
     operationMintableBlobOrTokenId t s =
     then_both
       (send_frame
          (starkProvideQuantum_v2_apdu operationContract operationQuantizationType
             operationQuantization operationMintableBlobOrTokenId)
          t s)
       (\<lambda>_. Inr True)
       (\<lambda>e. if statusCode e = Some 0x6d00 then Inr False else Inl e)"

definition starkUnsafeSign_apdu :: "32 word list \<Rightarrow> string \<Rightarrow> error + apdu" where
  "starkUnsafeSign_apdu paths hash =
     (let hashHex = hexBuffer hash in
      bind_err (Buffer_alloc (1 + int (length paths) * 4 + 32)) (\<lambda>buffer.
      bind_err (write_path_header buffer paths) (\<lambda>buffer.
      let offset = 1 + 4 * length paths in
      bind_err (copy_to hashHex buffer offset) (\<lambda>buffer.
      Inr \<lparr>cla = 0xf0, ins = 0x0a, p1 = 0x00, p2 = 0x00, data = buffer\<rparr>))))"

definition starkUnsafeSign ::
  "32 word list \<Rightarrow> string \<Rightarrow> 's transport \<Rightarrow> 's \<Rightarrow> (error + stark_signature) \<times> 's" where
  "starkUnsafeSign paths hash t s =
     then_resolve (send_frame (starkUnsafeSign_apdu paths hash) t s) parse_rs"

subsection \<open>The Ethereum 2 operations (lines 965-1007)\<close>

definition eth2GetPublicKey_apdu :: "32 word list \<Rightarrow> bool \<Rightarrow> error + apdu" where
  "eth2GetPublicKey_apdu paths boolDisplay =
     bind_err (Buffer_alloc (1 + int (length paths) * 4)) (\<lambda>buffer.
     bind_err (write_path_header buffer paths) (\<lambda>buffer.
     Inr \<lparr>cla = 0xe0, ins = 0x0e, p1 = (if boolDisplay then 0x01 else 0x00), p2 = 0x00,
          data = buffer\<rparr>))"

definition eth2GetPublicKey ::
  "32 word list \<Rightarrow> bool \<Rightarrow> 's transport \<Rightarrow> 's \<Rightarrow> (error + string) \<times> 's" where
  "eth2GetPublicKey paths boolDisplay t s =
     then_resolve (send_frame (eth2GetPublicKey_apdu paths boolDisplay) t s)
       (\<lambda>response. toString_hex (Buffer_slice response 0 (- 2)))"

definition eth2SetWithdrawalIndex_apdu :: "int \<Rightarrow> error + apdu" where
  "eth2SetWithdrawalIndex_apdu withdrawalIndex =
     bind_err (Buffer_alloc 4) (\<lambda>buffer.
     bind_err (writeUInt32BE buffer withdrawalIndex 0) (\<lambda>buffer.
     Inr \<lparr>cla = 0xe0, ins = 0x10, p1 = 0x00, p2 = 0x00, data = buffer\<rparr>))"

definition eth2SetWithdrawalIndex :: "int \<Rightarrow> 's transport \<Rightarrow> 's \<Rightarrow> (error + bool) \<times> 's" where
  "eth2SetWithdrawalIndex withdrawalIndex t s =
     then_both (send_frame (eth2SetWithdrawalIndex_apdu withdrawalIndex) t s)
       (\<lambda>_. Inr True)
       (\<lambda>e. if statusCode e = Some 0x6d00 then Inr False else Inl e)"

section \<open>LEDGER.getAccount of ledger.ts (lines 7-19)\<close>

record BIP44 =
  coin_type :: nat
  account :: nat
  index :: nat

definition account_path :: "BIP44 \<Rightarrow> string" where
  "account_path path =
     ''44'' @ [CHR 0x27] @ ''/'' @ Number_toString (coin_type path) @ [CHR 0x27] @ ''/'' @
     Number_toString (account path) @ [CHR 0x27] @ ''/0/'' @ Number_toString (index path)"

text \<open>
  \<^verbatim>\<open>splitPath\<close> of \<^verbatim>\<open>./utils\<close> is not among the sources: it is the parameter
  \<open>splitPath\<close>, which returns the path components or throws. Whatever is thrown inside
  the \<^verbatim>\<open>try\<close> block is caught and logged, and the function then returns \<^verbatim>\<open>""\<close>.
\<close>

definition LEDGER_getAccount ::
  "(string \<Rightarrow> error + 32 word list) \<Rightarrow> BIP44 \<Rightarrow> 's transport \<Rightarrow> 's \<Rightarrow> (error + string) \<times> 's" where
  "LEDGER_getAccount splitPath path t s =
     (case splitPath (account_path path) of
        Inl err \<Rightarrow> (Inr [], s)
      | Inr paths \<Rightarrow>
          (case getAddress paths False False t s of
             (Inl err, s') \<Rightarrow> (Inr [], s')
           | (Inr response, s') \<Rightarrow> (Inr (address response), s')))"

section \<open>Notions the statements below use\<close>

text \<open>
  The chunk boundaries of a list of signTransaction frames: the offsets into the
  transaction at which a frame ends, counting the first frame without its path header.
\<close>

fun boundaries_from :: "nat \<Rightarrow> Buffer list \<Rightarrow> nat list" where
  "boundaries_from off [] = []"
| "boundaries_from off (region # rest) =
     (off + length region) # boundaries_from (off + length region) rest"

definition signTransaction_boundaries :: "32 word list \<Rightarrow> Buffer list \<Rightarrow> nat list" where
  "signTransaction_boundaries paths toSend =
     (case toSend of
        [] \<Rightarrow> []
      | first # rest \<Rightarrow> boundaries_from 0 (drop (1 + 4 * length paths) first # rest))"

text \<open>
  The offset at which the last three elements of a decoded transaction begin in its
  encoding: the length of the transaction minus the length of their encodings.
\<close>

definition suffix_offset :: "Buffer \<Rightarrow> rlp \<Rightarrow> nat" where
  "suffix_offset rawTx rlpTx =
     (case rlpTx of
        RlpBytes b \<Rightarrow> length rawTx - 3
      | RlpList xs \<Rightarrow> length rawTx - length (concat (map encode (drop (length xs - 3) xs))))"

text \<open>
  The big-endian representation of a magnitude in a field of \<open>width\<close> bytes, and its
  zero-padded hexadecimal digits.
\<close>

fun be_bytes :: "nat \<Rightarrow> nat \<Rightarrow> Buffer" where
  "be_bytes 0 x = []"
| "be_bytes (Suc width) x = be_bytes width (x div 256) @ [word_of_nat x]"

fun hex_digits :: "nat \<Rightarrow> nat \<Rightarrow> string" where
  "hex_digits 0 x = []"
| "hex_digits (Suc n) x = hex_digits n (x div 16) @ [hexChar (x mod 16)]"

section \<open>Properties\<close>

subsection \<open>Buffers and the path header\<close>

lemma bind_err_Inr [simp]: "bind_err (Inr x) f = f x"
  by (simp add: bind_err_def)

lemma bind_err_Inl [simp]: "bind_err (Inl e) f = Inl e"
  by (simp add: bind_err_def)

lemma Buffer_alloc_nonneg: "0 \<le> n \<Longrightarrow> Buffer_alloc n = Inr (replicate (nat n) 0)"
  by (simp add: Buffer_alloc_def)

lemma length_overwrite [simp]: "length (overwrite b off bs) = length b"
  by (auto simp: overwrite_def min_def)

lemma nth_overwrite:
  "i < length b \<Longrightarrow>
     overwrite b off bs ! i = (if off \<le> i \<and> i < off + length bs then bs ! (i - off) else b ! i)"
  by (auto simp: overwrite_def nth_append min_def)

lemma overwrite_Nil [simp]: "overwrite b off [] = b"
  by (simp add: overwrite_def)

lemma overwrite_beyond: "length b \<le> off \<Longrightarrow> overwrite b off bs = b"
  by (simp add: overwrite_def)

lemma take_overwrite: "n \<le> off \<Longrightarrow> take n (overwrite b off bs) = take n b"
  by (rule nth_equalityI) (auto simp: nth_overwrite)

lemma drop_overwrite: "off + length bs \<le> n \<Longrightarrow> drop n (overwrite b off bs) = drop n b"
  by (rule nth_equalityI) (auto simp: nth_overwrite)

lemma field_overwrite_same:
  "off + length bs \<le> length b \<Longrightarrow> take (length bs) (drop off (overwrite b off bs)) = bs"
  by (rule nth_equalityI) (auto simp: nth_overwrite)

lemma field_overwrite_other:
  "off + w \<le> off' \<or> off' + length bs \<le> off \<Longrightarrow>
     take w (drop off (overwrite b off' bs)) = take w (drop off b)"
  by (rule nth_equalityI) (auto simp: nth_overwrite)

lemma overwrite_overwrite_append:
  "off + length x \<le> length b \<Longrightarrow> overwrite (overwrite b off x) (off + length x) y = overwrite b off (x @ y)"
  by (rule nth_equalityI) (auto simp: nth_overwrite nth_append)

lemma overwrite_0: "length bs \<le> length b \<Longrightarrow> overwrite b 0 bs = bs @ drop (length bs) b"
  by (simp add: overwrite_def)

lemma overwrite_append_right:
  "overwrite (h @ b) (length h + off) bs = h @ overwrite b off bs"
  by (simp add: overwrite_def)

lemma copy_to_overwrite [simp]: "copy_to source target off = Inr (overwrite target off source)"
  by (auto simp: copy_to_def Buffer_copy_def overwrite_beyond)

lemma copy_opt_overwrite [simp]:
  "copy_opt source target off = Inr (overwrite target off (case source of None \<Rightarrow> [] | Some b \<Rightarrow> b))"
  by (simp add: copy_opt_def split: option.splits)

lemma copy_magnitude_opt_overwrite [simp]:
  "copy_magnitude_opt x target off =
     Inr (overwrite target off (case x of None \<Rightarrow> [] | Some n \<Rightarrow> magnitude_bytes 32 n))"
  by (simp add: copy_magnitude_opt_def split: option.splits)

lemma writeUInt32BE_overwrite:
  "0 \<le> v \<Longrightarrow> v < 2 ^ 32 \<Longrightarrow> off + 4 \<le> length b \<Longrightarrow>
     writeUInt32BE b v off = Inr (overwrite b off (be32 v))"
  by (simp add: writeUInt32BE_def)

lemma length_be32 [simp]: "length (be32 v) = 4"
  by (simp add: be32_def)

lemma forEach_write_overwrite:
  "1 + 4 * (i + length es) \<le> length b \<Longrightarrow>
     forEach_write b es i = Inr (overwrite b (1 + 4 * i) (concat (map (\<lambda>e. be32 (uint e)) es)))"
proof (induction es arbitrary: b i)
  case Nil
  then show ?case by simp
next
  case (Cons e es)
  have w: "writeUInt32BE b (uint e) (1 + 4 * i) = Inr (overwrite b (1 + 4 * i) (be32 (uint e)))"
    using Cons.prems uint_lt2p [of e] by (intro writeUInt32BE_overwrite) auto
  have "forEach_write (overwrite b (1 + 4 * i) (be32 (uint e))) es (Suc i) =
          Inr (overwrite (overwrite b (1 + 4 * i) (be32 (uint e))) (1 + 4 * Suc i)
                 (concat (map (\<lambda>e. be32 (uint e)) es)))"
    using Cons.prems by (intro Cons.IH) simp
  also have "overwrite (overwrite b (1 + 4 * i) (be32 (uint e))) (1 + 4 * Suc i)
                 (concat (map (\<lambda>e. be32 (uint e)) es)) =
             overwrite b (1 + 4 * i) (be32 (uint e) @ concat (map (\<lambda>e. be32 (uint e)) es))"
    using overwrite_overwrite_append [of "1 + 4 * i" "be32 (uint e)" b] Cons.prems by simp
  finally show ?case using w by simp
qed

lemma length_path_header [simp]: "length (path_header paths) = 1 + 4 * length paths"
  by (induction paths) (auto simp: path_header_def)

lemma length_concat_be32 [simp]:
  "length (concat (map (\<lambda>e. be32 (uint e)) (es :: 32 word list))) = 4 * length es"
  by (induction es) auto

lemma write_path_header_overwrite:
  assumes "1 + 4 * length paths \<le> length b"
  shows "write_path_header b paths = Inr (path_header paths @ drop (1 + 4 * length paths) b)"
proof -
  let ?w = "word_of_nat (length paths) :: byte"
  let ?cs = "concat (map (\<lambda>e. be32 (uint e)) paths)"
  have s: "set_byte b 0 (length paths) = overwrite b 0 [?w]"
    using assms by (cases b) (auto simp: set_byte_def overwrite_def)
  have "write_path_header b paths = Inr (overwrite (overwrite b 0 [?w]) 1 ?cs)"
    unfolding write_path_header_def s using assms
    by (simp add: forEach_write_overwrite)
  also have "overwrite (overwrite b 0 [?w]) 1 ?cs = overwrite b 0 ([?w] @ ?cs)"
    using overwrite_overwrite_append [of 0 "[?w]" b ?cs] assms by simp
  finally show ?thesis using assms by (simp add: overwrite_0 path_header_def)
qed

lemma write_path_header_replicate:
  "1 + 4 * length paths \<le> n \<Longrightarrow>
     write_path_header (replicate n 0) paths = Inr (path_header paths @ replicate (n - (1 + 4 * length paths)) 0)"
  by (simp add: write_path_header_overwrite)

subsection \<open>Frames that are always built\<close>

lemma alloc_header:
  "1 + 4 * length paths \<le> nat n \<Longrightarrow>
     bind_err (Buffer_alloc n) (\<lambda>buffer. bind_err (write_path_header buffer paths) f) =
       f (path_header paths @ replicate (nat n - (1 + 4 * length paths)) 0)"
  by (auto simp: Buffer_alloc_def write_path_header_replicate)

lemma getAddress_apdu_built:
  "getAddress_apdu paths d c =
     Inr \<lparr>cla = 0xe0, ins = 0x02, p1 = (if d then 1 else 0), p2 = (if c then 1 else 0),
          data = path_header paths\<rparr>"
  by (simp add: getAddress_apdu_def alloc_header)

lemma starkGetPublicKey_apdu_built:
  "starkGetPublicKey_apdu paths d =
     Inr \<lparr>cla = 0xf0, ins = 0x02, p1 = (if d then 1 else 0), p2 = 0, data = path_header paths\<rparr>"
  by (simp add: starkGetPublicKey_apdu_def alloc_header)

lemma eth2GetPublicKey_apdu_built:
  "eth2GetPublicKey_apdu paths d =
     Inr \<lparr>cla = 0xe0, ins = 0x0e, p1 = (if d then 1 else 0), p2 = 0, data = path_header paths\<rparr>"
  by (simp add: eth2GetPublicKey_apdu_def alloc_header)

lemma quantization_tag_built: "\<exists>n. quantization_tag msg ty = Inr n"
  by (cases ty) (simp_all add: quantization_tag_def starkQuantizationTypeMap_def)

lemma writeUInt32BE_built:
  "0 \<le> v \<Longrightarrow> v < 2 ^ 32 \<Longrightarrow> off + 4 \<le> length b \<Longrightarrow>
     bind_err (writeUInt32BE b v off) f = f (overwrite b off (be32 v))"
  by (simp add: writeUInt32BE_overwrite)

lemma signEIP712HashedMessage_apdu_built:
  "\<exists>a. signEIP712HashedMessage_apdu paths d h = Inr a"
  by (simp add: signEIP712HashedMessage_apdu_def alloc_header Let_def)

lemma starkUnsafeSign_apdu_built: "\<exists>a. starkUnsafeSign_apdu paths h = Inr a"
  by (simp add: starkUnsafeSign_apdu_def alloc_header Let_def)

lemma starkProvideQuantum_apdu_built: "\<exists>a. starkProvideQuantum_apdu c q = Inr a"
  by (simp add: starkProvideQuantum_apdu_def Buffer_alloc_def Let_def)

lemma starkProvideQuantum_v2_apdu_built: "\<exists>a. starkProvideQuantum_v2_apdu c ty q m = Inr a"
  using quantization_tag_built [of "''eth.starkProvideQuantumV2 invalid quantization type''" ty]
  by (auto simp: starkProvideQuantum_v2_apdu_def Buffer_alloc_def Let_def)

lemma eth2SetWithdrawalIndex_apdu_built:
  "0 \<le> i \<Longrightarrow> i < 2 ^ 32 \<Longrightarrow>
     eth2SetWithdrawalIndex_apdu i =
       Inr \<lparr>cla = 0xe0, ins = 0x10, p1 = 0, p2 = 0, data = be32 i\<rparr>"
  by (simp add: eth2SetWithdrawalIndex_apdu_def Buffer_alloc_def writeUInt32BE_def overwrite_def)

lemma nat_size [simp]: "0 \<le> c \<Longrightarrow> nat (c + int k * 4) = nat c + 4 * k"
  by (simp add: nat_add_distrib nat_mult_distrib)

lemma length_set_byte [simp]: "length (set_byte b i v) = length b"
  by (simp add: set_byte_def)

lemma starkSignOrder_apdu_built:
  assumes "0 \<le> sv" "sv < 2 ^ 32" "0 \<le> dv" "dv < 2 ^ 32" "0 \<le> nonce" "nonce < 2 ^ 32"
    "0 \<le> ts" "ts < 2 ^ 32"
  shows "\<exists>a. starkSignOrder_apdu paths sa sq da dq sv dv sell buy nonce ts = Inr a"
  using assms
  by (simp add: starkSignOrder_apdu_def Let_def alloc_header writeUInt32BE_built)

lemma starkSignOrder_v2_apdu_built:
  assumes "0 \<le> sv" "sv < 2 ^ 32" "0 \<le> dv" "dv < 2 ^ 32" "0 \<le> nonce" "nonce < 2 ^ 32"
    "0 \<le> ts" "ts < 2 ^ 32"
  shows "\<exists>a. starkSignOrder_v2_apdu paths sa sty sq sm da dty dq dm sv dv sell buy nonce ts = Inr a"
proof -
  obtain n1 where n1: "quantization_tag ''eth.starkSignOrderv2 invalid source quantization type'' sty = Inr n1"
    using quantization_tag_built by blast
  obtain n2 where n2: "quantization_tag ''eth.starkSignOrderv2 invalid destination quantization type'' dty = Inr n2"
    using quantization_tag_built by blast
  show ?thesis
    using assms
    by (simp add: starkSignOrder_v2_apdu_def n1 n2 alloc_header Let_def writeUInt32BE_built)
qed

lemma starkSignTransfer_apdu_built:
  assumes "0 \<le> sv" "sv < 2 ^ 32" "0 \<le> dv" "dv < 2 ^ 32" "0 \<le> nonce" "nonce < 2 ^ 32"
    "0 \<le> ts" "ts < 2 ^ 32"
  shows "\<exists>a. starkSignTransfer_apdu paths ta tq pk sv dv amount nonce ts = Inr a"
  using assms
  by (simp add: starkSignTransfer_apdu_def alloc_header Let_def writeUInt32BE_built)

lemma write_conditional_overwrite:
  "write_conditional ca cf b off =
     Inr (case ca of
            None \<Rightarrow> b
          | Some addressHex \<Rightarrow>
              (case cf of
                 None \<Rightarrow> b
               | Some factValue \<Rightarrow>
                   overwrite (overwrite b (off + 4) (magnitude_bytes 32 factValue)) (off + 4 + 32)
                     addressHex))"
  by (simp add: write_conditional_def Let_def split: option.splits)

lemma starkSignTransfer_v2_apdu_built:
  assumes "0 \<le> sv" "sv < 2 ^ 32" "0 \<le> dv" "dv < 2 ^ 32" "0 \<le> nonce" "nonce < 2 ^ 32"
    "0 \<le> ts" "ts < 2 ^ 32"
  shows "\<exists>a. starkSignTransfer_v2_apdu paths ta ty tq tm pk sv dv amount nonce ts ca cf = Inr a"
proof -
  obtain n1 where n1: "quantization_tag ''eth.starkSignTransferv2 invalid quantization type'' ty = Inr n1"
    using quantization_tag_built by blast
  show ?thesis
    using assms
    by (simp add: starkSignTransfer_v2_apdu_def n1 alloc_header Let_def writeUInt32BE_built
        write_conditional_overwrite)
qed

lemma send_frame_Inr [simp]: "send_frame (Inr a) t s = t a s"
  by (simp add: send_frame_def)

lemma send_frame_Inl [simp]: "send_frame (Inl e) t s = (Inl e, s)"
  by (simp add: send_frame_def)

lemma then_resolve_Inl [simp]: "then_resolve (Inl e, s) f = (Inl e, s)"
  by (simp add: then_resolve_def)

lemma then_resolve_Inr [simp]: "then_resolve (Inr x, s) f = (Inr (f x), s)"
  by (simp add: then_resolve_def)

lemma then_both_Inl [simp]: "then_both (Inl e, s) f g = (g e, s)"
  by (simp add: then_both_def)

lemma then_both_Inr [simp]: "then_both (Inr x, s) f g = (f x, s)"
  by (simp add: then_both_def)

subsection \<open>Responses, fallbacks and error remapping\<close>

lemma Buffer_slice_drop_status:
  "2 \<le> length r \<Longrightarrow> Buffer_slice r 0 (int (length r) - 2) = take (length r - 2) r"
  by (simp add: Buffer_slice_def slice_index_def nat_diff_distrib min_def numeral_2_eq_2)

lemma Buffer_slice_minus2:
  "2 \<le> length r \<Longrightarrow> Buffer_slice r 0 (- 2) = take (length r - 2) r"
  by (simp add: Buffer_slice_def slice_index_def nat_diff_distrib max_def)

lemma send_frame_any:
  "(\<And>a. t a s = (r, s')) \<Longrightarrow> \<exists>a. request = Inr a \<Longrightarrow> send_frame request t s = (r, s')"
  by auto

lemma foreach_first_rejected:
  "t \<lparr>cla = 0xe0, ins = instruction, p1 = 0, p2 = 0, data = frame\<rparr> s = (Inl e, s') \<Longrightarrow>
     foreach (frame # frames) (send_chunk instruction t) (response, s) = (Inl e, (response, s'))"
  by (simp add: foreach_def send_chunk_def)

text \<open>
  C10: starkGetPublicKey and eth2GetPublicKey return the device response without its
  final two bytes: for a response of length n >= 2 the key is exactly the first n - 2
  bytes (hex-encoded by eth2GetPublicKey).
\<close>

theorem public_key_drops_status_word:
  fixes t :: "'s transport"
  assumes "2 \<le> length response"
    and "t \<lparr>cla = 0xf0, ins = 0x02, p1 = (if boolDisplay then 1 else 0), p2 = 0,
            data = path_header paths\<rparr> s1 = (Inr response, s1')"
    and "t \<lparr>cla = 0xe0, ins = 0x0e, p1 = (if boolDisplay then 1 else 0), p2 = 0,
            data = path_header paths\<rparr> s2 = (Inr response, s2')"
  shows "starkGetPublicKey paths boolDisplay t s1 = (Inr (take (length response - 2) response), s1') \<and>
         eth2GetPublicKey paths boolDisplay t s2 =
           (Inr (toString_hex (take (length response - 2) response)), s2')"
  using assms
  by (simp add: starkGetPublicKey_def eth2GetPublicKey_def starkGetPublicKey_apdu_built
      eth2GetPublicKey_apdu_built Buffer_slice_drop_status Buffer_slice_minus2)

theorem public_key_drops_status_word_witness:
  "starkGetPublicKey [0x8000002C, 0x8000CE10] False
     (\<lambda>a s. (Inr [0x0a, 0x0b, 0x0c, 0x90, 0x00], s :: unit)) () = (Inr [0x0a, 0x0b, 0x0c], ()) \<and>
   eth2GetPublicKey [0x8000002C, 0x8000CE10] False
     (\<lambda>a s. (Inr [0x0a, 0x0b, 0x0c, 0x90, 0x00], s :: unit)) () = (Inr ''0a0b0c'', ())"
proof -
  have h: "toString_hex [0x0a, 0x0b, 0x0c] = ''0a0b0c''"
    by code_simp
  show ?thesis
    using public_key_drops_status_word
      [of "[0x0a, 0x0b, 0x0c, 0x90, 0x00]" "\<lambda>a s. (Inr [0x0a, 0x0b, 0x0c, 0x90, 0x00], s :: unit)"
          False "[0x8000002C, 0x8000CE10]" "()" "()" "()" "()"]
    by (simp add: h)
qed

text \<open>
  C9: LEDGER.getAccount never rejects. Whatever fails inside it (splitPath, the frame,
  the transport, getAddress as a whole), it resolves with the empty string; it resolves
  with the address of the device response when getAddress succeeds.
\<close>

theorem getAccount_never_rejects:
  fixes t :: "'s transport"
  shows "(\<exists>addr. fst (LEDGER_getAccount splitPath path t s) = Inr addr) \<and>
    (\<forall>e. splitPath (account_path path) = Inl e \<longrightarrow>
       LEDGER_getAccount splitPath path t s = (Inr [], s)) \<and>
    (\<forall>paths e s'. splitPath (account_path path) = Inr paths \<and>
       getAddress paths False False t s = (Inl e, s') \<longrightarrow>
       LEDGER_getAccount splitPath path t s = (Inr [], s')) \<and>
    (\<forall>paths e s'. splitPath (account_path path) = Inr paths \<and>
       t \<lparr>cla = 0xe0, ins = 0x02, p1 = 0, p2 = 0, data = path_header paths\<rparr> s = (Inl e, s') \<longrightarrow>
       LEDGER_getAccount splitPath path t s = (Inr [], s')) \<and>
    (\<forall>paths response s'. splitPath (account_path path) = Inr paths \<and>
       getAddress paths False False t s = (Inr response, s') \<longrightarrow>
       LEDGER_getAccount splitPath path t s = (Inr (address response), s'))"
  by (auto simp: LEDGER_getAccount_def getAddress_def getAddress_apdu_built
      split: sum.splits prod.splits)

theorem getAccount_never_rejects_witness:
  "LEDGER_getAccount (\<lambda>p. Inr [0x8000002C, 0x8000CE10, 0x80000000, 0, 0])
     \<lparr>coin_type = 52752, account = 0, index = 0\<rparr>
     (\<lambda>a s. (Inl (TransportError ''device disconnected''), s :: unit)) () = (Inr [], ())"
  using getAccount_never_rejects
    [of "\<lambda>p. Inr [0x8000002C, 0x8000CE10, 0x80000000, 0, 0]"
        "\<lparr>coin_type = 52752, account = 0, index = 0\<rparr>"
        "\<lambda>a s. (Inl (TransportError ''device disconnected''), s :: unit)" "()"]
  by simp

lemma foreach_any_rejected:
  "(\<And>a. t a s = (Inl e, s')) \<Longrightarrow>
     foreach (frame # frames) (send_chunk instruction t) (response, s) = (Inl e, (response, s'))"
  by (simp add: foreach_def send_chunk_def)

text \<open>
  C7: provideERC20TokenInformation, starkProvideQuantum, starkProvideQuantum_v2 and
  eth2SetWithdrawalIndex resolve with false when the transport rejects with status
  0x6D00, with true when it answers, and reject with the transport's error otherwise.
  No other operation turns status 0x6D00 into a value: each rejects with that error.
\<close>

theorem soft_unsupported_fallback:
  fixes t :: "'s transport"
  assumes answer: "\<And>a. t a s = (r, s')"
    and u32: "0 \<le> withdrawalIndex" "withdrawalIndex < 2 ^ 32"
      "0 \<le> sourceVault" "sourceVault < 2 ^ 32" "0 \<le> destinationVault" "destinationVault < 2 ^ 32"
      "0 \<le> nonce" "nonce < 2 ^ 32" "0 \<le> timestamp" "timestamp < 2 ^ 32"
    and tx: "signTransaction_toSend decode paths rawTxHex = Some (Inr (frame # frames))"
    and msg: "signPersonalMessage_toSend paths messageHex = Some (Inr (mframe # mframes))"
  shows
    "provideERC20TokenInformation info t s =
       (case r of Inl e \<Rightarrow> if statusCode e = Some 0x6d00 then Inr False else Inl e
        | Inr x \<Rightarrow> Inr True, s') \<and>
     starkProvideQuantum operationContract operationQuantization t s =
       (case r of Inl e \<Rightarrow> if statusCode e = Some 0x6d00 then Inr False else Inl e
        | Inr x \<Rightarrow> Inr True, s') \<and>
     starkProvideQuantum_v2 operationContract quantizationType optQuantization optBlob t s =
       (case r of Inl e \<Rightarrow> if statusCode e = Some 0x6d00 then Inr False else Inl e
        | Inr x \<Rightarrow> Inr True, s') \<and>
     eth2SetWithdrawalIndex withdrawalIndex t s =
       (case r of Inl e \<Rightarrow> if statusCode e = Some 0x6d00 then Inr False else Inl e
        | Inr x \<Rightarrow> Inr True, s') \<and>
     (\<forall>e. r = Inl e \<and> statusCode e = Some 0x6d00 \<longrightarrow>
        getAddress paths boolDisplay boolChaincode t s = (Inl e, s') \<and>
        signTransaction decode paths rawTxHex t s = Some (Inl e, s') \<and>
        getAppConfiguration t s = (Inl e, s') \<and>
        signPersonalMessage paths messageHex t s = Some (Inl e, s') \<and>
        signEIP712HashedMessage paths domainSeparatorHex hashStructMessageHex t s = (Inl e, s') \<and>
        starkGetPublicKey paths boolDisplay t s = (Inl e, s') \<and>
        starkSignOrder paths sourceToken sourceQuantization destinationToken
          destinationQuantization sourceVault destinationVault amountSell amountBuy nonce
          timestamp t s = (Inl e, s') \<and>
        starkSignOrder_v2 paths sourceToken quantizationType optQuantization optBlob
          destinationToken quantizationType' optQuantization' optBlob' sourceVault
          destinationVault amountSell amountBuy nonce timestamp t s = (Inl e, s') \<and>
        starkSignTransfer paths sourceToken sourceQuantization targetPublicKey sourceVault
          destinationVault amountSell nonce timestamp t s = (Inl e, s') \<and>
        starkSignTransfer_v2 paths sourceToken quantizationType optQuantization optBlob
          targetPublicKey sourceVault destinationVault amountSell nonce timestamp
          conditionalAddress conditionalFact t s = (Inl e, s') \<and>
        starkUnsafeSign paths hashHex t s = (Inl e, s') \<and>
        eth2GetPublicKey paths boolDisplay t s = (Inl e, s'))"
proof -
  have soft: "\<And>request. \<exists>a. request = Inr a \<Longrightarrow>
      then_both (send_frame request t s) (\<lambda>_. Inr True)
        (\<lambda>e. if statusCode e = Some 0x6d00 then Inr False else Inl e) =
      (case r of Inl e \<Rightarrow> if statusCode e = Some 0x6d00 then Inr False else Inl e
       | Inr x \<Rightarrow> Inr True, s')"
    using answer by (cases r) auto
  have hard: "\<And>request f e. \<exists>a. request = Inr a \<Longrightarrow> r = Inl e \<Longrightarrow>
      then_resolve (send_frame request t s) f = (Inl e, s')"
    using answer by auto
  have 1: "provideERC20TokenInformation info t s =
       (case r of Inl e \<Rightarrow> if statusCode e = Some 0x6d00 then Inr False else Inl e
        | Inr x \<Rightarrow> Inr True, s')"
    using answer by (cases r) (simp_all add: provideERC20TokenInformation_def)
  have 2: "starkProvideQuantum operationContract operationQuantization t s =
       (case r of Inl e \<Rightarrow> if statusCode e = Some 0x6d00 then Inr False else Inl e
        | Inr x \<Rightarrow> Inr True, s')"
    unfolding starkProvideQuantum_def by (rule soft) (rule starkProvideQuantum_apdu_built)
  have 3: "starkProvideQuantum_v2 operationContract quantizationType optQuantization optBlob t s =
       (case r of Inl e \<Rightarrow> if statusCode e = Some 0x6d00 then Inr False else Inl e
        | Inr x \<Rightarrow> Inr True, s')"
    unfolding starkProvideQuantum_v2_def by (rule soft) (rule starkProvideQuantum_v2_apdu_built)
  have 4: "eth2SetWithdrawalIndex withdrawalIndex t s =
       (case r of Inl e \<Rightarrow> if statusCode e = Some 0x6d00 then Inr False else Inl e
        | Inr x \<Rightarrow> Inr True, s')"
    unfolding eth2SetWithdrawalIndex_def
    using u32 by (intro soft) (simp add: eth2SetWithdrawalIndex_apdu_built)
  have 5: "getAddress paths boolDisplay boolChaincode t s = (Inl e, s')"
    "getAppConfiguration t s = (Inl e, s')"
    "signEIP712HashedMessage paths domainSeparatorHex hashStructMessageHex t s = (Inl e, s')"
    "starkGetPublicKey paths boolDisplay t s = (Inl e, s')"
    "starkUnsafeSign paths hashHex t s = (Inl e, s')"
    "eth2GetPublicKey paths boolDisplay t s = (Inl e, s')"
    if "r = Inl e" for e
    using that answer
    by (simp_all add: getAddress_def getAppConfiguration_def signEIP712HashedMessage_def
        starkGetPublicKey_def starkUnsafeSign_def eth2GetPublicKey_def hard
        getAddress_apdu_built signEIP712HashedMessage_apdu_built starkGetPublicKey_apdu_built
        starkUnsafeSign_apdu_built eth2GetPublicKey_apdu_built)
  have 6: "starkSignOrder paths sourceToken sourceQuantization destinationToken
          destinationQuantization sourceVault destinationVault amountSell amountBuy nonce
          timestamp t s = (Inl e, s')"
    "starkSignOrder_v2 paths sourceToken quantizationType optQuantization optBlob
          destinationToken quantizationType' optQuantization' optBlob' sourceVault
          destinationVault amountSell amountBuy nonce timestamp t s = (Inl e, s')"
    "starkSignTransfer paths sourceToken sourceQuantization targetPublicKey sourceVault
          destinationVault amountSell nonce timestamp t s = (Inl e, s')"
    "starkSignTransfer_v2 paths sourceToken quantizationType optQuantization optBlob
          targetPublicKey sourceVault destinationVault amountSell nonce timestamp
          conditionalAddress conditionalFact t s = (Inl e, s')"
    if "r = Inl e" for e
    unfolding starkSignOrder_def starkSignOrder_v2_def starkSignTransfer_def starkSignTransfer_v2_def
    using that u32
    by (simp_all add: hard starkSignOrder_apdu_built starkSignOrder_v2_apdu_built
        starkSignTransfer_apdu_built starkSignTransfer_v2_apdu_built)
  have 7: "signTransaction decode paths rawTxHex t s = Some (Inl e, s')"
    "signPersonalMessage paths messageHex t s = Some (Inl e, s')"
    if "r = Inl e" "statusCode e = Some 0x6d00" for e
    using that answer tx msg
    by (simp_all add: signTransaction_def signTransaction_send_def signPersonalMessage_def
        signPersonalMessage_send_def foreach_any_rejected remapTransactionRelatedErrors_def)
  show ?thesis
    using 1 2 3 4 5 6 7 by blast
qed

theorem soft_unsupported_fallback_witness:
  "provideERC20TokenInformation [0x03, 0x5a, 0x52, 0x58]
     (\<lambda>a s. (Inl (TransportStatusError 0x6d00), s :: unit)) () = (Inr False, ()) \<and>
   starkProvideQuantum None 1
     (\<lambda>a s. (Inl (TransportStatusError 0x6d00), s :: unit)) () = (Inr False, ()) \<and>
   starkProvideQuantum_v2 None eth None None
     (\<lambda>a s. (Inl (TransportStatusError 0x6d00), s :: unit)) () = (Inr False, ()) \<and>
   eth2SetWithdrawalIndex 1
     (\<lambda>a s. (Inl (TransportStatusError 0x6d00), s :: unit)) () = (Inr False, ()) \<and>
   getAddress [0x8000002C, 0x8000CE10, 0x80000000, 0, 0] False False
     (\<lambda>a s. (Inl (TransportStatusError 0x6d00), s :: unit)) () =
     (Inl (TransportStatusError 0x6d00), ()) \<and>
   signTransaction rlp_decode [0x8000002C, 0x8000CE10, 0x80000000, 0, 0]
     ''e8018504e3b292008252089428ee52a8f3d6e5d15f8b131996950d7f296c7952872bd72a2487400080''
     (\<lambda>a s. (Inl (TransportStatusError 0x6d00), s :: unit)) () =
     Some (Inl (TransportStatusError 0x6d00), ()) \<and>
   signPersonalMessage [0x8000002C, 0x8000CE10, 0x80000000, 0, 0] ''74657374''
     (\<lambda>a s. (Inl (TransportStatusError 0x6d00), s :: unit)) () =
     Some (Inl (TransportStatusError 0x6d00), ()) \<and>
   starkSignOrder [0x8000002C, 0x8000CE10, 0x80000000, 0, 0] None 1 None 1 1 2 3 4 5 6
     (\<lambda>a s. (Inl (TransportStatusError 0x6d00), s :: unit)) () =
     (Inl (TransportStatusError 0x6d00), ())"
proof -
  let ?paths = "[0x8000002C, 0x8000CE10, 0x80000000, 0, 0] :: 32 word list"
  let ?hex = "''e8018504e3b292008252089428ee52a8f3d6e5d15f8b131996950d7f296c7952872bd72a2487400080''"
  have tx: "signTransaction_toSend rlp_decode ?paths ?hex =
      Some (Inr ((path_header ?paths @ Buffer_from_hex ?hex) # []))"
    by code_simp
  have msg: "signPersonalMessage_toSend ?paths ''74657374'' =
      Some (Inr ((path_header ?paths @ [0, 0, 0, 4] @ Buffer_from_hex ''74657374'') # []))"
    by code_simp
  have u32: "(0::int) \<le> 1" "(1::int) < 2 ^ 32" "(0::int) \<le> 1" "(1::int) < 2 ^ 32"
    "(0::int) \<le> 2" "(2::int) < 2 ^ 32" "(0::int) \<le> 5" "(5::int) < 2 ^ 32"
    "(0::int) \<le> 6" "(6::int) < 2 ^ 32"
    by simp_all
  have answer: "\<And>a. (\<lambda>a s. (Inl (TransportStatusError 0x6d00), s :: unit)) a () =
      (Inl (TransportStatusError 0x6d00), ())"
    by simp
  show ?thesis
    using soft_unsupported_fallback
      [of "\<lambda>a s. (Inl (TransportStatusError 0x6d00), s :: unit)" "()"
          "Inl (TransportStatusError 0x6d00)" "()", OF answer u32 tx msg]
    by simp
qed

text \<open>
  C6: when the dispatch of the frames of signTransaction is rejected with an error
  whose statusCode is 0x6A80, signTransaction rejects with
  EthAppPleaseEnableContractData; with any other error it rejects with that error
  unchanged. No other operation remaps status 0x6A80: each rejects with the
  transport's error as it is.
\<close>

theorem contract_data_remap_only_in_signTransaction:
  fixes t :: "'s transport" and t' :: "'u transport"
  assumes built: "signTransaction_toSend decode paths rawTxHex = Some (Inr toSend)"
    and rejected: "foreach toSend (send_chunk 0x04 t) (None, s) = (Inl e, (response, s'))"
    and other: "\<And>a. t' a u = (Inl e', u')" "statusCode e' = Some 0x6a80"
    and u32: "0 \<le> withdrawalIndex" "withdrawalIndex < 2 ^ 32"
      "0 \<le> sourceVault" "sourceVault < 2 ^ 32" "0 \<le> destinationVault" "destinationVault < 2 ^ 32"
      "0 \<le> nonce" "nonce < 2 ^ 32" "0 \<le> timestamp" "timestamp < 2 ^ 32"
    and msg: "signPersonalMessage_toSend paths messageHex = Some (Inr (mframe # mframes))"
  shows
    "signTransaction decode paths rawTxHex t s =
       Some (Inl (if statusCode e = Some 0x6a80
                  then EthAppPleaseEnableContractData
                         ''Please enable Contract data on the Ethereum app Settings''
                  else e), s') \<and>
     getAddress paths boolDisplay boolChaincode t' u = (Inl e', u') \<and>
     provideERC20TokenInformation info t' u = (Inl e', u') \<and>
     getAppConfiguration t' u = (Inl e', u') \<and>
     signPersonalMessage paths messageHex t' u = Some (Inl e', u') \<and>
     signEIP712HashedMessage paths domainSeparatorHex hashStructMessageHex t' u = (Inl e', u') \<and>
     starkGetPublicKey paths boolDisplay t' u = (Inl e', u') \<and>
     starkSignOrder paths sourceToken sourceQuantization destinationToken
       destinationQuantization sourceVault destinationVault amountSell amountBuy nonce
       timestamp t' u = (Inl e', u') \<and>
     starkSignOrder_v2 paths sourceToken quantizationType optQuantization optBlob
       destinationToken quantizationType' optQuantization' optBlob' sourceVault
       destinationVault amountSell amountBuy nonce timestamp t' u = (Inl e', u') \<and>
     starkSignTransfer paths sourceToken sourceQuantization targetPublicKey sourceVault
       destinationVault amountSell nonce timestamp t' u = (Inl e', u') \<and>
     starkSignTransfer_v2 paths sourceToken quantizationType optQuantization optBlob
       targetPublicKey sourceVault destinationVault amountSell nonce timestamp
       conditionalAddress conditionalFact t' u = (Inl e', u') \<and>
     starkProvideQuantum sourceToken sourceQuantization t' u = (Inl e', u') \<and>
     starkProvideQuantum_v2 sourceToken quantizationType optQuantization optBlob t' u =
       (Inl e', u') \<and>
     starkUnsafeSign paths hashHex t' u = (Inl e', u') \<and>
     eth2GetPublicKey paths boolDisplay t' u = (Inl e', u') \<and>
     eth2SetWithdrawalIndex withdrawalIndex t' u = (Inl e', u')"
proof -
  have hard: "\<And>request f. \<exists>a. request = Inr a \<Longrightarrow>
      then_resolve (send_frame request t' u) f = (Inl e', u')"
    using other(1) by auto
  have soft: "\<And>request. \<exists>a. request = Inr a \<Longrightarrow>
      then_both (send_frame request t' u) (\<lambda>_. Inr True)
        (\<lambda>e. if statusCode e = Some 0x6d00 then Inr False else Inl e) = (Inl e', u')"
    using other by auto
  have 1: "signTransaction decode paths rawTxHex t s =
       Some (Inl (if statusCode e = Some 0x6a80
                  then EthAppPleaseEnableContractData
                         ''Please enable Contract data on the Ethereum app Settings''
                  else e), s')"
    using built rejected
    by (simp add: signTransaction_def signTransaction_send_def remapTransactionRelatedErrors_def)
  have 2: "getAddress paths boolDisplay boolChaincode t' u = (Inl e', u')"
    "getAppConfiguration t' u = (Inl e', u')"
    "signEIP712HashedMessage paths domainSeparatorHex hashStructMessageHex t' u = (Inl e', u')"
    "starkGetPublicKey paths boolDisplay t' u = (Inl e', u')"
    "starkUnsafeSign paths hashHex t' u = (Inl e', u')"
    "eth2GetPublicKey paths boolDisplay t' u = (Inl e', u')"
    using other(1)
    by (simp_all add: getAddress_def getAppConfiguration_def signEIP712HashedMessage_def
        starkGetPublicKey_def starkUnsafeSign_def eth2GetPublicKey_def hard
        getAddress_apdu_built signEIP712HashedMessage_apdu_built starkGetPublicKey_apdu_built
        starkUnsafeSign_apdu_built eth2GetPublicKey_apdu_built)
  have 3: "starkSignOrder paths sourceToken sourceQuantization destinationToken
          destinationQuantization sourceVault destinationVault amountSell amountBuy nonce
          timestamp t' u = (Inl e', u')"
    "starkSignOrder_v2 paths sourceToken quantizationType optQuantization optBlob
          destinationToken quantizationType' optQuantization' optBlob' sourceVault
          destinationVault amountSell amountBuy nonce timestamp t' u = (Inl e', u')"
    "starkSignTransfer paths sourceToken sourceQuantization targetPublicKey sourceVault
          destinationVault amountSell nonce timestamp t' u = (Inl e', u')"
    "starkSignTransfer_v2 paths sourceToken quantizationType optQuantization optBlob
          targetPublicKey sourceVault destinationVault amountSell nonce timestamp
          conditionalAddress conditionalFact t' u = (Inl e', u')"
    unfolding starkSignOrder_def starkSignOrder_v2_def starkSignTransfer_def starkSignTransfer_v2_def
    using u32
    by (simp_all add: hard starkSignOrder_apdu_built starkSignOrder_v2_apdu_built
        starkSignTransfer_apdu_built starkSignTransfer_v2_apdu_built)
  have 4: "signPersonalMessage paths messageHex t' u = Some (Inl e', u')"
    using other(1) msg
    by (simp add: signPersonalMessage_def signPersonalMessage_send_def foreach_any_rejected)
  have 5: "provideERC20TokenInformation info t' u = (Inl e', u')"
    using other by (simp add: provideERC20TokenInformation_def)
  have 6: "starkProvideQuantum sourceToken sourceQuantization t' u = (Inl e', u')"
    unfolding starkProvideQuantum_def by (rule soft) (rule starkProvideQuantum_apdu_built)
  have 7: "starkProvideQuantum_v2 sourceToken quantizationType optQuantization optBlob t' u =
       (Inl e', u')"
    unfolding starkProvideQuantum_v2_def by (rule soft) (rule starkProvideQuantum_v2_apdu_built)
  have 8: "eth2SetWithdrawalIndex withdrawalIndex t' u = (Inl e', u')"
    unfolding eth2SetWithdrawalIndex_def
    using u32 by (intro soft) (simp add: eth2SetWithdrawalIndex_apdu_built)
  show ?thesis
    using 1 2 3 4 5 6 7 8 by simp
qed

theorem contract_data_remap_only_in_signTransaction_witness:
  "signTransaction rlp_decode [0x8000002C, 0x8000CE10, 0x80000000, 0, 0]
     ''e8018504e3b292008252089428ee52a8f3d6e5d15f8b131996950d7f296c7952872bd72a2487400080''
     (\<lambda>a s. (Inl (TransportStatusError 0x6a80), s :: unit)) () =
     Some (Inl (EthAppPleaseEnableContractData
                  ''Please enable Contract data on the Ethereum app Settings''), ()) \<and>
   signPersonalMessage [0x8000002C, 0x8000CE10, 0x80000000, 0, 0] ''74657374''
     (\<lambda>a s. (Inl (TransportStatusError 0x6a80), s :: unit)) () =
     Some (Inl (TransportStatusError 0x6a80), ()) \<and>
   getAddress [0x8000002C, 0x8000CE10, 0x80000000, 0, 0] False False
     (\<lambda>a s. (Inl (TransportStatusError 0x6a80), s :: unit)) () =
     (Inl (TransportStatusError 0x6a80), ()) \<and>
   provideERC20TokenInformation [0x03, 0x5a, 0x52, 0x58]
     (\<lambda>a s. (Inl (TransportStatusError 0x6a80), s :: unit)) () =
     (Inl (TransportStatusError 0x6a80), ()) \<and>
   starkSignOrder [0x8000002C, 0x8000CE10, 0x80000000, 0, 0] None 1 None 1 1 2 3 4 5 6
     (\<lambda>a s. (Inl (TransportStatusError 0x6a80), s :: unit)) () =
     (Inl (TransportStatusError 0x6a80), ())"
proof -
  let ?paths = "[0x8000002C, 0x8000CE10, 0x80000000, 0, 0] :: 32 word list"
  let ?hex = "''e8018504e3b292008252089428ee52a8f3d6e5d15f8b131996950d7f296c7952872bd72a2487400080''"
  let ?t = "\<lambda>(a :: apdu) s. (Inl (TransportStatusError 0x6a80) :: error + Buffer, s :: unit)"
  have tx: "signTransaction_toSend rlp_decode ?paths ?hex =
      Some (Inr [path_header ?paths @ Buffer_from_hex ?hex])"
    by code_simp
  have rejected: "foreach [path_header ?paths @ Buffer_from_hex ?hex] (send_chunk 0x04 ?t) (None, ()) =
      (Inl (TransportStatusError 0x6a80), (None, ()))"
    by (simp add: foreach_def send_chunk_def)
  have msg: "signPersonalMessage_toSend ?paths ''74657374'' =
      Some (Inr ((path_header ?paths @ [0, 0, 0, 4] @ Buffer_from_hex ''74657374'') # []))"
    by code_simp
  have u32: "(0::int) \<le> 1" "(1::int) < 2 ^ 32" "(0::int) \<le> 1" "(1::int) < 2 ^ 32"
    "(0::int) \<le> 2" "(2::int) < 2 ^ 32" "(0::int) \<le> 5" "(5::int) < 2 ^ 32"
    "(0::int) \<le> 6" "(6::int) < 2 ^ 32"
    by simp_all
  have other: "\<And>a. ?t a () = (Inl (TransportStatusError 0x6a80), ())"
    "statusCode (TransportStatusError 0x6a80) = Some 0x6a80"
    by simp_all
  show ?thesis
    using contract_data_remap_only_in_signTransaction
      [where t = ?t and t' = ?t and s = "()" and u = "()", OF tx rejected other u32 msg]
    by simp
qed

lemma Buffer_slice_nonneg:
  "0 \<le> a \<Longrightarrow> a \<le> b \<Longrightarrow> Buffer_slice r a b = take (nat b - nat a) (drop (nat a) r)"
  by (auto simp: Buffer_slice_def slice_index_def min_def Let_def)

text \<open>
  C3 (the code does otherwise): for a 0-length message the chunking loop of
  signPersonalMessage does not run, so there is no frame at all, nothing is sent to
  the transport (its state is unchanged), and reading the response that was never
  assigned throws a TypeError.
\<close>

theorem signPersonalMessage_empty_message_sends_nothing:
  "signPersonalMessage_toSend paths [] = Some (Inr []) \<and>
   signPersonalMessage paths [] t s = Some (Inl TypeError, s)"
proof -
  have "signPersonalMessage_toSend paths [] = Some (Inr [])"
    by (simp add: signPersonalMessage_toSend_def signPersonalMessage_loop.simps)
  then show ?thesis
    by (simp add: signPersonalMessage_def signPersonalMessage_send_def foreach_def parse_vrs_def)
qed

lemma parse_rs_clipped:
  "parse_rs response =
     \<lparr>stark_r = toString_hex (take 32 (drop 1 response)),
      stark_s = toString_hex (take 32 (drop 33 response))\<rparr>"
  by (simp add: parse_rs_def Buffer_slice_nonneg)

lemma byte_at_0: "byte_at response (Some 0) = (case response of [] \<Rightarrow> None | b # _ \<Rightarrow> Some (uint b))"
  by (simp add: byte_at_def split: list.splits)

text \<open>
  C4 as stated fails: a response of two bytes to signTransaction is parsed into a
  result with truncated fields, and an empty response to getAddress into empty fields;
  neither is rejected.
\<close>

theorem short_response_counterexample:
  "signTransaction rlp_decode [0x8000002C, 0x8000CE10, 0x80000000, 0, 0]
     ''e8018504e3b292008252089428ee52a8f3d6e5d15f8b131996950d7f296c7952872bd72a2487400080''
     (\<lambda>a s. (Inr [0x1c, 0xab], s :: unit)) () =
     Some (Inr \<lparr>tx_v = ''1c'', tx_r = ''ab'', tx_s = []\<rparr>, ()) \<and>
   getAddress [0x8000002C, 0x8000CE10, 0x80000000, 0, 0] False True
     (\<lambda>a s. (Inr [], s :: unit)) () =
     (Inr \<lparr>publicKey = [], address = ''0x'', chainCode = Some []\<rparr>, ())"
proof -
  let ?paths = "[0x8000002C, 0x8000CE10, 0x80000000, 0, 0] :: 32 word list"
  let ?hex = "''e8018504e3b292008252089428ee52a8f3d6e5d15f8b131996950d7f296c7952872bd72a2487400080''"
  have tx: "signTransaction_toSend rlp_decode ?paths ?hex =
      Some (Inr [path_header ?paths @ Buffer_from_hex ?hex])"
    by code_simp
  have p: "signTransaction_parse (Some [0x1c, 0xab]) = Inr \<lparr>tx_v = ''1c'', tx_r = ''ab'', tx_s = []\<rparr>"
    by code_simp
  have g: "getAddress_parse True [] = \<lparr>publicKey = [], address = ''0x'', chainCode = Some []\<rparr>"
    by code_simp
  show ?thesis
    by (simp add: signTransaction_def tx signTransaction_send_def foreach_def send_chunk_def p
        getAddress_def getAddress_apdu_built g)
qed

text \<open>
  C4 as amended: no operation checks the length of the response. Whatever its length,
  an answered operation resolves: signTransaction, signPersonalMessage, the EIP-712 and
  the Stark signing operations with the hex of the bytes at the fixed offsets, clipped
  to the bytes that are there; getAddress, getAppConfiguration and the public-key
  operations with what their parsers read from the short buffer; the four boolean
  operations with true.
\<close>

theorem short_response_is_parsed_not_rejected:
  fixes t :: "'s transport" and t' :: "'u transport"
  assumes answer: "\<And>a. t' a u = (Inr response, u')"
    and u32: "0 \<le> withdrawalIndex" "withdrawalIndex < 2 ^ 32"
      "0 \<le> sourceVault" "sourceVault < 2 ^ 32" "0 \<le> destinationVault" "destinationVault < 2 ^ 32"
      "0 \<le> nonce" "nonce < 2 ^ 32" "0 \<le> timestamp" "timestamp < 2 ^ 32"
    and tx: "signTransaction_toSend decode paths rawTxHex = Some (Inr toSend)"
      "foreach toSend (send_chunk 0x04 t) (None, s) = (Inr results, (Some response, s'))"
    and msg: "signPersonalMessage_toSend paths messageHex = Some (Inr mtoSend)"
      "foreach mtoSend (send_chunk 0x08 t) (None, s) = (Inr results, (Some response, s'))"
  shows
    "signTransaction decode paths rawTxHex t s =
       Some (Inr \<lparr>tx_v = toString_hex (take 1 response),
                  tx_r = toString_hex (take 32 (drop 1 response)),
                  tx_s = toString_hex (take 32 (drop 33 response))\<rparr>, s') \<and>
     signPersonalMessage paths messageHex t s =
       Some (Inr \<lparr>msg_v = (case response of [] \<Rightarrow> None | b # _ \<Rightarrow> Some (uint b)),
                  msg_r = toString_hex (take 32 (drop 1 response)),
                  msg_s = toString_hex (take 32 (drop 33 response))\<rparr>, s') \<and>
     signEIP712HashedMessage paths domainSeparatorHex hashStructMessageHex t' u =
       (Inr \<lparr>msg_v = (case response of [] \<Rightarrow> None | b # _ \<Rightarrow> Some (uint b)),
             msg_r = toString_hex (take 32 (drop 1 response)),
             msg_s = toString_hex (take 32 (drop 33 response))\<rparr>, u') \<and>
     getAddress paths boolDisplay boolChaincode t' u =
       (Inr (getAddress_parse boolChaincode response), u') \<and>
     getAddress_parse boolChaincode [] =
       \<lparr>publicKey = [], address = ''0x'', chainCode = (if boolChaincode then Some [] else None)\<rparr> \<and>
     (\<exists>config. getAppConfiguration t' u = (Inr config, u')) \<and>
     starkGetPublicKey paths boolDisplay t' u =
       (Inr (Buffer_slice response 0 (int (length response) - 2)), u') \<and>
     eth2GetPublicKey paths boolDisplay t' u =
       (Inr (toString_hex (Buffer_slice response 0 (- 2))), u') \<and>
     starkSignOrder paths sourceToken sourceQuantization destinationToken
       destinationQuantization sourceVault destinationVault amountSell amountBuy nonce
       timestamp t' u =
       (Inr \<lparr>stark_r = toString_hex (take 32 (drop 1 response)),
             stark_s = toString_hex (take 32 (drop 33 response))\<rparr>, u') \<and>
     starkSignOrder_v2 paths sourceToken quantizationType optQuantization optBlob
       destinationToken quantizationType' optQuantization' optBlob' sourceVault
       destinationVault amountSell amountBuy nonce timestamp t' u =
       (Inr \<lparr>stark_r = toString_hex (take 32 (drop 1 response)),
             stark_s = toString_hex (take 32 (drop 33 response))\<rparr>, u') \<and>
     starkSignTransfer paths sourceToken sourceQuantization targetPublicKey sourceVault
       destinationVault amountSell nonce timestamp t' u =
       (Inr \<lparr>stark_r = toString_hex (take 32 (drop 1 response)),
             stark_s = toString_hex (take 32 (drop 33 response))\<rparr>, u') \<and>
     starkSignTransfer_v2 paths sourceToken quantizationType optQuantization optBlob
       targetPublicKey sourceVault destinationVault amountSell nonce timestamp
       conditionalAddress conditionalFact t' u =
       (Inr \<lparr>stark_r = toString_hex (take 32 (drop 1 response)),
             stark_s = toString_hex (take 32 (drop 33 response))\<rparr>, u') \<and>
     starkUnsafeSign paths hashHex t' u =
       (Inr \<lparr>stark_r = toString_hex (take 32 (drop 1 response)),
             stark_s = toString_hex (take 32 (drop 33 response))\<rparr>, u') \<and>
     provideERC20TokenInformation info t' u = (Inr True, u') \<and>
     starkProvideQuantum sourceToken sourceQuantization t' u = (Inr True, u') \<and>
     starkProvideQuantum_v2 sourceToken quantizationType optQuantization optBlob t' u =
       (Inr True, u') \<and>
     eth2SetWithdrawalIndex withdrawalIndex t' u = (Inr True, u')"
proof -
  have hard: "\<And>request f. \<exists>a. request = Inr a \<Longrightarrow>
      then_resolve (send_frame request t' u) f = (Inr (f response), u')"
    using answer by auto
  have soft: "\<And>request. \<exists>a. request = Inr a \<Longrightarrow>
      then_both (send_frame request t' u) (\<lambda>_. Inr True)
        (\<lambda>e. if statusCode e = Some 0x6d00 then Inr False else Inl e) = (Inr True, u')"
    using answer by auto
  have 1: "signTransaction decode paths rawTxHex t s =
       Some (Inr \<lparr>tx_v = toString_hex (take 1 response),
                  tx_r = toString_hex (take 32 (drop 1 response)),
                  tx_s = toString_hex (take 32 (drop 33 response))\<rparr>, s')"
    using tx
    by (simp add: signTransaction_def signTransaction_send_def signTransaction_parse_def
        Buffer_slice_nonneg)
  have 2: "signPersonalMessage paths messageHex t s =
       Some (Inr \<lparr>msg_v = (case response of [] \<Rightarrow> None | b # _ \<Rightarrow> Some (uint b)),
                  msg_r = toString_hex (take 32 (drop 1 response)),
                  msg_s = toString_hex (take 32 (drop 33 response))\<rparr>, s')"
    using msg
    by (simp add: signPersonalMessage_def signPersonalMessage_send_def parse_vrs_def
        Buffer_slice_nonneg byte_at_0)
  have 3: "signEIP712HashedMessage paths domainSeparatorHex hashStructMessageHex t' u =
       (Inr \<lparr>msg_v = (case response of [] \<Rightarrow> None | b # _ \<Rightarrow> Some (uint b)),
             msg_r = toString_hex (take 32 (drop 1 response)),
             msg_s = toString_hex (take 32 (drop 33 response))\<rparr>, u')"
    by (simp add: signEIP712HashedMessage_def hard signEIP712HashedMessage_apdu_built
        Buffer_slice_nonneg byte_at_0)
  have 4: "getAddress paths boolDisplay boolChaincode t' u =
       (Inr (getAddress_parse boolChaincode response), u')"
    "starkGetPublicKey paths boolDisplay t' u =
       (Inr (Buffer_slice response 0 (int (length response) - 2)), u')"
    "eth2GetPublicKey paths boolDisplay t' u =
       (Inr (toString_hex (Buffer_slice response 0 (- 2))), u')"
    "\<exists>config. getAppConfiguration t' u = (Inr config, u')"
    using answer
    by (simp_all add: getAddress_def starkGetPublicKey_def eth2GetPublicKey_def
        getAppConfiguration_def getAddress_apdu_built starkGetPublicKey_apdu_built
        eth2GetPublicKey_apdu_built)
  have 5: "getAddress_parse boolChaincode [] =
       \<lparr>publicKey = [], address = ''0x'', chainCode = (if boolChaincode then Some [] else None)\<rparr>"
    by (simp add: getAddress_parse_def byte_at_def js_plus_def js_add_def toInteger_def
        Buffer_slice_def toString_hex_def toString_ascii_def)
  have 6: "starkSignOrder paths sourceToken sourceQuantization destinationToken
       destinationQuantization sourceVault destinationVault amountSell amountBuy nonce
       timestamp t' u = (Inr (parse_rs response), u')"
    "starkSignOrder_v2 paths sourceToken quantizationType optQuantization optBlob
       destinationToken quantizationType' optQuantization' optBlob' sourceVault
       destinationVault amountSell amountBuy nonce timestamp t' u = (Inr (parse_rs response), u')"
    "starkSignTransfer paths sourceToken sourceQuantization targetPublicKey sourceVault
       destinationVault amountSell nonce timestamp t' u = (Inr (parse_rs response), u')"
    "starkSignTransfer_v2 paths sourceToken quantizationType optQuantization optBlob
       targetPublicKey sourceVault destinationVault amountSell nonce timestamp
       conditionalAddress conditionalFact t' u = (Inr (parse_rs response), u')"
    "starkUnsafeSign paths hashHex t' u = (Inr (parse_rs response), u')"
    unfolding starkSignOrder_def starkSignOrder_v2_def starkSignTransfer_def
      starkSignTransfer_v2_def starkUnsafeSign_def
    using u32
    by (simp_all add: hard starkSignOrder_apdu_built starkSignOrder_v2_apdu_built
        starkSignTransfer_apdu_built starkSignTransfer_v2_apdu_built starkUnsafeSign_apdu_built)
  have 7: "provideERC20TokenInformation info t' u = (Inr True, u')"
    using answer by (simp add: provideERC20TokenInformation_def)
  have 8: "starkProvideQuantum sourceToken sourceQuantization t' u = (Inr True, u')"
    unfolding starkProvideQuantum_def by (rule soft) (rule starkProvideQuantum_apdu_built)
  have 9: "starkProvideQuantum_v2 sourceToken quantizationType optQuantization optBlob t' u =
       (Inr True, u')"
    unfolding starkProvideQuantum_v2_def by (rule soft) (rule starkProvideQuantum_v2_apdu_built)
  have 10: "eth2SetWithdrawalIndex withdrawalIndex t' u = (Inr True, u')"
    unfolding eth2SetWithdrawalIndex_def
    using u32 by (intro soft) (simp add: eth2SetWithdrawalIndex_apdu_built)
  show ?thesis
    using 1 2 3 4 5 6 7 8 9 10 unfolding parse_rs_clipped by simp
qed

theorem short_response_is_parsed_not_rejected_witness:
  "signTransaction rlp_decode [0x8000002C, 0x8000CE10, 0x80000000, 0, 0]
     ''e8018504e3b292008252089428ee52a8f3d6e5d15f8b131996950d7f296c7952872bd72a2487400080''
     (\<lambda>a s. (Inr [0x1c, 0xab], s :: unit)) () =
     Some (Inr \<lparr>tx_v = ''1c'', tx_r = ''ab'', tx_s = []\<rparr>, ()) \<and>
   signPersonalMessage [0x8000002C, 0x8000CE10, 0x80000000, 0, 0] ''74657374''
     (\<lambda>a s. (Inr [0x1c, 0xab], s :: unit)) () =
     Some (Inr \<lparr>msg_v = Some 28, msg_r = ''ab'', msg_s = []\<rparr>, ()) \<and>
   starkSignOrder [0x8000002C, 0x8000CE10, 0x80000000, 0, 0] None 1 None 1 1 2 3 4 5 6
     (\<lambda>a s. (Inr [0x1c, 0xab], s :: unit)) () =
     (Inr \<lparr>stark_r = ''ab'', stark_s = []\<rparr>, ()) \<and>
   eth2SetWithdrawalIndex 1 (\<lambda>a s. (Inr [0x1c, 0xab], s :: unit)) () = (Inr True, ())"
proof -
  let ?paths = "[0x8000002C, 0x8000CE10, 0x80000000, 0, 0] :: 32 word list"
  let ?hex = "''e8018504e3b292008252089428ee52a8f3d6e5d15f8b131996950d7f296c7952872bd72a2487400080''"
  let ?t = "\<lambda>(a :: apdu) s. (Inr [0x1c, 0xab] :: error + Buffer, s :: unit)"
  have tx: "signTransaction_toSend rlp_decode ?paths ?hex =
      Some (Inr [path_header ?paths @ Buffer_from_hex ?hex])"
    by code_simp
  have txs: "foreach [path_header ?paths @ Buffer_from_hex ?hex] (send_chunk 0x04 ?t) (None, ()) =
      (Inr [()], (Some [0x1c, 0xab], ()))"
    by (simp add: foreach_def send_chunk_def)
  have msg: "signPersonalMessage_toSend ?paths ''74657374'' =
      Some (Inr [path_header ?paths @ [0, 0, 0, 4] @ Buffer_from_hex ''74657374''])"
    by code_simp
  have msgs: "foreach [path_header ?paths @ [0, 0, 0, 4] @ Buffer_from_hex ''74657374'']
      (send_chunk 0x08 ?t) (None, ()) = (Inr [()], (Some [0x1c, 0xab], ()))"
    by (simp add: foreach_def send_chunk_def)
  have u32: "(0::int) \<le> 1" "(1::int) < 2 ^ 32" "(0::int) \<le> 1" "(1::int) < 2 ^ 32"
    "(0::int) \<le> 2" "(2::int) < 2 ^ 32" "(0::int) \<le> 5" "(5::int) < 2 ^ 32"
    "(0::int) \<le> 6" "(6::int) < 2 ^ 32"
    by simp_all
  have answer: "\<And>a. ?t a () = (Inr [0x1c, 0xab], ())"
    by simp
  have h: "toString_hex [0x1c] = ''1c''" "toString_hex [0xab] = ''ab''" "toString_hex [] = []"
    by code_simp+
  show ?thesis
    using short_response_is_parsed_not_rejected
      [where t = ?t and t' = ?t and s = "()" and u = "()", OF answer u32 tx txs msg msgs]
    by (simp add: h)
qed

subsection \<open>The chunking loops\<close>

lemma Buffer_copy_chunk:
  assumes "0 < c" "off + c \<le> length source" "ts + c = length target"
  shows "Buffer_copy source target (int ts) (int off) (int off + int c) =
       Inr (take ts target @ take c (drop off source))"
proof -
  have "length target - ts = c" "nat (int off + int c - int off) = c"
    using assms by simp_all
  with assms show ?thesis
    by (simp add: Buffer_copy_def overwrite_def)
qed

lemma signTransaction_buffer_continuation:
  assumes "0 < offset" "0 < c" "offset + c \<le> length rawTx"
  shows "signTransaction_buffer paths rawTx (int offset) (int c) = Inr (take c (drop offset rawTx))"
  using assms Buffer_copy_chunk [of c offset rawTx 0 "replicate c 0"]
  by (simp add: signTransaction_buffer_def Buffer_alloc_def)

lemma signTransaction_buffer_first:
  assumes "0 < c" "c \<le> length rawTx"
  shows "signTransaction_buffer paths rawTx 0 (int c) = Inr (path_header paths @ take c rawTx)"
proof -
  let ?k = "length paths"
  have "signTransaction_buffer paths rawTx 0 (int c) =
      bind_err (Buffer_alloc (1 + int ?k * 4 + int c)) (\<lambda>buffer.
        bind_err (write_path_header buffer paths) (\<lambda>buffer.
          Buffer_copy rawTx buffer (int (1 + 4 * ?k)) (int 0) (int 0 + int c)))"
    by (simp add: signTransaction_buffer_def)
  also have "\<dots> = Buffer_copy rawTx
      (path_header paths @ replicate (nat (1 + int ?k * 4 + int c) - (1 + 4 * ?k)) 0)
      (int (1 + 4 * ?k)) (int 0) (int 0 + int c)"
    by (rule alloc_header) simp
  also have "nat (1 + int ?k * 4 + int c) - (1 + 4 * ?k) = c"
    by simp
  also have "Buffer_copy rawTx (path_header paths @ replicate c 0) (int (1 + 4 * ?k)) (int 0)
      (int 0 + int c) =
      Inr (take (1 + 4 * ?k) (path_header paths @ replicate c 0) @ take c (drop 0 rawTx))"
    using assms by (intro Buffer_copy_chunk) simp_all
  finally show ?thesis by simp
qed

lemma signTransaction_loop_step:
  "offset \<noteq> int (length rawTx) \<Longrightarrow>
     signTransaction_loop paths rawTx X offset toSend =
       (case signTransaction_buffer paths rawTx offset (signTransaction_chunkSize paths rawTx X offset) of
          Inl e \<Rightarrow> Some (Inl e)
        | Inr buffer \<Rightarrow>
            signTransaction_loop paths rawTx X
              (offset + signTransaction_chunkSize paths rawTx X offset) (toSend @ [buffer]))"
  by (subst signTransaction_loop.simps) (simp add: Let_def)

lemma signTransaction_chunkSize_continuation:
  assumes "X = 0 \<or> X \<noteq> int (length rawTx)" "0 < offset" "offset < length rawTx"
  shows "0 < signTransaction_chunkSize paths rawTx X (int offset) \<and>
         int offset + signTransaction_chunkSize paths rawTx X (int offset) \<le> int (length rawTx) \<and>
         signTransaction_chunkSize paths rawTx X (int offset) \<le> 150 \<and>
         (X \<noteq> 0 \<longrightarrow> int offset + signTransaction_chunkSize paths rawTx X (int offset) \<noteq> X)"
  using assms by (auto simp: signTransaction_chunkSize_def Let_def)

lemma signTransaction_chunkSize_first:
  assumes "X = 0 \<or> X \<noteq> int (length rawTx)" "length paths \<le> 36" "0 < length rawTx"
  shows "0 < signTransaction_chunkSize paths rawTx X 0 \<and>
         signTransaction_chunkSize paths rawTx X 0 \<le> int (length rawTx) \<and>
         1 + 4 * int (length paths) + signTransaction_chunkSize paths rawTx X 0 \<le> 150 \<and>
         (X \<noteq> 0 \<longrightarrow> signTransaction_chunkSize paths rawTx X 0 \<noteq> X)"
  using assms by (auto simp: signTransaction_chunkSize_def Let_def)

lemma signTransaction_loop_continuation:
  assumes X: "X = 0 \<or> X \<noteq> int (length rawTx)"
  shows "0 < offset \<Longrightarrow> offset \<le> length rawTx \<Longrightarrow>
    \<exists>chunks. signTransaction_loop paths rawTx X (int offset) toSend = Some (Inr (toSend @ chunks)) \<and>
      concat chunks = drop offset rawTx"
proof (induction "length rawTx - offset" arbitrary: offset toSend rule: less_induct)
  case less
  show ?case
  proof (cases "offset = length rawTx")
    case True
    then show ?thesis
      by (subst signTransaction_loop.simps) simp
  next
    case False
    define c where "c = nat (signTransaction_chunkSize paths rawTx X (int offset))"
    have c: "signTransaction_chunkSize paths rawTx X (int offset) = int c" "0 < c"
        "offset + c \<le> length rawTx"
      using signTransaction_chunkSize_continuation [OF X, of offset paths] False less.prems
      unfolding c_def by auto
    have b: "signTransaction_buffer paths rawTx (int offset) (int c) =
        Inr (take c (drop offset rawTx))"
      using less.prems c by (intro signTransaction_buffer_continuation) simp_all
    have step: "signTransaction_loop paths rawTx X (int offset) toSend =
        signTransaction_loop paths rawTx X (int (offset + c)) (toSend @ [take c (drop offset rawTx)])"
      using False by (subst signTransaction_loop_step) (simp_all add: c(1) b)
    have "\<exists>chunks.
        signTransaction_loop paths rawTx X (int (offset + c)) (toSend @ [take c (drop offset rawTx)]) =
          Some (Inr ((toSend @ [take c (drop offset rawTx)]) @ chunks)) \<and>
        concat chunks = drop (offset + c) rawTx"
    proof (rule less.hyps)
      show "length rawTx - (offset + c) < length rawTx - offset"
        using c less.prems by arith
      show "0 < offset + c" "offset + c \<le> length rawTx"
        using c by simp_all
    qed
    then obtain chunks where chunks:
      "signTransaction_loop paths rawTx X (int (offset + c)) (toSend @ [take c (drop offset rawTx)]) =
         Some (Inr ((toSend @ [take c (drop offset rawTx)]) @ chunks))"
      "concat chunks = drop (offset + c) rawTx"
      by blast
    have "take c (drop offset rawTx) @ drop (offset + c) rawTx = drop offset rawTx"
      by (metis add.commute append_take_drop_id drop_drop)
    then have "concat (take c (drop offset rawTx) # chunks) = drop offset rawTx"
      using chunks(2) by simp
    then show ?thesis
      using step chunks(1) by (intro exI [of _ "take c (drop offset rawTx) # chunks"]) simp
  qed
qed

lemma signTransaction_loop_total:
  assumes X: "X = 0 \<or> X \<noteq> int (length rawTx)" and k: "length paths \<le> 36"
  shows "(rawTx = [] \<and> signTransaction_loop paths rawTx X 0 [] = Some (Inr [])) \<or>
    (\<exists>chunk chunks. signTransaction_loop paths rawTx X 0 [] =
         Some (Inr ((path_header paths @ chunk) # chunks)) \<and>
       chunk @ concat chunks = rawTx)"
proof (cases "rawTx = []")
  case True
  then show ?thesis
    by (subst signTransaction_loop.simps) simp
next
  case False
  define c where "c = nat (signTransaction_chunkSize paths rawTx X 0)"
  have c: "signTransaction_chunkSize paths rawTx X 0 = int c" "0 < c" "c \<le> length rawTx"
    using signTransaction_chunkSize_first [OF X k] False unfolding c_def by auto
  have b: "signTransaction_buffer paths rawTx 0 (int c) = Inr (path_header paths @ take c rawTx)"
    using c by (intro signTransaction_buffer_first) simp_all
  have step: "signTransaction_loop paths rawTx X 0 [] =
      signTransaction_loop paths rawTx X (int c) [path_header paths @ take c rawTx]"
    using False by (subst signTransaction_loop_step) (simp_all add: c(1) b)
  obtain chunks where chunks:
    "signTransaction_loop paths rawTx X (int c) [path_header paths @ take c rawTx] =
       Some (Inr ([path_header paths @ take c rawTx] @ chunks))"
    "concat chunks = drop c rawTx"
    using signTransaction_loop_continuation
      [OF X, where offset = c and paths = paths and toSend = "[path_header paths @ take c rawTx]"] c
    by auto
  show ?thesis
    using step chunks by (intro disjI2 exI [of _ "take c rawTx"] exI [of _ chunks]) simp
qed

lemma length_encodeLength: "1 \<le> length (encodeLength len off)"
  by (simp add: encodeLength_def Let_def)

lemma length_encode_pos: "1 \<le> length (encode x)"
proof (cases x)
  case (RlpBytes b)
  then show ?thesis
    using length_encodeLength [of "length b" 128] by auto
next
  case (RlpList xs)
  then show ?thesis
    using length_encodeLength [of "length (concat (map encode xs))" 192] by (simp add: Let_def)
qed

lemma length_concat_encode: "length xs \<le> length (concat (map encode xs))"
proof (induction xs)
  case Nil
  then show ?case by simp
next
  case (Cons x xs)
  then show ?case using length_encode_pos [of x] by simp
qed

lemma length_encode_last3:
  assumes "6 < rlp_length x"
  shows "4 \<le> length (encode (rlp_slice_last3 x))"
proof (cases x)
  case (RlpBytes b)
  then show ?thesis
    using assms length_encodeLength [of "length (drop (length b - 3) b)" 128] by auto
next
  case (RlpList xs)
  let ?ys = "drop (length xs - 3) xs"
  have "length ?ys = 3"
    using assms RlpList by simp
  then have "3 \<le> length (concat (map encode ?ys))"
    using length_concat_encode [of ?ys] by simp
  then show ?thesis
    using RlpList length_encodeLength [of "length (concat (map encode ?ys))" 192]
    by (simp add: Let_def)
qed

lemma signTransaction_rlpOffset_inside:
  "signTransaction_rlpOffset rawTx rlpTx = 0 \<or>
   signTransaction_rlpOffset rawTx rlpTx \<noteq> int (length rawTx)"
  using length_encode_last3 [of rlpTx]
  by (auto simp: signTransaction_rlpOffset_def Let_def)

lemma signPersonalMessage_buffer_continuation:
  assumes "0 < offset" "0 < c" "offset + c \<le> length message"
  shows "signPersonalMessage_buffer paths message (int offset) (int c) =
    Inr (take c (drop offset message))"
  using assms Buffer_copy_chunk [of c offset message 0 "replicate c 0"]
  by (simp add: signPersonalMessage_buffer_def Buffer_alloc_def)

lemma signPersonalMessage_buffer_first:
  assumes "0 < c" "c \<le> length message" "length message < 2 ^ 32"
  shows "signPersonalMessage_buffer paths message 0 (int c) =
    Inr (path_header paths @ be32 (int (length message)) @ take c message)"
proof -
  let ?k = "length paths"
  let ?h = "path_header paths"
  let ?l = "be32 (int (length message))"
  have "signPersonalMessage_buffer paths message 0 (int c) =
      bind_err (Buffer_alloc (1 + int ?k * 4 + (4 + int c))) (\<lambda>buffer.
        bind_err (write_path_header buffer paths) (\<lambda>buffer.
          bind_err (writeUInt32BE buffer (int (length message)) (1 + 4 * ?k)) (\<lambda>buffer.
            Buffer_copy message buffer (int (1 + 4 * ?k + 4)) (int 0) (int 0 + int c))))"
    by (simp add: signPersonalMessage_buffer_def add.assoc)
  also have "\<dots> = bind_err
      (writeUInt32BE (?h @ replicate (nat (1 + int ?k * 4 + (4 + int c)) - (1 + 4 * ?k)) 0)
         (int (length message)) (1 + 4 * ?k))
      (\<lambda>buffer. Buffer_copy message buffer (int (1 + 4 * ?k + 4)) (int 0) (int 0 + int c))"
    by (rule alloc_header) simp
  also have "nat (1 + int ?k * 4 + (4 + int c)) - (1 + 4 * ?k) = 4 + c"
    by simp
  also have "writeUInt32BE (?h @ replicate (4 + c) 0) (int (length message)) (1 + 4 * ?k) =
      Inr (overwrite (?h @ replicate (4 + c) 0) (length ?h + 0) ?l)"
    using assms by (subst writeUInt32BE_overwrite) simp_all
  also have "overwrite (?h @ replicate (4 + c) 0) (length ?h + 0) ?l = ?h @ ?l @ replicate c 0"
    unfolding overwrite_append_right by (simp add: overwrite_0)
  also have "bind_err (Inr (?h @ ?l @ replicate c 0))
      (\<lambda>buffer. Buffer_copy message buffer (int (1 + 4 * ?k + 4)) (int 0) (int 0 + int c)) =
      Buffer_copy message (?h @ ?l @ replicate c 0) (int (1 + 4 * ?k + 4)) (int 0) (int 0 + int c)"
    by simp
  also have "\<dots> = Inr (take (1 + 4 * ?k + 4) (?h @ ?l @ replicate c 0) @ take c (drop 0 message))"
    using assms by (intro Buffer_copy_chunk) simp_all
  finally show ?thesis by simp
qed

lemma signPersonalMessage_loop_step:
  "offset \<noteq> int (length message) \<Longrightarrow>
     signPersonalMessage_loop paths message offset toSend =
       (case signPersonalMessage_buffer paths message offset
               (signPersonalMessage_chunkSize paths message offset) of
          Inl e \<Rightarrow> Some (Inl e)
        | Inr buffer \<Rightarrow>
            signPersonalMessage_loop paths message
              (offset + signPersonalMessage_chunkSize paths message offset) (toSend @ [buffer]))"
  by (subst signPersonalMessage_loop.simps) (simp add: Let_def)

lemma signPersonalMessage_loop_continuation:
  "0 < offset \<Longrightarrow> offset \<le> length message \<Longrightarrow>
    \<exists>chunks. signPersonalMessage_loop paths message (int offset) toSend =
        Some (Inr (toSend @ chunks)) \<and>
      concat chunks = drop offset message"
proof (induction "length message - offset" arbitrary: offset toSend rule: less_induct)
  case less
  show ?case
  proof (cases "offset = length message")
    case True
    then show ?thesis
      by (subst signPersonalMessage_loop.simps) simp
  next
    case False
    define c where "c = nat (signPersonalMessage_chunkSize paths message (int offset))"
    have c: "signPersonalMessage_chunkSize paths message (int offset) = int c" "0 < c"
        "offset + c \<le> length message"
      using False less.prems unfolding c_def
      by (auto simp: signPersonalMessage_chunkSize_def Let_def)
    have b: "signPersonalMessage_buffer paths message (int offset) (int c) =
        Inr (take c (drop offset message))"
      using less.prems c by (intro signPersonalMessage_buffer_continuation) simp_all
    have step: "signPersonalMessage_loop paths message (int offset) toSend =
        signPersonalMessage_loop paths message (int (offset + c))
          (toSend @ [take c (drop offset message)])"
      using False by (subst signPersonalMessage_loop_step) (simp_all add: c(1) b)
    have "\<exists>chunks.
        signPersonalMessage_loop paths message (int (offset + c))
            (toSend @ [take c (drop offset message)]) =
          Some (Inr ((toSend @ [take c (drop offset message)]) @ chunks)) \<and>
        concat chunks = drop (offset + c) message"
    proof (rule less.hyps)
      show "length message - (offset + c) < length message - offset"
        using c less.prems by arith
      show "0 < offset + c" "offset + c \<le> length message"
        using c by simp_all
    qed
    then obtain chunks where chunks:
      "signPersonalMessage_loop paths message (int (offset + c))
          (toSend @ [take c (drop offset message)]) =
         Some (Inr ((toSend @ [take c (drop offset message)]) @ chunks))"
      "concat chunks = drop (offset + c) message"
      by blast
    have "take c (drop offset message) @ drop (offset + c) message = drop offset message"
      by (metis add.commute append_take_drop_id drop_drop)
    then have "concat (take c (drop offset message) # chunks) = drop offset message"
      using chunks(2) by simp
    then show ?thesis
      using step chunks(1) by (intro exI [of _ "take c (drop offset message) # chunks"]) simp
  qed
qed

lemma signPersonalMessage_loop_total:
  assumes k: "length paths \<le> 36" and len: "length message < 2 ^ 32"
  shows "(message = [] \<and> signPersonalMessage_loop paths message 0 [] = Some (Inr [])) \<or>
    (\<exists>chunk chunks. signPersonalMessage_loop paths message 0 [] =
         Some (Inr ((path_header paths @ be32 (int (length message)) @ chunk) # chunks)) \<and>
       chunk @ concat chunks = message)"
proof (cases "message = []")
  case True
  then show ?thesis
    by (subst signPersonalMessage_loop.simps) simp
next
  case False
  define c where "c = nat (signPersonalMessage_chunkSize paths message 0)"
  have c: "signPersonalMessage_chunkSize paths message 0 = int c" "0 < c" "c \<le> length message"
    using False k unfolding c_def by (auto simp: signPersonalMessage_chunkSize_def Let_def)
  let ?first = "path_header paths @ be32 (int (length message)) @ take c message"
  have b: "signPersonalMessage_buffer paths message 0 (int c) = Inr ?first"
    using c len by (intro signPersonalMessage_buffer_first) simp_all
  have step: "signPersonalMessage_loop paths message 0 [] =
      signPersonalMessage_loop paths message (int c) [?first]"
    using False by (subst signPersonalMessage_loop_step) (simp_all add: c(1) b)
  obtain chunks where chunks:
    "signPersonalMessage_loop paths message (int c) [?first] = Some (Inr ([?first] @ chunks))"
    "concat chunks = drop c message"
    using signPersonalMessage_loop_continuation
      [where offset = c and paths = paths and toSend = "[?first]" and message = message] c
    by auto
  show ?thesis
    using step chunks by (intro disjI2 exI [of _ "take c message"] exI [of _ chunks]) simp
qed

text \<open>
  C1: the payload-bearing regions of the frames of the chunking loop, in order, are the
  payload. For signTransaction the first frame is the path header followed by the first
  chunk of the transaction; for signPersonalMessage it is the path header, the 4-byte
  length of the message and the first chunk; every later frame is a chunk and nothing
  else; the chunks concatenated are the payload. (An empty payload has no frame.)
\<close>

theorem chunks_reconstruct_payload:
  assumes "length paths \<le> 36"
    and "decode (Buffer_from_hex rawTxHex) = Inr rlpTx"
    and "length (Buffer_from_hex messageHex) < 2 ^ 32"
  shows
    "((Buffer_from_hex rawTxHex = [] \<and> signTransaction_toSend decode paths rawTxHex = Some (Inr [])) \<or>
      (\<exists>chunk chunks.
         signTransaction_toSend decode paths rawTxHex =
           Some (Inr ((path_header paths @ chunk) # chunks)) \<and>
         chunk @ concat chunks = Buffer_from_hex rawTxHex)) \<and>
     ((Buffer_from_hex messageHex = [] \<and> signPersonalMessage_toSend paths messageHex = Some (Inr [])) \<or>
      (\<exists>chunk chunks.
         signPersonalMessage_toSend paths messageHex =
           Some (Inr ((path_header paths @ be32 (int (length (Buffer_from_hex messageHex))) @ chunk)
                        # chunks)) \<and>
         chunk @ concat chunks = Buffer_from_hex messageHex))"
  using assms
    signTransaction_loop_total [OF signTransaction_rlpOffset_inside, of paths "Buffer_from_hex rawTxHex" rlpTx]
    signPersonalMessage_loop_total [of paths "Buffer_from_hex messageHex"]
  by (simp add: signTransaction_toSend_def signPersonalMessage_toSend_def Let_def)

lemma length_Buffer_from_hex: "length (Buffer_from_hex str) \<le> length str"
proof (induction str rule: Buffer_from_hex.induct)
  case (1 a b rest)
  show ?case
  proof (cases "hexDigit a")
    case None
    then show ?thesis by simp
  next
    case x: (Some x)
    show ?thesis
    proof (cases "hexDigit b")
      case None
      then show ?thesis using x by simp
    next
      case (Some y)
      then show ?thesis using x 1 [of x y] by simp
    qed
  qed
qed simp_all

theorem chunks_reconstruct_payload_witness:
  "((Buffer_from_hex
       ''e8018504e3b292008252089428ee52a8f3d6e5d15f8b131996950d7f296c7952872bd72a2487400080'' = [] \<and>
     signTransaction_toSend rlp_decode [0x8000002C, 0x8000CE10, 0x80000000, 0, 0]
       ''e8018504e3b292008252089428ee52a8f3d6e5d15f8b131996950d7f296c7952872bd72a2487400080'' =
       Some (Inr [])) \<or>
    (\<exists>chunk chunks.
       signTransaction_toSend rlp_decode [0x8000002C, 0x8000CE10, 0x80000000, 0, 0]
         ''e8018504e3b292008252089428ee52a8f3d6e5d15f8b131996950d7f296c7952872bd72a2487400080'' =
         Some (Inr ((path_header [0x8000002C, 0x8000CE10, 0x80000000, 0, 0] @ chunk) # chunks)) \<and>
       chunk @ concat chunks = Buffer_from_hex
         ''e8018504e3b292008252089428ee52a8f3d6e5d15f8b131996950d7f296c7952872bd72a2487400080'')) \<and>
   ((Buffer_from_hex ''000102030405060708090a0b0c0d0e0f101112131415161718191a1b1c1d1e1f202122232425262728292a2b2c2d2e2f303132333435363738393a3b3c3d3e3f404142434445464748494a4b4c4d4e4f505152535455565758595a5b5c5d5e5f606162636465666768696a6b6c6d6e6f707172737475767778797a7b7c7d7e7f808182838485868788898a8b8c8d8e8f909192939495969798999a9b9c9d9e9fa0a1a2a3a4a5a6a7a8a9aaabacadaeafb0b1b2b3b4b5b6b7b8b9babbbcbdbebfc0c1c2c3c4c5c6c7'' = [] \<and>
     signPersonalMessage_toSend [0x8000002C, 0x8000CE10, 0x80000000, 0, 0] ''000102030405060708090a0b0c0d0e0f101112131415161718191a1b1c1d1e1f202122232425262728292a2b2c2d2e2f303132333435363738393a3b3c3d3e3f404142434445464748494a4b4c4d4e4f505152535455565758595a5b5c5d5e5f606162636465666768696a6b6c6d6e6f707172737475767778797a7b7c7d7e7f808182838485868788898a8b8c8d8e8f909192939495969798999a9b9c9d9e9fa0a1a2a3a4a5a6a7a8a9aaabacadaeafb0b1b2b3b4b5b6b7b8b9babbbcbdbebfc0c1c2c3c4c5c6c7'' = Some (Inr [])) \<or>
    (\<exists>chunk chunks.
       signPersonalMessage_toSend [0x8000002C, 0x8000CE10, 0x80000000, 0, 0] ''000102030405060708090a0b0c0d0e0f101112131415161718191a1b1c1d1e1f202122232425262728292a2b2c2d2e2f303132333435363738393a3b3c3d3e3f404142434445464748494a4b4c4d4e4f505152535455565758595a5b5c5d5e5f606162636465666768696a6b6c6d6e6f707172737475767778797a7b7c7d7e7f808182838485868788898a8b8c8d8e8f909192939495969798999a9b9c9d9e9fa0a1a2a3a4a5a6a7a8a9aaabacadaeafb0b1b2b3b4b5b6b7b8b9babbbcbdbebfc0c1c2c3c4c5c6c7'' =
         Some (Inr ((path_header [0x8000002C, 0x8000CE10, 0x80000000, 0, 0] @
                     be32 (int (length (Buffer_from_hex ''000102030405060708090a0b0c0d0e0f101112131415161718191a1b1c1d1e1f202122232425262728292a2b2c2d2e2f303132333435363738393a3b3c3d3e3f404142434445464748494a4b4c4d4e4f505152535455565758595a5b5c5d5e5f606162636465666768696a6b6c6d6e6f707172737475767778797a7b7c7d7e7f808182838485868788898a8b8c8d8e8f909192939495969798999a9b9c9d9e9fa0a1a2a3a4a5a6a7a8a9aaabacadaeafb0b1b2b3b4b5b6b7b8b9babbbcbdbebfc0c1c2c3c4c5c6c7''))) @ chunk) # chunks)) \<and>
       chunk @ concat chunks = Buffer_from_hex ''000102030405060708090a0b0c0d0e0f101112131415161718191a1b1c1d1e1f202122232425262728292a2b2c2d2e2f303132333435363738393a3b3c3d3e3f404142434445464748494a4b4c4d4e4f505152535455565758595a5b5c5d5e5f606162636465666768696a6b6c6d6e6f707172737475767778797a7b7c7d7e7f808182838485868788898a8b8c8d8e8f909192939495969798999a9b9c9d9e9fa0a1a2a3a4a5a6a7a8a9aaabacadaeafb0b1b2b3b4b5b6b7b8b9babbbcbdbebfc0c1c2c3c4c5c6c7''))"
proof -
  have k: "length ([0x8000002C, 0x8000CE10, 0x80000000, 0, 0] :: 32 word list) \<le> 36"
    by simp
  have d: "rlp_decode (Buffer_from_hex
      ''e8018504e3b292008252089428ee52a8f3d6e5d15f8b131996950d7f296c7952872bd72a2487400080'') =
    Inr (RlpList [RlpBytes [0x01], RlpBytes [0x04, 0xe3, 0xb2, 0x92, 0x00], RlpBytes [0x52, 0x08],
      RlpBytes (Buffer_from_hex ''28ee52a8f3d6e5d15f8b131996950d7f296c7952''),
      RlpBytes [0x2b, 0xd7, 0x2a, 0x24, 0x87, 0x40, 0x00], RlpBytes []])"
    by code_simp
  have l: "length (Buffer_from_hex ''000102030405060708090a0b0c0d0e0f101112131415161718191a1b1c1d1e1f202122232425262728292a2b2c2d2e2f303132333435363738393a3b3c3d3e3f404142434445464748494a4b4c4d4e4f505152535455565758595a5b5c5d5e5f606162636465666768696a6b6c6d6e6f707172737475767778797a7b7c7d7e7f808182838485868788898a8b8c8d8e8f909192939495969798999a9b9c9d9e9fa0a1a2a3a4a5a6a7a8a9aaabacadaeafb0b1b2b3b4b5b6b7b8b9babbbcbdbebfc0c1c2c3c4c5c6c7'') < 2 ^ 32"
    using length_Buffer_from_hex [of "''000102030405060708090a0b0c0d0e0f101112131415161718191a1b1c1d1e1f202122232425262728292a2b2c2d2e2f303132333435363738393a3b3c3d3e3f404142434445464748494a4b4c4d4e4f505152535455565758595a5b5c5d5e5f606162636465666768696a6b6c6d6e6f707172737475767778797a7b7c7d7e7f808182838485868788898a8b8c8d8e8f909192939495969798999a9b9c9d9e9fa0a1a2a3a4a5a6a7a8a9aaabacadaeafb0b1b2b3b4b5b6b7b8b9babbbcbdbebfc0c1c2c3c4c5c6c7''"] by simp
  show ?thesis
    by (rule chunks_reconstruct_payload [where decode = rlp_decode, OF k d l])
qed

text \<open>
  C2 (the code does otherwise): a transaction of nine elements whose last three
  elements (v, r, s with 32-byte r and s) take 67 bytes. Their encoding as a list has a
  two-byte header, so the offset the code computes (the length of the transaction
  minus all but one byte of that list) is 128, while the three elements begin at
  offset 129. With a five-component path the first chunk holds 129 bytes: the first
  chunk boundary is exactly the offset at which the trailing three elements begin.
\<close>

theorem signTransaction_boundary_on_suffix_start:
  "map_sum id (\<lambda>rlpTx. (rlp_length rlpTx, suffix_offset (Buffer_from_hex ''f8c2018504e3b292008252089428ee52a8f3d6e5d15f8b131996950d7f296c7952872bd72a24874000b856a9059cbb000000000000000000000000000000000000000000000000000000000000000000000000000000000000000000000000000000000000000000000000000000000000000000000000000000000000000000001ca01111111111111111111111111111111111111111111111111111111111111111a02222222222222222222222222222222222222222222222222222222222222222'') rlpTx,
       signTransaction_rlpOffset (Buffer_from_hex ''f8c2018504e3b292008252089428ee52a8f3d6e5d15f8b131996950d7f296c7952872bd72a24874000b856a9059cbb000000000000000000000000000000000000000000000000000000000000000000000000000000000000000000000000000000000000000000000000000000000000000000000000000000000000000000001ca01111111111111111111111111111111111111111111111111111111111111111a02222222222222222222222222222222222222222222222222222222222222222'') rlpTx))
     (rlp_decode (Buffer_from_hex ''f8c2018504e3b292008252089428ee52a8f3d6e5d15f8b131996950d7f296c7952872bd72a24874000b856a9059cbb000000000000000000000000000000000000000000000000000000000000000000000000000000000000000000000000000000000000000000000000000000000000000000000000000000000000000000001ca01111111111111111111111111111111111111111111111111111111111111111a02222222222222222222222222222222222222222222222222222222222222222'')) = Inr (9, 129, 128) \<and>
   map_option (map_sum id (signTransaction_boundaries [0x8000002C, 0x8000CE10, 0x80000000, 0, 0]))
     (signTransaction_toSend rlp_decode [0x8000002C, 0x8000CE10, 0x80000000, 0, 0] ''f8c2018504e3b292008252089428ee52a8f3d6e5d15f8b131996950d7f296c7952872bd72a24874000b856a9059cbb000000000000000000000000000000000000000000000000000000000000000000000000000000000000000000000000000000000000000000000000000000000000000000000000000000000000000000001ca01111111111111111111111111111111111111111111111111111111111111111a02222222222222222222222222222222222222222222222222222222222222222'') =
     Some (Inr [129, 196])"
  by code_simp

subsection \<open>Fixed-width magnitude fields\<close>

lemma hexDigit_hexChar: "n < 16 \<Longrightarrow> hexDigit (hexChar n) = Some n"
  by (auto simp: hexDigit_def hexChar_def Let_def)

lemma length_hex_digits [simp]: "length (hex_digits n x) = n"
  by (induction n arbitrary: x) auto

lemma hex_digits_valid: "c \<in> set (hex_digits n x) \<Longrightarrow> hexDigit c \<noteq> None"
  by (induction n arbitrary: x) (auto simp: hexDigit_hexChar)

lemma hex_digits_zero: "hex_digits n 0 = replicate n (CHR ''0'')"
proof (induction n)
  case 0
  then show ?case by simp
next
  case (Suc n)
  have "hexChar 0 = CHR ''0''"
    by code_simp
  then show ?case
    using Suc by (simp add: replicate_append_same)
qed

lemma length_toString16: "x < 16 ^ n \<Longrightarrow> 0 < n \<Longrightarrow> length (toString16 x) \<le> n"
proof (induction n arbitrary: x)
  case 0
  then show ?case by simp
next
  case (Suc n)
  show ?case
  proof (cases "x < 16")
    case True
    then show ?thesis by (subst toString16.simps) simp
  next
    case False
    then have "0 < n" using Suc.prems by (cases n) auto
    moreover have "x div 16 < 16 ^ n" using Suc.prems by (simp add: less_mult_imp_div_less mult.commute)
    ultimately have "length (toString16 (x div 16)) \<le> n" by (rule Suc.IH [rotated])
    then show ?thesis using False by (subst toString16.simps) simp
  qed
qed

lemma padStart_toString16:
  "x < 16 ^ n \<Longrightarrow> 0 < n \<Longrightarrow> padStart n (CHR ''0'') (toString16 x) = hex_digits n x"
proof (induction n arbitrary: x)
  case 0
  then show ?case by simp
next
  case (Suc n)
  show ?case
  proof (cases "x < 16")
    case True
    then show ?thesis
      by (subst toString16.simps) (simp add: padStart_def hex_digits_zero)
  next
    case False
    then have n: "0 < n" using Suc.prems by (cases n) auto
    have d: "x div 16 < 16 ^ n" using Suc.prems by (simp add: less_mult_imp_div_less mult.commute)
    have l: "length (toString16 (x div 16)) \<le> n" using d n by (rule length_toString16)
    have "padStart n (CHR ''0'') (toString16 (x div 16)) = hex_digits n (x div 16)"
      using d n by (rule Suc.IH)
    then show ?thesis
      using False l by (subst toString16.simps) (simp add: padStart_def)
  qed
qed

lemma Buffer_from_hex_append:
  "even (length str) \<Longrightarrow> (\<forall>c \<in> set str. hexDigit c \<noteq> None) \<Longrightarrow>
     Buffer_from_hex (str @ rest) = Buffer_from_hex str @ Buffer_from_hex rest"
proof (induction str rule: Buffer_from_hex.induct)
  case (1 a b str)
  then show ?case by (auto split: option.splits)
qed simp_all

lemma byte_of_nat_mod: "(word_of_nat (16 * (x div 16 mod 16) + x mod 16) :: byte) = word_of_nat x"
proof -
  have "16 * (x div 16 mod 16) + x mod 16 = x mod 256"
    using mod_mult2_eq [of x 16 16] by simp
  moreover have "(word_of_nat (x mod 256) :: byte) = word_of_nat x"
    by (simp add: word_of_nat_eq_iff take_bit_eq_mod)
  ultimately show ?thesis by simp
qed

lemma byte_of_nibbles:
  "16 * word_of_nat (x div 16 mod 16) + word_of_nat (x mod 16) = (word_of_nat x :: byte)"
  using byte_of_nat_mod [of x] by simp

lemma Buffer_from_hex_digits: "Buffer_from_hex (hex_digits (2 * width) x) = be_bytes width x"
proof (induction width arbitrary: x)
  case 0
  then show ?case by simp
next
  case (Suc width)
  have "x div 16 div 16 = x div 256"
    using div_mult2_eq [of x 16 16] by simp
  then have "hex_digits (2 * Suc width) x =
      hex_digits (2 * width) (x div 256) @ [hexChar (x div 16 mod 16), hexChar (x mod 16)]"
    by simp
  moreover have "Buffer_from_hex [hexChar (x div 16 mod 16), hexChar (x mod 16)] = [word_of_nat x]"
    by (simp add: hexDigit_hexChar byte_of_nibbles)
  ultimately show ?case
    using Suc.IH [of "x div 256"] hex_digits_valid
    by (simp add: Buffer_from_hex_append)
qed

lemma magnitude_bytes_be:
  assumes "x < 256 ^ width" "0 < width"
  shows "magnitude_bytes width x = be_bytes width x"
proof -
  have "(256::nat) ^ width = 16 ^ (2 * width)"
    by (simp add: power_mult)
  then have "padStart (2 * width) (CHR ''0'') (toString16 x) = hex_digits (2 * width) x"
    using assms by (intro padStart_toString16) simp_all
  then show ?thesis
    by (simp add: magnitude_bytes_def Buffer_from_hex_digits)
qed

lemma length_be_bytes [simp]: "length (be_bytes width x) = width"
  by (induction width arbitrary: x) auto

lemma be_nat_snoc: "be_nat (bs @ [b]) = 256 * be_nat bs + unat b"
  by (simp add: be_nat_def)

lemma be_nat_be_bytes: "be_nat (be_bytes width x) = x mod 256 ^ width"
proof (induction width arbitrary: x)
  case 0
  then show ?case by (simp add: be_nat_def)
next
  case (Suc width)
  have "unat (word_of_nat x :: byte) = x mod 256"
    by (simp add: unat_of_nat)
  then have "be_nat (be_bytes (Suc width) x) = 256 * (x div 256 mod 256 ^ width) + x mod 256"
    using Suc.IH [of "x div 256"] by (simp add: be_nat_snoc)
  also have "\<dots> = x mod (256 * 256 ^ width)"
    using mod_mult2_eq [of x 256 "256 ^ width"] by simp
  finally show ?case by simp
qed

lemma field_overwrite_later:
  "off + w \<le> off' \<Longrightarrow> take w (drop off (overwrite b off' bs)) = take w (drop off b)"
  by (simp add: field_overwrite_other)

lemma field_overwrite_here:
  "length bs = w \<Longrightarrow> off + w \<le> length b \<Longrightarrow> take w (drop off (overwrite b off bs)) = bs"
  using field_overwrite_same [of off bs b] by simp

lemma copy_magnitude_never_rejected:
  "\<exists>buffer'. copy_to (magnitude_bytes width x) buffer off = Inr buffer' \<and>
     length buffer' = length buffer \<and>
     (x < 256 ^ width \<and> 0 < width \<and> off + width \<le> length buffer \<longrightarrow>
        take width (drop off buffer') = be_bytes width x)"
  by (simp add: magnitude_bytes_be field_overwrite_here)


lemma field_overwrite_end:
  "off + length bs = length b \<Longrightarrow> drop off (overwrite b off bs) = bs"
  by (simp add: overwrite_def)

lemma set_byte_overwrite: "set_byte b i v = overwrite b i [word_of_nat v]"
  by (auto simp: set_byte_def overwrite_def upd_conv_take_nth_drop)

lemma quantization_tag_simp:
  "quantization_tag msg ty =
     Inr (case ty of eth \<Rightarrow> 1 | erc20 \<Rightarrow> 2 | erc721 \<Rightarrow> 3 | erc20mintable \<Rightarrow> 4
          | erc721mintable \<Rightarrow> 5)"
  by (cases ty) (simp_all add: quantization_tag_def starkQuantizationTypeMap_def)

lemma starkSignOrder_frame:
  fixes t :: "'s transport"
  assumes u32: "0 \<le> sourceVault" "sourceVault < 2 ^ 32" "0 \<le> destinationVault"
      "destinationVault < 2 ^ 32" "0 \<le> nonce" "nonce < 2 ^ 32" "0 \<le> timestamp" "timestamp < 2 ^ 32"
  shows "\<exists>frame.
      starkSignOrder paths sourceToken sourceQuantization destinationToken
        destinationQuantization sourceVault destinationVault amountSell amountBuy nonce timestamp t s =
        then_resolve (t \<lparr>cla = 0xf0, ins = 0x04, p1 = 0x01, p2 = 0x00, data = frame\<rparr> s) parse_rs \<and>
      length frame = 1 + 4 * length paths + 136 \<and>
      (sourceQuantization < 2 ^ 256 \<longrightarrow>
         take 32 (drop (1 + 4 * length paths + 20) frame) = be_bytes 32 sourceQuantization) \<and>
      (destinationQuantization < 2 ^ 256 \<longrightarrow>
         take 32 (drop (1 + 4 * length paths + 72) frame) = be_bytes 32 destinationQuantization) \<and>
      (amountSell < 2 ^ 64 \<longrightarrow>
         take 8 (drop (1 + 4 * length paths + 112) frame) = be_bytes 8 amountSell) \<and>
      (amountBuy < 2 ^ 64 \<longrightarrow>
         take 8 (drop (1 + 4 * length paths + 120) frame) = be_bytes 8 amountBuy)"
proof -
  have "\<exists>frame.
      starkSignOrder_apdu paths sourceToken sourceQuantization destinationToken
        destinationQuantization sourceVault destinationVault amountSell amountBuy nonce timestamp =
        Inr \<lparr>cla = 0xf0, ins = 0x04, p1 = 0x01, p2 = 0x00, data = frame\<rparr> \<and>
      length frame = 1 + 4 * length paths + 136 \<and>
      (sourceQuantization < 2 ^ 256 \<longrightarrow>
         take 32 (drop (1 + 4 * length paths + 20) frame) = be_bytes 32 sourceQuantization) \<and>
      (destinationQuantization < 2 ^ 256 \<longrightarrow>
         take 32 (drop (1 + 4 * length paths + 72) frame) = be_bytes 32 destinationQuantization) \<and>
      (amountSell < 2 ^ 64 \<longrightarrow>
         take 8 (drop (1 + 4 * length paths + 112) frame) = be_bytes 8 amountSell) \<and>
      (amountBuy < 2 ^ 64 \<longrightarrow>
         take 8 (drop (1 + 4 * length paths + 120) frame) = be_bytes 8 amountBuy)"
    using u32 by (simp add: starkSignOrder_apdu_def Let_def alloc_header writeUInt32BE_built
      field_overwrite_later field_overwrite_here magnitude_bytes_be
      write_conditional_overwrite)
  then show ?thesis
    unfolding starkSignOrder_def by (elim exE conjE, intro exI conjI) (simp_all only: send_frame_Inr)
qed

lemma starkSignOrder_v2_frame:
  fixes t :: "'s transport"
  assumes u32: "0 \<le> sourceVault" "sourceVault < 2 ^ 32" "0 \<le> destinationVault"
      "destinationVault < 2 ^ 32" "0 \<le> nonce" "nonce < 2 ^ 32" "0 \<le> timestamp" "timestamp < 2 ^ 32"
  shows "\<exists>frame.
      starkSignOrder_v2 paths sourceToken sourceType sourceQuantization sourceBlob destinationToken
        destinationType destinationQuantization destinationBlob sourceVault destinationVault
        amountSell amountBuy nonce timestamp t s =
        then_resolve (t \<lparr>cla = 0xf0, ins = 0x04, p1 = 0x03, p2 = 0x00, data = frame\<rparr> s) parse_rs \<and>
      length frame = 1 + 4 * length paths + 202 \<and>
      (\<forall>q. sourceQuantization = Some q \<and> q < 2 ^ 256 \<longrightarrow>
         take 32 (drop (1 + 4 * length paths + 21) frame) = be_bytes 32 q) \<and>
      (\<forall>q. sourceBlob = Some q \<and> q < 2 ^ 256 \<longrightarrow>
         take 32 (drop (1 + 4 * length paths + 53) frame) = be_bytes 32 q) \<and>
      (\<forall>q. destinationQuantization = Some q \<and> q < 2 ^ 256 \<longrightarrow>
         take 32 (drop (1 + 4 * length paths + 106) frame) = be_bytes 32 q) \<and>
      (\<forall>q. destinationBlob = Some q \<and> q < 2 ^ 256 \<longrightarrow>
         take 32 (drop (1 + 4 * length paths + 138) frame) = be_bytes 32 q) \<and>
      (amountSell < 2 ^ 64 \<longrightarrow>
         take 8 (drop (1 + 4 * length paths + 178) frame) = be_bytes 8 amountSell) \<and>
      (amountBuy < 2 ^ 64 \<longrightarrow>
         take 8 (drop (1 + 4 * length paths + 186) frame) = be_bytes 8 amountBuy)"
proof -
  have "\<exists>frame.
      starkSignOrder_v2_apdu paths sourceToken sourceType sourceQuantization sourceBlob destinationToken
        destinationType destinationQuantization destinationBlob sourceVault destinationVault
        amountSell amountBuy nonce timestamp =
        Inr \<lparr>cla = 0xf0, ins = 0x04, p1 = 0x03, p2 = 0x00, data = frame\<rparr> \<and>
      length frame = 1 + 4 * length paths + 202 \<and>
      (\<forall>q. sourceQuantization = Some q \<and> q < 2 ^ 256 \<longrightarrow>
         take 32 (drop (1 + 4 * length paths + 21) frame) = be_bytes 32 q) \<and>
      (\<forall>q. sourceBlob = Some q \<and> q < 2 ^ 256 \<longrightarrow>
         take 32 (drop (1 + 4 * length paths + 53) frame) = be_bytes 32 q) \<and>
      (\<forall>q. destinationQuantization = Some q \<and> q < 2 ^ 256 \<longrightarrow>
         take 32 (drop (1 + 4 * length paths + 106) frame) = be_bytes 32 q) \<and>
      (\<forall>q. destinationBlob = Some q \<and> q < 2 ^ 256 \<longrightarrow>
         take 32 (drop (1 + 4 * length paths + 138) frame) = be_bytes 32 q) \<and>
      (amountSell < 2 ^ 64 \<longrightarrow>
         take 8 (drop (1 + 4 * length paths + 178) frame) = be_bytes 8 amountSell) \<and>
      (amountBuy < 2 ^ 64 \<longrightarrow>
         take 8 (drop (1 + 4 * length paths + 186) frame) = be_bytes 8 amountBuy)"
    using u32 by (simp add: starkSignOrder_v2_apdu_def quantization_tag_simp set_byte_overwrite Let_def alloc_header writeUInt32BE_built
      field_overwrite_later field_overwrite_here magnitude_bytes_be
      write_conditional_overwrite)
  then show ?thesis
    unfolding starkSignOrder_v2_def by (elim exE conjE, intro exI conjI) (simp_all only: send_frame_Inr)
qed

lemma starkSignTransfer_frame:
  fixes t :: "'s transport"
  assumes u32: "0 \<le> sourceVault" "sourceVault < 2 ^ 32" "0 \<le> destinationVault"
      "destinationVault < 2 ^ 32" "0 \<le> nonce" "nonce < 2 ^ 32" "0 \<le> timestamp" "timestamp < 2 ^ 32"
  shows "\<exists>frame.
      starkSignTransfer paths transferToken transferQuantization targetPublicKey sourceVault
        destinationVault amountTransfer nonce timestamp t s =
        then_resolve (t \<lparr>cla = 0xf0, ins = 0x04, p1 = 0x02, p2 = 0x00, data = frame\<rparr> s) parse_rs \<and>
      length frame = 1 + 4 * length paths + 108 \<and>
      (transferQuantization < 2 ^ 256 \<longrightarrow>
         take 32 (drop (1 + 4 * length paths + 20) frame) = be_bytes 32 transferQuantization) \<and>
      (amountTransfer < 2 ^ 64 \<longrightarrow>
         take 8 (drop (1 + 4 * length paths + 92) frame) = be_bytes 8 amountTransfer)"
proof -
  have "\<exists>frame.
      starkSignTransfer_apdu paths transferToken transferQuantization targetPublicKey sourceVault
        destinationVault amountTransfer nonce timestamp =
        Inr \<lparr>cla = 0xf0, ins = 0x04, p1 = 0x02, p2 = 0x00, data = frame\<rparr> \<and>
      length frame = 1 + 4 * length paths + 108 \<and>
      (transferQuantization < 2 ^ 256 \<longrightarrow>
         take 32 (drop (1 + 4 * length paths + 20) frame) = be_bytes 32 transferQuantization) \<and>
      (amountTransfer < 2 ^ 64 \<longrightarrow>
         take 8 (drop (1 + 4 * length paths + 92) frame) = be_bytes 8 amountTransfer)"
    using u32 by (simp add: starkSignTransfer_apdu_def Let_def alloc_header writeUInt32BE_built
      field_overwrite_later field_overwrite_here magnitude_bytes_be
      write_conditional_overwrite)
  then show ?thesis
    unfolding starkSignTransfer_def by (elim exE conjE, intro exI conjI) (simp_all only: send_frame_Inr)
qed

lemma starkProvideQuantum_frame:
  fixes t :: "'s transport"
  shows "\<exists>frame.
      starkProvideQuantum operationContract operationQuantization t s =
        then_both (t \<lparr>cla = 0xf0, ins = 0x08, p1 = 0x00, p2 = 0x00, data = frame\<rparr> s)
          (\<lambda>_. Inr True) (\<lambda>e. if statusCode e = Some 0x6d00 then Inr False else Inl e) \<and>
      length frame = 52 \<and>
      (operationQuantization < 2 ^ 256 \<longrightarrow>
         take 32 (drop 20 frame) = be_bytes 32 operationQuantization)"
proof -
  have "\<exists>frame.
      starkProvideQuantum_apdu operationContract operationQuantization =
        Inr \<lparr>cla = 0xf0, ins = 0x08, p1 = 0x00, p2 = 0x00, data = frame\<rparr> \<and>
      length frame = 52 \<and>
      (operationQuantization < 2 ^ 256 \<longrightarrow>
         take 32 (drop 20 frame) = be_bytes 32 operationQuantization)"
    by (simp add: starkProvideQuantum_apdu_def Buffer_alloc_def field_overwrite_end Let_def alloc_header writeUInt32BE_built
      field_overwrite_later field_overwrite_here magnitude_bytes_be
      write_conditional_overwrite)
  then show ?thesis
    unfolding starkProvideQuantum_def by (elim exE conjE, intro exI conjI) (simp_all only: send_frame_Inr)
qed


lemma starkSignTransfer_v2_frame:
  fixes t :: "'s transport"
  assumes u32: "0 \<le> sourceVault" "sourceVault < 2 ^ 32" "0 \<le> destinationVault"
      "destinationVault < 2 ^ 32" "0 \<le> nonce" "nonce < 2 ^ 32" "0 \<le> timestamp" "timestamp < 2 ^ 32"
  shows "\<exists>frame.
      starkSignTransfer_v2_apdu paths transferTokenAddress transferQuantizationType
        transferQuantization transferMintableBlobOrTokenId targetPublicKey sourceVault
        destinationVault amountTransfer nonce timestamp conditionalTransferAddress
        conditionalTransferFact =
        Inr \<lparr>cla = 0xf0, ins = 0x04,
             p1 = (if maybeHexBuffer conditionalTransferAddress \<noteq> None then 0x05 else 0x04),
             p2 = 0x00, data = frame\<rparr> \<and>
      length frame = 1 + 4 * length paths + 141 +
        (if maybeHexBuffer conditionalTransferAddress \<noteq> None then 52 else 0) \<and>
      (\<forall>q. transferQuantization = Some q \<and> q < 2 ^ 256 \<longrightarrow>
         take 32 (drop (1 + 4 * length paths + 21) frame) = be_bytes 32 q) \<and>
      (\<forall>q. transferMintableBlobOrTokenId = Some q \<and> q < 2 ^ 256 \<longrightarrow>
         take 32 (drop (1 + 4 * length paths + 53) frame) = be_bytes 32 q) \<and>
      (amountTransfer < 2 ^ 64 \<longrightarrow>
         take 8 (drop (1 + 4 * length paths + 125) frame) = be_bytes 8 amountTransfer) \<and>
      take 4 (drop (1 + 4 * length paths + 137) frame) = be32 timestamp \<and>
      (\<forall>a f. maybeHexBuffer conditionalTransferAddress = Some a \<and> conditionalTransferFact = Some f \<and>
         f < 2 ^ 256 \<longrightarrow>
         take 32 (drop (1 + 4 * length paths + 141) frame) = be_bytes 32 f) \<and>
      (\<forall>a f. maybeHexBuffer conditionalTransferAddress = Some a \<and> conditionalTransferFact = Some f \<and>
         length a = 20 \<longrightarrow>
         drop (1 + 4 * length paths + 173) frame = a)"
  using u32
  by (cases "maybeHexBuffer conditionalTransferAddress"; cases conditionalTransferFact)
     (simp_all add: starkSignTransfer_v2_apdu_def field_overwrite_end Let_def alloc_header writeUInt32BE_built
      field_overwrite_later field_overwrite_here magnitude_bytes_be
      write_conditional_overwrite quantization_tag_simp set_byte_overwrite)

lemma starkSignTransfer_v2_op_frame:
  fixes t :: "'s transport"
  assumes u32: "0 \<le> sourceVault" "sourceVault < 2 ^ 32" "0 \<le> destinationVault"
      "destinationVault < 2 ^ 32" "0 \<le> nonce" "nonce < 2 ^ 32" "0 \<le> timestamp" "timestamp < 2 ^ 32"
  shows "\<exists>frame.
      starkSignTransfer_v2 paths transferTokenAddress transferQuantizationType
        transferQuantization transferMintableBlobOrTokenId targetPublicKey sourceVault
        destinationVault amountTransfer nonce timestamp conditionalTransferAddress
        conditionalTransferFact t s =
        then_resolve
          (t \<lparr>cla = 0xf0, ins = 0x04,
              p1 = (if maybeHexBuffer conditionalTransferAddress \<noteq> None then 0x05 else 0x04),
              p2 = 0x00, data = frame\<rparr> s) parse_rs \<and>
      length frame = 1 + 4 * length paths + 141 +
        (if maybeHexBuffer conditionalTransferAddress \<noteq> None then 52 else 0) \<and>
      (\<forall>q. transferQuantization = Some q \<and> q < 2 ^ 256 \<longrightarrow>
         take 32 (drop (1 + 4 * length paths + 21) frame) = be_bytes 32 q) \<and>
      (\<forall>q. transferMintableBlobOrTokenId = Some q \<and> q < 2 ^ 256 \<longrightarrow>
         take 32 (drop (1 + 4 * length paths + 53) frame) = be_bytes 32 q) \<and>
      (amountTransfer < 2 ^ 64 \<longrightarrow>
         take 8 (drop (1 + 4 * length paths + 125) frame) = be_bytes 8 amountTransfer) \<and>
      take 4 (drop (1 + 4 * length paths + 137) frame) = be32 timestamp \<and>
      (\<forall>a f. maybeHexBuffer conditionalTransferAddress = Some a \<and> conditionalTransferFact = Some f \<and>
         f < 2 ^ 256 \<longrightarrow>
         take 32 (drop (1 + 4 * length paths + 141) frame) = be_bytes 32 f) \<and>
      (\<forall>a f. maybeHexBuffer conditionalTransferAddress = Some a \<and> conditionalTransferFact = Some f \<and>
         length a = 20 \<longrightarrow>
         drop (1 + 4 * length paths + 173) frame = a)"
  using starkSignTransfer_v2_frame [OF u32, of paths transferTokenAddress transferQuantizationType
        transferQuantization transferMintableBlobOrTokenId targetPublicKey amountTransfer
        conditionalTransferAddress conditionalTransferFact]
  unfolding starkSignTransfer_v2_def by (elim exE conjE, intro exI conjI) (simp_all only: send_frame_Inr)

lemma starkProvideQuantum_v2_frame:
  fixes t :: "'s transport"
  shows "\<exists>frame tag.
      starkProvideQuantum_v2 operationContract operationQuantizationType operationQuantization
        operationMintableBlobOrTokenId t s =
        then_both (t \<lparr>cla = 0xf0, ins = 0x08, p1 = tag, p2 = 0x00, data = frame\<rparr> s)
          (\<lambda>_. Inr True) (\<lambda>e. if statusCode e = Some 0x6d00 then Inr False else Inl e) \<and>
      length frame = 84 \<and>
      (\<forall>q. operationQuantization = Some q \<and> q < 2 ^ 256 \<longrightarrow>
         take 32 (drop 20 frame) = be_bytes 32 q) \<and>
      (\<forall>q. operationMintableBlobOrTokenId = Some q \<and> q < 2 ^ 256 \<longrightarrow>
         drop 52 frame = be_bytes 32 q)"
proof -
  have "\<exists>frame tag.
      starkProvideQuantum_v2_apdu operationContract operationQuantizationType operationQuantization
        operationMintableBlobOrTokenId =
        Inr \<lparr>cla = 0xf0, ins = 0x08, p1 = tag, p2 = 0x00, data = frame\<rparr> \<and>
      length frame = 84 \<and>
      (\<forall>q. operationQuantization = Some q \<and> q < 2 ^ 256 \<longrightarrow>
         take 32 (drop 20 frame) = be_bytes 32 q) \<and>
      (\<forall>q. operationMintableBlobOrTokenId = Some q \<and> q < 2 ^ 256 \<longrightarrow>
         drop 52 frame = be_bytes 32 q)"
    by (simp add: starkProvideQuantum_v2_apdu_def Buffer_alloc_def field_overwrite_end Let_def alloc_header writeUInt32BE_built
      field_overwrite_later field_overwrite_here magnitude_bytes_be
      write_conditional_overwrite quantization_tag_simp set_byte_overwrite)
  then show ?thesis
    unfolding starkProvideQuantum_v2_def by (elim exE conjE, intro exI conjI) (simp_all only: send_frame_Inr)
qed

lemma magnitude_bytes_two_to_64:
  "magnitude_bytes 8 18446744073709551616 = [0x10, 0, 0, 0, 0, 0, 0, 0]"
  by (simp add: magnitude_bytes_def toString16.simps padStart_def hexChar_def hexDigit_def)

lemma starkSignTransfer_v2_sent:
  fixes t :: "'s transport"
  shows "starkSignTransfer_v2_apdu paths transferTokenAddress transferQuantizationType
        transferQuantization transferMintableBlobOrTokenId targetPublicKey sourceVault
        destinationVault amountTransfer nonce timestamp conditionalTransferAddress
        conditionalTransferFact = Inr a \<Longrightarrow>
      starkSignTransfer_v2 paths transferTokenAddress transferQuantizationType
        transferQuantization transferMintableBlobOrTokenId targetPublicKey sourceVault
        destinationVault amountTransfer nonce timestamp conditionalTransferAddress
        conditionalTransferFact t s = then_resolve (t a s) parse_rs"
  by (simp add: starkSignTransfer_v2_def send_frame_Inr)

text \<open>
  Claim C5, as the code has it. No operation compares a magnitude with the width of its
  field: the expression \<^verbatim>\<open>Buffer.from(x.toString(16).padStart(2 * width, "0"), "hex").copy(buffer, offset)\<close>
  never throws, whatever the magnitude, and leaves the length of the frame unchanged. So
  each of the six Stark operations with magnitude fields builds its frame of the fixed
  length and hands it to the transport for every magnitude; and a magnitude below
  \<open>256 ^ width\<close> fills its field with its big-endian bytes, zero-padded on the left.
\<close>

theorem magnitude_fields_padded_never_rejected:
  fixes t :: "'s transport"
  assumes "0 \<le> sourceVault" "sourceVault < 2 ^ 32" "0 \<le> destinationVault"
      "destinationVault < 2 ^ 32" "0 \<le> nonce" "nonce < 2 ^ 32" "0 \<le> timestamp" "timestamp < 2 ^ 32"
  shows "(\<exists>buffer'. copy_to (magnitude_bytes width x) buffer off = Inr buffer' \<and>
            length buffer' = length buffer) \<and>
    (\<exists>frame.
      starkSignOrder paths sourceToken sourceQuantization destinationToken
        destinationQuantization sourceVault destinationVault amountSell amountBuy nonce timestamp t s =
        then_resolve (t \<lparr>cla = 0xf0, ins = 0x04, p1 = 0x01, p2 = 0x00, data = frame\<rparr> s) parse_rs \<and>
      length frame = 1 + 4 * length paths + 136 \<and>
      (sourceQuantization < 2 ^ 256 \<longrightarrow>
         take 32 (drop (1 + 4 * length paths + 20) frame) = be_bytes 32 sourceQuantization) \<and>
      (destinationQuantization < 2 ^ 256 \<longrightarrow>
         take 32 (drop (1 + 4 * length paths + 72) frame) = be_bytes 32 destinationQuantization) \<and>
      (amountSell < 2 ^ 64 \<longrightarrow>
         take 8 (drop (1 + 4 * length paths + 112) frame) = be_bytes 8 amountSell) \<and>
      (amountBuy < 2 ^ 64 \<longrightarrow>
         take 8 (drop (1 + 4 * length paths + 120) frame) = be_bytes 8 amountBuy)) \<and>
    (\<exists>frame.
      starkSignOrder_v2 paths sourceToken sourceType sourceQuantization_v2 sourceBlob destinationToken
        destinationType destinationQuantization_v2 destinationBlob sourceVault destinationVault
        amountSell amountBuy nonce timestamp t s =
        then_resolve (t \<lparr>cla = 0xf0, ins = 0x04, p1 = 0x03, p2 = 0x00, data = frame\<rparr> s) parse_rs \<and>
      length frame = 1 + 4 * length paths + 202 \<and>
      (\<forall>q. sourceQuantization_v2 = Some q \<and> q < 2 ^ 256 \<longrightarrow>
         take 32 (drop (1 + 4 * length paths + 21) frame) = be_bytes 32 q) \<and>
      (\<forall>q. sourceBlob = Some q \<and> q < 2 ^ 256 \<longrightarrow>
         take 32 (drop (1 + 4 * length paths + 53) frame) = be_bytes 32 q) \<and>
      (\<forall>q. destinationQuantization_v2 = Some q \<and> q < 2 ^ 256 \<longrightarrow>
         take 32 (drop (1 + 4 * length paths + 106) frame) = be_bytes 32 q) \<and>
      (\<forall>q. destinationBlob = Some q \<and> q < 2 ^ 256 \<longrightarrow>
         take 32 (drop (1 + 4 * length paths + 138) frame) = be_bytes 32 q) \<and>
      (amountSell < 2 ^ 64 \<longrightarrow>
         take 8 (drop (1 + 4 * length paths + 178) frame) = be_bytes 8 amountSell) \<and>
      (amountBuy < 2 ^ 64 \<longrightarrow>
         take 8 (drop (1 + 4 * length paths + 186) frame) = be_bytes 8 amountBuy)) \<and>
    (\<exists>frame.
      starkSignTransfer paths transferToken transferQuantization targetPublicKey sourceVault
        destinationVault amountTransfer nonce timestamp t s =
        then_resolve (t \<lparr>cla = 0xf0, ins = 0x04, p1 = 0x02, p2 = 0x00, data = frame\<rparr> s) parse_rs \<and>
      length frame = 1 + 4 * length paths + 108 \<and>
      (transferQuantization < 2 ^ 256 \<longrightarrow>
         take 32 (drop (1 + 4 * length paths + 20) frame) = be_bytes 32 transferQuantization) \<and>
      (amountTransfer < 2 ^ 64 \<longrightarrow>
         take 8 (drop (1 + 4 * length paths + 92) frame) = be_bytes 8 amountTransfer)) \<and>
    (\<exists>frame.
      starkSignTransfer_v2 paths transferToken transferType transferQuantization_v2
        transferBlob targetPublicKey sourceVault destinationVault amountTransfer nonce timestamp
        conditionalTransferAddress conditionalTransferFact t s =
        then_resolve
          (t \<lparr>cla = 0xf0, ins = 0x04,
              p1 = (if maybeHexBuffer conditionalTransferAddress \<noteq> None then 0x05 else 0x04),
              p2 = 0x00, data = frame\<rparr> s) parse_rs \<and>
      length frame = 1 + 4 * length paths + 141 +
        (if maybeHexBuffer conditionalTransferAddress \<noteq> None then 52 else 0) \<and>
      (\<forall>q. transferQuantization_v2 = Some q \<and> q < 2 ^ 256 \<longrightarrow>
         take 32 (drop (1 + 4 * length paths + 21) frame) = be_bytes 32 q) \<and>
      (\<forall>q. transferBlob = Some q \<and> q < 2 ^ 256 \<longrightarrow>
         take 32 (drop (1 + 4 * length paths + 53) frame) = be_bytes 32 q) \<and>
      (amountTransfer < 2 ^ 64 \<longrightarrow>
         take 8 (drop (1 + 4 * length paths + 125) frame) = be_bytes 8 amountTransfer) \<and>
      take 4 (drop (1 + 4 * length paths + 137) frame) = be32 timestamp \<and>
      (\<forall>a f. maybeHexBuffer conditionalTransferAddress = Some a \<and> conditionalTransferFact = Some f \<and>
         f < 2 ^ 256 \<longrightarrow>
         take 32 (drop (1 + 4 * length paths + 141) frame) = be_bytes 32 f) \<and>
      (\<forall>a f. maybeHexBuffer conditionalTransferAddress = Some a \<and> conditionalTransferFact = Some f \<and>
         length a = 20 \<longrightarrow>
         drop (1 + 4 * length paths + 173) frame = a)) \<and>
    (\<exists>frame.
      starkProvideQuantum operationContract operationQuantization t s =
        then_both (t \<lparr>cla = 0xf0, ins = 0x08, p1 = 0x00, p2 = 0x00, data = frame\<rparr> s)
          (\<lambda>_. Inr True) (\<lambda>e. if statusCode e = Some 0x6d00 then Inr False else Inl e) \<and>
      length frame = 52 \<and>
      (operationQuantization < 2 ^ 256 \<longrightarrow>
         take 32 (drop 20 frame) = be_bytes 32 operationQuantization)) \<and>
    (\<exists>frame tag.
      starkProvideQuantum_v2 operationContract operationType operationQuantization_v2
        operationBlob t s =
        then_both (t \<lparr>cla = 0xf0, ins = 0x08, p1 = tag, p2 = 0x00, data = frame\<rparr> s)
          (\<lambda>_. Inr True) (\<lambda>e. if statusCode e = Some 0x6d00 then Inr False else Inl e) \<and>
      length frame = 84 \<and>
      (\<forall>q. operationQuantization_v2 = Some q \<and> q < 2 ^ 256 \<longrightarrow>
         take 32 (drop 20 frame) = be_bytes 32 q) \<and>
      (\<forall>q. operationBlob = Some q \<and> q < 2 ^ 256 \<longrightarrow>
         drop 52 frame = be_bytes 32 q))"
proof (intro conjI)
  show "\<exists>buffer'. copy_to (magnitude_bytes width x) buffer off = Inr buffer' \<and>
            length buffer' = length buffer"
    by simp
qed (rule starkSignOrder_frame starkSignOrder_v2_frame starkSignTransfer_frame
      starkSignTransfer_v2_op_frame starkProvideQuantum_frame starkProvideQuantum_v2_frame; rule assms)+


lemma parse_rs_Nil: "parse_rs [] = \<lparr>stark_r = [], stark_s = []\<rparr>"
  by (simp add: parse_rs_def Buffer_slice_def slice_index_def toString_hex_def)

theorem oversize_amount_counterexample:
  "\<exists>frame.
     starkSignOrder [0x8000002C, 0x8000CE10, 0x80000000, 0, 0] None 1 None 1 1 2
       18446744073709551616 4 5 6 (\<lambda>a s. (Inr [], s @ [a])) [] =
       (Inr \<lparr>stark_r = [], stark_s = []\<rparr>,
        [\<lparr>cla = 0xf0, ins = 0x04, p1 = 0x01, p2 = 0x00, data = frame\<rparr>]) \<and>
     length frame = 157 \<and>
     take 8 (drop 133 frame) = [0x10, 0, 0, 0, 0, 0, 0, 0]"
  by (simp add: starkSignOrder_def starkSignOrder_apdu_def send_frame_def then_resolve_def
      parse_rs_Nil Let_def alloc_header writeUInt32BE_built field_overwrite_later
      field_overwrite_here magnitude_bytes_two_to_64)

theorem magnitude_fields_padded_never_rejected_witness:
  "\<exists>frame.
     starkSignOrder [0x8000002C, 0x8000CE10, 0x80000000, 0, 0] None 1 None 1 1 2 3 4 5 6
       (\<lambda>a s. (Inr [], s @ [a])) [] =
       (Inr \<lparr>stark_r = [], stark_s = []\<rparr>,
        [\<lparr>cla = 0xf0, ins = 0x04, p1 = 0x01, p2 = 0x00, data = frame\<rparr>]) \<and>
     length frame = 157 \<and>
     take 32 (drop 41 frame) = be_bytes 32 1 \<and>
     take 32 (drop 93 frame) = be_bytes 32 1 \<and>
     take 8 (drop 133 frame) = be_bytes 8 3 \<and>
     take 8 (drop 141 frame) = be_bytes 8 4"
proof -
  have u32: "(0::int) \<le> 1" "(1::int) < 2 ^ 32" "(0::int) \<le> 2" "(2::int) < 2 ^ 32"
    "(0::int) \<le> 5" "(5::int) < 2 ^ 32" "(0::int) \<le> 6" "(6::int) < 2 ^ 32"
    by simp_all
  show ?thesis
    using magnitude_fields_padded_never_rejected [OF u32,
      where paths = "[0x8000002C, 0x8000CE10, 0x80000000, 0, 0]" and sourceToken = None
        and sourceQuantization = 1 and destinationToken = None and destinationQuantization = 1
        and amountSell = 3 and amountBuy = 4 and t = "\<lambda>a s. (Inr [], s @ [a])" and s = "[]",
      THEN conjunct2, THEN conjunct1]
    by (simp add: then_resolve_def parse_rs_Nil)
qed


text \<open>
  Claim C8, as the code has it. The length of the frame of \<^verbatim>\<open>starkSignTransfer_v2\<close> and
  its sub-instruction byte are both decided by the conditional address alone (lines 765
  and 821), so they always agree: a non-empty address gives the base frame and 52 more
  bytes with p1 = 0x05, whether or not a fact comes with it; no address gives the base
  frame with p1 = 0x04 and the timestamp as its last field, whatever the fact. The two
  fields are written only when both are supplied (line 808): then the 52 bytes after the
  timestamp are the 32-byte fact followed by the 20-byte address. The frame built is the
  one handed to the transport.
\<close>

theorem conditional_transfer_frame_agrees_with_p1:
  fixes t :: "'s transport"
  assumes "0 \<le> sourceVault" "sourceVault < 2 ^ 32" "0 \<le> destinationVault"
      "destinationVault < 2 ^ 32" "0 \<le> nonce" "nonce < 2 ^ 32" "0 \<le> timestamp" "timestamp < 2 ^ 32"
  shows "\<exists>a.
      starkSignTransfer_v2_apdu paths transferTokenAddress transferQuantizationType
        transferQuantization transferMintableBlobOrTokenId targetPublicKey sourceVault
        destinationVault amountTransfer nonce timestamp conditionalTransferAddress
        conditionalTransferFact = Inr a \<and>
      starkSignTransfer_v2 paths transferTokenAddress transferQuantizationType
        transferQuantization transferMintableBlobOrTokenId targetPublicKey sourceVault
        destinationVault amountTransfer nonce timestamp conditionalTransferAddress
        conditionalTransferFact t s = then_resolve (t a s) parse_rs \<and>
      cla a = 0xf0 \<and> ins a = 0x04 \<and> p2 a = 0x00 \<and>
      (p1 a = 0x05 \<and> length (data a) = 1 + 4 * length paths + 141 + 52 \<or>
       p1 a = 0x04 \<and> length (data a) = 1 + 4 * length paths + 141) \<and>
      take 4 (drop (1 + 4 * length paths + 137) (data a)) = be32 timestamp \<and>
      (\<forall>addr. conditionalTransferAddress = Some addr \<and> addr \<noteq> [] \<longrightarrow>
         p1 a = 0x05 \<and> length (data a) = 1 + 4 * length paths + 141 + 52) \<and>
      (\<forall>addr f. conditionalTransferAddress = Some addr \<and> addr \<noteq> [] \<and>
           conditionalTransferFact = Some f \<longrightarrow>
         (f < 2 ^ 256 \<longrightarrow>
            take 32 (drop (1 + 4 * length paths + 141) (data a)) = be_bytes 32 f) \<and>
         (length (hexBuffer addr) = 20 \<longrightarrow>
            drop (1 + 4 * length paths + 173) (data a) = hexBuffer addr)) \<and>
      (conditionalTransferAddress = None \<or> conditionalTransferAddress = Some [] \<longrightarrow>
         p1 a = 0x04 \<and> length (data a) = 1 + 4 * length paths + 141 \<and>
         drop (1 + 4 * length paths + 137) (data a) = be32 timestamp)"
proof -
  let ?ca = "maybeHexBuffer conditionalTransferAddress"
  obtain frame where f:
    "starkSignTransfer_v2_apdu paths transferTokenAddress transferQuantizationType
        transferQuantization transferMintableBlobOrTokenId targetPublicKey sourceVault
        destinationVault amountTransfer nonce timestamp conditionalTransferAddress
        conditionalTransferFact =
        Inr \<lparr>cla = 0xf0, ins = 0x04, p1 = (if ?ca \<noteq> None then 0x05 else 0x04),
             p2 = 0x00, data = frame\<rparr>"
    and len: "length frame = 1 + 4 * length paths + 141 + (if ?ca \<noteq> None then 52 else 0)"
    and ts: "take 4 (drop (1 + 4 * length paths + 137) frame) = be32 timestamp"
    and fact_field: "\<And>a f. ?ca = Some a \<Longrightarrow> conditionalTransferFact = Some f \<Longrightarrow> f < 2 ^ 256 \<Longrightarrow>
         take 32 (drop (1 + 4 * length paths + 141) frame) = be_bytes 32 f"
    and address_field: "\<And>a f. ?ca = Some a \<Longrightarrow> conditionalTransferFact = Some f \<Longrightarrow> length a = 20 \<Longrightarrow>
         drop (1 + 4 * length paths + 173) frame = a"
    using starkSignTransfer_v2_frame [OF assms, of paths transferTokenAddress
        transferQuantizationType transferQuantization transferMintableBlobOrTokenId
        targetPublicKey amountTransfer conditionalTransferAddress conditionalTransferFact]
    by (elim exE conjE) simp
  define a where "a = \<lparr>cla = 0xf0, ins = 0x04, p1 = (if ?ca \<noteq> None then 0x05 else 0x04),
             p2 = 0x00, data = frame\<rparr>"
  have sel: "cla a = 0xf0" "ins a = 0x04" "p2 a = 0x00"
      "p1 a = (if ?ca \<noteq> None then 0x05 else 0x04)" "data a = frame"
    by (simp_all add: a_def)
  have supplied: "?ca = Some (hexBuffer addr)"
    if "conditionalTransferAddress = Some addr" "addr \<noteq> []" for addr
    using that by (simp add: maybeHexBuffer_def)
  have absent: "?ca = None"
    if "conditionalTransferAddress = None \<or> conditionalTransferAddress = Some []"
    using that by (auto simp: maybeHexBuffer_def)
  have last: "drop (1 + 4 * length paths + 137) frame = be32 timestamp" if "?ca = None"
    using ts len that by simp
  have built: "starkSignTransfer_v2_apdu paths transferTokenAddress transferQuantizationType
        transferQuantization transferMintableBlobOrTokenId targetPublicKey sourceVault
        destinationVault amountTransfer nonce timestamp conditionalTransferAddress
        conditionalTransferFact = Inr a"
    using f by (simp add: a_def)
  have sent: "starkSignTransfer_v2 paths transferTokenAddress transferQuantizationType
        transferQuantization transferMintableBlobOrTokenId targetPublicKey sourceVault
        destinationVault amountTransfer nonce timestamp conditionalTransferAddress
        conditionalTransferFact t s = then_resolve (t a s) parse_rs"
    by (rule starkSignTransfer_v2_sent [OF built])
  have shape: "p1 a = 0x05 \<and> length (data a) = 1 + 4 * length paths + 141 + 52 \<or>
       p1 a = 0x04 \<and> length (data a) = 1 + 4 * length paths + 141"
    using len sel by simp
  have stamp: "take 4 (drop (1 + 4 * length paths + 137) (data a)) = be32 timestamp"
    using ts sel by simp
  have with_address: "\<forall>addr. conditionalTransferAddress = Some addr \<and> addr \<noteq> [] \<longrightarrow>
         p1 a = 0x05 \<and> length (data a) = 1 + 4 * length paths + 141 + 52"
    using len supplied sel by auto
  have with_pair: "\<forall>addr f. conditionalTransferAddress = Some addr \<and> addr \<noteq> [] \<and>
           conditionalTransferFact = Some f \<longrightarrow>
         (f < 2 ^ 256 \<longrightarrow>
            take 32 (drop (1 + 4 * length paths + 141) (data a)) = be_bytes 32 f) \<and>
         (length (hexBuffer addr) = 20 \<longrightarrow>
            drop (1 + 4 * length paths + 173) (data a) = hexBuffer addr)"
    using supplied fact_field address_field sel(5) by auto
  have without: "conditionalTransferAddress = None \<or> conditionalTransferAddress = Some [] \<longrightarrow>
         p1 a = 0x04 \<and> length (data a) = 1 + 4 * length paths + 141 \<and>
         drop (1 + 4 * length paths + 137) (data a) = be32 timestamp"
    using absent len last sel by auto
  show ?thesis
    by (rule exI [of _ a])
       (intro conjI built sent sel(1) sel(2) sel(3) shape stamp with_address with_pair without)
qed

lemma hexBuffer_example_address:
  "hexBuffer ''0x000102030405060708090a0b0c0d0e0f10111213'' =
     [0, 1, 2, 3, 4, 5, 6, 7, 8, 9, 10, 11, 12, 13, 14, 15, 16, 17, 18, 19]"
  by code_simp

lemma maybeHexBuffer_example_address:
  "maybeHexBuffer (Some ''0x000102030405060708090a0b0c0d0e0f10111213'') =
     Some [0, 1, 2, 3, 4, 5, 6, 7, 8, 9, 10, 11, 12, 13, 14, 15, 16, 17, 18, 19]"
  by (simp add: maybeHexBuffer_def hexBuffer_example_address)

lemma maybeHexBuffer_None: "maybeHexBuffer None = None"
  by (simp add: maybeHexBuffer_def)

lemma hexBuffer_Nil: "hexBuffer [] = []"
  by (simp add: hexBuffer_def)

text \<open>
  An address without a fact: the pair is not supplied, yet the frame sent is the long
  one, 214 bytes where the base frame has 162, with p1 = 0x05, and its last 52 bytes are
  the zeros of the allocation: neither field is written.
\<close>

theorem address_without_fact_counterexample:
  "\<exists>frame.
     starkSignTransfer_v2 [0x8000002C, 0x8000CE10, 0x80000000, 0, 0] None eth None None [] 1 2 3 5 6
       (Some ''0x000102030405060708090a0b0c0d0e0f10111213'') None
       (\<lambda>a s. (Inr [], s @ [a])) [] =
       (Inr \<lparr>stark_r = [], stark_s = []\<rparr>,
        [\<lparr>cla = 0xf0, ins = 0x04, p1 = 0x05, p2 = 0x00, data = frame\<rparr>]) \<and>
     length frame = 214 \<and>
     drop 162 frame = replicate 52 0"
  by (simp add: starkSignTransfer_v2_def starkSignTransfer_v2_apdu_def send_frame_def
      then_resolve_def parse_rs_Nil maybeHexBuffer_example_address maybeHexBuffer_None hexBuffer_Nil
      Let_def alloc_header writeUInt32BE_built magnitude_bytes_be write_conditional_overwrite
      quantization_tag_simp set_byte_overwrite drop_overwrite)

theorem conditional_transfer_frame_agrees_with_p1_witness:
  "\<exists>a.
      starkSignTransfer_v2_apdu [0x8000002C, 0x8000CE10, 0x80000000, 0, 0] None eth None None
        [] 1 2 3 5 6 (Some ''0x000102030405060708090a0b0c0d0e0f10111213'') (Some 7) = Inr a \<and>
      p1 a = 0x05 \<and> length (data a) = 214 \<and>
      take 4 (drop 158 (data a)) = be32 6 \<and>
      take 32 (drop 162 (data a)) = be_bytes 32 7 \<and>
      drop 194 (data a) =
        [0, 1, 2, 3, 4, 5, 6, 7, 8, 9, 10, 11, 12, 13, 14, 15, 16, 17, 18, 19]"
proof -
  have u32: "(0::int) \<le> 1" "(1::int) < 2 ^ 32" "(0::int) \<le> 2" "(2::int) < 2 ^ 32"
    "(0::int) \<le> 5" "(5::int) < 2 ^ 32" "(0::int) \<le> 6" "(6::int) < 2 ^ 32"
    by simp_all
  show ?thesis
    using conditional_transfer_frame_agrees_with_p1 [OF u32,
      where paths = "[0x8000002C, 0x8000CE10, 0x80000000, 0, 0]" and transferTokenAddress = None
        and transferQuantizationType = eth and transferQuantization = None
        and transferMintableBlobOrTokenId = None and targetPublicKey = "[]" and amountTransfer = 3
        and conditionalTransferAddress = "Some ''0x000102030405060708090a0b0c0d0e0f10111213''"
        and conditionalTransferFact = "Some 7" and t = "\<lambda>a s. (Inr [], s)" and s = "()"]
    by (auto simp: hexBuffer_example_address)
qed

end
